theory Spec2Isabelle
  imports Complex_Main
begin

section \<open>JavaScript numbers\<close>

text \<open>
  The analyzers compute with JavaScript Numbers, that is IEEE-754 binary64 values.
  A Number is modelled as one of: NaN, the two infinities, negative zero, or a finite
  real (\<open>Fin 0\<close> is positive zero).  Every arithmetic operation computes the exact real
  result and rounds it to the nearest binary64 value, ties to even (\<open>rnd\<close>), with
  overflow to an infinity and underflow through the subnormal range to a signed zero.
  \<open>Math.sqrt\<close> and \<open>Math.pow\<close> with the exponents 2 and 3 used by the code are
  taken to be correctly rounded.
\<close>

datatype jsnum = NaN | PInf | NInf | NZero | Fin real

definition pow2 :: "int \<Rightarrow> real" where
  "pow2 e = (if 0 \<le> e then 2 ^ nat e else 1 / 2 ^ nat (- e))"

definition binade :: "real \<Rightarrow> int" where
  "binade x = \<lfloor>log 2 \<bar>x\<bar>\<rfloor>"

definition rne :: "real \<Rightarrow> int" where
  "rne x = (let f = \<lfloor>x\<rfloor>; d = x - of_int f in
            if d < 1/2 then f
            else if 1/2 < d then f + 1
            else if even f then f else f + 1)"

definition ulp_exp :: "real \<Rightarrow> int" where
  "ulp_exp x = max (binade x) (-1022) - 52"

definition rnd_val :: "real \<Rightarrow> real" where
  "rnd_val x = of_int (rne (x / pow2 (ulp_exp x))) * pow2 (ulp_exp x)"

definition zero_s :: "bool \<Rightarrow> jsnum" where
  "zero_s neg = (if neg then NZero else Fin 0)"

definition inf_s :: "bool \<Rightarrow> jsnum" where
  "inf_s neg = (if neg then NInf else PInf)"

definition rnd :: "real \<Rightarrow> jsnum" where
  "rnd x = (let r = rnd_val x in
            if 2 ^ 1024 \<le> \<bar>r\<bar> then inf_s (x < 0)
            else if r = 0 then zero_s (x < 0)
            else Fin r)"

fun sign_neg :: "jsnum \<Rightarrow> bool" where
  "sign_neg NInf = True"
| "sign_neg NZero = True"
| "sign_neg (Fin r) = (r < 0)"
| "sign_neg _ = False"

fun is_inf :: "jsnum \<Rightarrow> bool" where
  "is_inf PInf = True"
| "is_inf NInf = True"
| "is_inf _ = False"

fun is_zero :: "jsnum \<Rightarrow> bool" where
  "is_zero NZero = True"
| "is_zero (Fin r) = (r = 0)"
| "is_zero _ = False"

fun rv :: "jsnum \<Rightarrow> real" where
  "rv (Fin r) = r"
| "rv _ = 0"

definition isNaN :: "jsnum \<Rightarrow> bool" where
  "isNaN x = (x = NaN)"

definition js_neg :: "jsnum \<Rightarrow> jsnum" where
  "js_neg x = (case x of NaN \<Rightarrow> NaN | PInf \<Rightarrow> NInf | NInf \<Rightarrow> PInf
               | NZero \<Rightarrow> Fin 0 | Fin r \<Rightarrow> (if r = 0 then NZero else Fin (- r)))"

definition js_add :: "jsnum \<Rightarrow> jsnum \<Rightarrow> jsnum" where
  "js_add a b =
     (if a = NaN \<or> b = NaN then NaN
      else if is_inf a then (if is_inf b \<and> a \<noteq> b then NaN else a)
      else if is_inf b then b
      else if a = NZero \<and> b = NZero then NZero
      else rnd (rv a + rv b))"

definition js_sub :: "jsnum \<Rightarrow> jsnum \<Rightarrow> jsnum" where
  "js_sub a b = js_add a (js_neg b)"

definition js_mul :: "jsnum \<Rightarrow> jsnum \<Rightarrow> jsnum" where
  "js_mul a b =
     (if a = NaN \<or> b = NaN then NaN
      else if is_inf a \<or> is_inf b then
        (if is_zero a \<or> is_zero b then NaN else inf_s (sign_neg a \<noteq> sign_neg b))
      else if is_zero a \<or> is_zero b then zero_s (sign_neg a \<noteq> sign_neg b)
      else rnd (rv a * rv b))"

definition js_div :: "jsnum \<Rightarrow> jsnum \<Rightarrow> jsnum" where
  "js_div a b =
     (if a = NaN \<or> b = NaN then NaN
      else if is_inf a then (if is_inf b then NaN else inf_s (sign_neg a \<noteq> sign_neg b))
      else if is_inf b then zero_s (sign_neg a \<noteq> sign_neg b)
      else if is_zero b then (if is_zero a then NaN else inf_s (sign_neg a \<noteq> sign_neg b))
      else if is_zero a then zero_s (sign_neg a \<noteq> sign_neg b)
      else rnd (rv a / rv b))"

definition Math_sqrt :: "jsnum \<Rightarrow> jsnum" where
  "Math_sqrt x = (case x of NaN \<Rightarrow> NaN | PInf \<Rightarrow> PInf | NInf \<Rightarrow> NaN | NZero \<Rightarrow> NZero
                  | Fin r \<Rightarrow> (if r < 0 then NaN else rnd (sqrt r)))"

definition Math_abs :: "jsnum \<Rightarrow> jsnum" where
  "Math_abs x = (case x of NaN \<Rightarrow> NaN | PInf \<Rightarrow> PInf | NInf \<Rightarrow> PInf | NZero \<Rightarrow> Fin 0
                 | Fin r \<Rightarrow> Fin \<bar>r\<bar>)"

text \<open>\<open>Math.pow(x, n)\<close> for a literal exponent \<open>n\<close> that is a natural number.\<close>

definition Math_pow :: "jsnum \<Rightarrow> nat \<Rightarrow> jsnum" where
  "Math_pow x n =
     (if n = 0 then Fin 1
      else case x of NaN \<Rightarrow> NaN | PInf \<Rightarrow> PInf
        | NInf \<Rightarrow> (if odd n then NInf else PInf)
        | NZero \<Rightarrow> (if odd n then NZero else Fin 0)
        | Fin r \<Rightarrow> rnd (r ^ n))"

text \<open>The relational operators \<open><\<close>, \<open>>\<close>, \<open><=\<close>, \<open>>=\<close> and \<open>===\<close> on Numbers:
  every comparison with NaN is false, and the two zeros are equal.\<close>

fun js_lt :: "jsnum \<Rightarrow> jsnum \<Rightarrow> bool" where
  "js_lt NaN _ = False"
| "js_lt _ NaN = False"
| "js_lt PInf _ = False"
| "js_lt _ NInf = False"
| "js_lt NInf _ = True"
| "js_lt _ PInf = True"
| "js_lt a b = (rv a < rv b)"

definition js_gt :: "jsnum \<Rightarrow> jsnum \<Rightarrow> bool" where
  "js_gt a b = js_lt b a"

definition js_eq :: "jsnum \<Rightarrow> jsnum \<Rightarrow> bool" where
  "js_eq a b = (a \<noteq> NaN \<and> b \<noteq> NaN \<and> (a = b \<or> (is_zero a \<and> is_zero b)))"

definition js_ge :: "jsnum \<Rightarrow> jsnum \<Rightarrow> bool" where
  "js_ge a b = (js_lt b a \<or> js_eq a b)"

definition min2 :: "jsnum \<Rightarrow> jsnum \<Rightarrow> jsnum" where
  "min2 a b = (if a = NaN \<or> b = NaN then NaN
               else if js_lt b a then b else if js_lt a b then a
               else if b = NZero then b else a)"

definition max2 :: "jsnum \<Rightarrow> jsnum \<Rightarrow> jsnum" where
  "max2 a b = (if a = NaN \<or> b = NaN then NaN
               else if js_lt a b then b else if js_lt b a then a
               else if a = NZero then b else a)"

definition Math_min :: "jsnum list \<Rightarrow> jsnum" where
  "Math_min xs = foldl min2 PInf xs"

definition Math_max :: "jsnum list \<Rightarrow> jsnum" where
  "Math_max xs = foldl max2 NInf xs"

text \<open>A natural number (an array length or index) as a Number; exact below \<open>2^53\<close>.\<close>

definition num :: "nat \<Rightarrow> jsnum" where
  "num n = rnd (real n)"

text \<open>A decimal literal of the source text, \<open>p / q\<close>, as the Number it denotes.\<close>

definition lit :: "int \<Rightarrow> int \<Rightarrow> jsnum" where
  "lit p q = rnd (of_int p / of_int q)"


definition is_finite :: "jsnum \<Rightarrow> bool" where
  "is_finite x = (x \<noteq> NaN \<and> \<not> is_inf x)"

text \<open>A Number that is a binary64 value: rounding leaves it as it is.\<close>

definition is_double :: "jsnum \<Rightarrow> bool" where
  "is_double x = (case x of Fin r \<Rightarrow> rnd r = Fin r | _ \<Rightarrow> True)"

text \<open>
  \<open>Array.prototype.sort(cmp)\<close>: a stable sort (ECMAScript 2019) in which \<open>a\<close>
  stays before \<open>b\<close> unless \<open>cmp(a, b) > 0\<close>; a comparator result of NaN counts as 0.
  For a comparator that is not a consistent ordering the language leaves the resulting
  order to the implementation; the model then yields the order of a stable insertion sort.
\<close>

fun insert_by :: "('a \<Rightarrow> 'a \<Rightarrow> jsnum) \<Rightarrow> 'a \<Rightarrow> 'a list \<Rightarrow> 'a list" where
  "insert_by cmp x [] = [x]"
| "insert_by cmp x (y # ys) =
     (if js_gt (cmp x y) (Fin 0) then y # insert_by cmp x ys else x # y # ys)"

definition js_sort :: "('a \<Rightarrow> 'a \<Rightarrow> jsnum) \<Rightarrow> 'a list \<Rightarrow> 'a list" where
  "js_sort cmp xs = foldr (insert_by cmp) xs []"

section \<open>Strings, cells, rows and tables\<close>

text \<open>
  Strings are sequences of code units below 256 (Latin-1 text).  A cell is a raw value
  of the decoded file: \<open>null\<close>, a string or a number; \<open>CUndef\<close> is the value
  \<open>undefined\<close> obtained by reading a property that a row does not have.  A row is
  an object, kept as an association list in the order its properties were created.
\<close>

datatype cell = CNull | CUndef | CStr string | CNum jsnum

type_synonym row = "(string \<times> cell) list"

definition isWhiteSpace :: "char \<Rightarrow> bool" where
  "isWhiteSpace c = (of_char c \<in> {9, 10, 11, 12, 13, 32, 160 :: nat})"

definition isDigit :: "char \<Rightarrow> bool" where
  "isDigit c = (48 \<le> (of_char c :: nat) \<and> (of_char c :: nat) \<le> 57)"

definition digitVal :: "char \<Rightarrow> nat" where
  "digitVal c = of_char c - 48"

definition digitsVal :: "string \<Rightarrow> nat" where
  "digitsVal ds = foldl (\<lambda>a c. 10 * a + digitVal c) 0 ds"

definition lowerChar :: "char \<Rightarrow> char" where
  "lowerChar c = (let n = (of_char c :: nat) in
     if (65 \<le> n \<and> n \<le> 90) \<or> (192 \<le> n \<and> n \<le> 214) \<or> (216 \<le> n \<and> n \<le> 222)
     then char_of (n + 32) else c)"

definition toLowerCase :: "string \<Rightarrow> string" where
  "toLowerCase s = map lowerChar s"

fun startsWith :: "string \<Rightarrow> string \<Rightarrow> bool" where
  "startsWith s [] = True"
| "startsWith [] (p # ps) = False"
| "startsWith (c # cs) (p # ps) = (c = p \<and> startsWith cs ps)"

fun str_includes :: "string \<Rightarrow> string \<Rightarrow> bool" where
  "str_includes [] sub = (sub = [])"
| "str_includes (c # cs) sub = (startsWith (c # cs) sub \<or> str_includes cs sub)"

definition trimStart :: "string \<Rightarrow> string" where
  "trimStart s = dropWhile isWhiteSpace s"

definition trim :: "string \<Rightarrow> string" where
  "trim s = rev (dropWhile isWhiteSpace (rev (dropWhile isWhiteSpace s)))"

subsection \<open>Numeric literals in strings\<close>

definition pow10 :: "int \<Rightarrow> real" where
  "pow10 e = (if 0 \<le> e then 10 ^ nat e else 1 / 10 ^ nat (- e))"

definition splitSign :: "string \<Rightarrow> bool \<times> string" where
  "splitSign s = (case s of [] \<Rightarrow> (False, s)
     | c # r \<Rightarrow> if c = CHR ''-'' then (True, r) else if c = CHR ''+'' then (False, r)
               else (False, s))"

text \<open>The exponent part at the head of a string: its value and what follows it.  An
  exponent indicator without digits is not part of the literal.\<close>

definition exponentPart :: "string \<Rightarrow> int \<times> string" where
  "exponentPart s = (case s of [] \<Rightarrow> (0, s)
     | c # r \<Rightarrow>
        if c = CHR ''e'' \<or> c = CHR ''E'' then
          (let (neg, t) = splitSign r; ds = takeWhile isDigit t in
           if ds = [] then (0, s)
           else ((if neg then - int (digitsVal ds) else int (digitsVal ds)),
                 dropWhile isDigit t))
        else (0, s))"

text \<open>The longest prefix of a string that is a \<open>StrDecimalLiteral\<close>: its Number value
  (NaN when there is none) and the rest of the string.\<close>

definition strDecimalLiteral :: "string \<Rightarrow> jsnum \<times> string" where
  "strDecimalLiteral s =
     (let (neg, t) = splitSign s in
      if startsWith t ''Infinity'' then (inf_s neg, drop 8 t)
      else
        let ip = takeWhile isDigit t; r1 = dropWhile isDigit t;
            (fp, r2) = (case r1 of [] \<Rightarrow> ([], r1)
               | c # r \<Rightarrow> if c = CHR ''.'' then (takeWhile isDigit r, dropWhile isDigit r)
                         else ([], r1))
        in if ip = [] \<and> fp = [] then (NaN, s)
           else
             let (ex, r3) = exponentPart r2; m = digitsVal (ip @ fp) in
             (if m = 0 then zero_s neg
              else rnd ((if neg then - 1 else 1) * real m * pow10 (ex - int (length fp))),
              r3))"

definition hexVal :: "char \<Rightarrow> nat option" where
  "hexVal c = (let n = (of_char c :: nat) in
     if 48 \<le> n \<and> n \<le> 57 then Some (n - 48)
     else if 97 \<le> n \<and> n \<le> 102 then Some (n - 87)
     else if 65 \<le> n \<and> n \<le> 70 then Some (n - 55)
     else None)"

text \<open>A \<open>NonDecimalIntegerLiteral\<close> body: digits in the given radix.\<close>

definition radixLiteral :: "nat \<Rightarrow> string \<Rightarrow> jsnum" where
  "radixLiteral b ds =
     (if ds \<noteq> [] \<and> list_all (\<lambda>c. case hexVal c of None \<Rightarrow> False | Some v \<Rightarrow> v < b) ds
      then rnd (real (foldl (\<lambda>a c. b * a + the (hexVal c)) 0 ds))
      else NaN)"

text \<open>\<open>ToNumber\<close> applied to a string (\<open>StringToNumber\<close>).\<close>

definition stringToNumber :: "string \<Rightarrow> jsnum" where
  "stringToNumber s =
     (let t = trim s in
      if t = [] then Fin 0
      else if startsWith t ''0x'' \<or> startsWith t ''0X'' then radixLiteral 16 (drop 2 t)
      else if startsWith t ''0o'' \<or> startsWith t ''0O'' then radixLiteral 8 (drop 2 t)
      else if startsWith t ''0b'' \<or> startsWith t ''0B'' then radixLiteral 2 (drop 2 t)
      else case strDecimalLiteral t of (v, rest) \<Rightarrow> if rest = [] then v else NaN)"

text \<open>The globals \<open>parseFloat\<close> and \<open>isFinite\<close> applied to a cell.  A number cell is
  first converted to its string, which reads back as the same Number (negative zero
  prints as \<open>0\<close>).\<close>

definition parseFloat :: "cell \<Rightarrow> jsnum" where
  "parseFloat c = (case c of
       CStr s \<Rightarrow> fst (strDecimalLiteral (trimStart s))
     | CNum x \<Rightarrow> (if x = NZero then Fin 0 else x)
     | CNull \<Rightarrow> NaN
     | CUndef \<Rightarrow> NaN)"

definition isFinite :: "cell \<Rightarrow> bool" where
  "isFinite c = (case c of
       CStr s \<Rightarrow> is_finite (stringToNumber s)
     | CNum x \<Rightarrow> is_finite x
     | CNull \<Rightarrow> True
     | CUndef \<Rightarrow> False)"

text \<open>\<open>val != null && val !== ''\<close>\<close>

definition nonEmpty :: "cell \<Rightarrow> bool" where
  "nonEmpty c = (c \<noteq> CNull \<and> c \<noteq> CUndef \<and> c \<noteq> CStr [])"

subsection \<open>Objects\<close>

text \<open>\<open>row[col]\<close>: the first binding of the key, \<open>undefined\<close> when there is none.\<close>

definition getCell :: "row \<Rightarrow> string \<Rightarrow> cell" where
  "getCell r col = (case map_of r col of None \<Rightarrow> CUndef | Some c \<Rightarrow> c)"

text \<open>A property key that is an array index: a canonical decimal numeral below
  \<open>2^32 - 1\<close>.\<close>

definition isArrayIndex :: "string \<Rightarrow> bool" where
  "isArrayIndex k = (k \<noteq> [] \<and> list_all isDigit k \<and> (k = ''0'' \<or> hd k \<noteq> CHR ''0'')
                     \<and> digitsVal k < 2 ^ 32 - 1)"

text \<open>\<open>Object.keys\<close>: array-index keys in ascending numeric order, then the other keys
  in the order of their creation.\<close>

definition objectKeys :: "(string \<times> 'v) list \<Rightarrow> string list" where
  "objectKeys ob =
     (let ks = rev (remdups (rev (map fst ob))) in
      sort_key digitsVal (filter isArrayIndex ks) @ filter (\<lambda>k. \<not> isArrayIndex k) ks)"

text \<open>\<open>ob[k] = v\<close> on an object built by the analyzer.\<close>

definition objectSet :: "(string \<times> 'v) list \<Rightarrow> string \<Rightarrow> 'v \<Rightarrow> (string \<times> 'v) list" where
  "objectSet ob k v = (if k \<in> fst ` set ob then map (\<lambda>(k', v'). if k' = k then (k', v) else (k', v')) ob
                       else ob @ [(k, v)])"

subsection \<open>The parts of the runtime that are left open\<close>

text \<open>
  Date parsing (implementation-defined outside the ISO format, and read in the local
  time zone) and the formatting of Numbers as text are parameters of the model.
\<close>

record engine =
  Date_getTime :: "cell \<Rightarrow> jsnum"
  Date_getFullYear :: "cell \<Rightarrow> jsnum"
  toFixed :: "jsnum \<Rightarrow> nat \<Rightarrow> string"
  toLocaleString :: "jsnum \<Rightarrow> string"
  numberToString :: "jsnum \<Rightarrow> string"

datatype error = TypeError string | Error string


section \<open>The exploratory analyzer (class \<open>DataAnalyzer\<close>)\<close>

record trend =
  direction :: string
  slope :: jsnum

text \<open>The result of \<open>calculateStats\<close>: the first four fields are \<open>null\<close> (None) for a
  column without parseable values, and \<open>min\<close>, \<open>max\<close> are then absent.\<close>

record stats =
  mean :: "jsnum option"
  median :: "jsnum option"
  std :: "jsnum option"
  skewness :: "jsnum option"
  stats_min :: "jsnum option"
  stats_max :: "jsnum option"

datatype metrics = AvgVolatility jsnum | TrendMetrics trend | StatsMetrics stats

record theme =
  theme_name :: string
  theme_description :: string
  confidence :: jsnum
  indicators :: "string list"
  theme_type :: string
  theme_metrics :: "metrics option"

record correlation_record =
  column1 :: string
  column2 :: string
  correlation :: jsnum
  strength :: string

record described_correlation = correlation_record +
  corr_description :: string

record analyzer =
  data :: "row list option"
  columns :: "string list"
  numericColumns :: "string list"
  dateColumns :: "string list"

record DataAnalyzer = analyzer +
  themes :: "theme list"
  correlations :: "described_correlation list"

text \<open>The state after the constructor.\<close>

definition new_DataAnalyzer :: DataAnalyzer where
  "new_DataAnalyzer = \<lparr>data = None, columns = [], numericColumns = [], dateColumns = [],
                        themes = [], correlations = []\<rparr>"

definition isNumericValue :: "cell \<Rightarrow> bool" where
  "isNumericValue v = (\<not> isNaN (parseFloat v) \<and> isFinite v)"

definition isDateValue :: "engine \<Rightarrow> cell \<Rightarrow> bool" where
  "isDateValue E v = (\<not> isNaN (Date_getTime E v) \<and> js_gt (Date_getFullYear E v) (num 1900))"

definition sampleOf :: "nat \<Rightarrow> row list \<Rightarrow> string \<Rightarrow> cell list" where
  "sampleOf n rows col = filter nonEmpty (map (\<lambda>r. getCell r col) (take n rows))"

text \<open>The body of the \<open>forEach\<close> over the columns.\<close>

definition DataAnalyzer_classify :: "engine \<Rightarrow> row list \<Rightarrow> DataAnalyzer \<Rightarrow> string \<Rightarrow> DataAnalyzer" where
  "DataAnalyzer_classify E rows s col =
     (let sample = sampleOf 10 rows col;
          numericCount = length (filter isNumericValue sample);
          s1 = (if js_gt (js_div (num numericCount) (num (length sample))) (lit 8 10)
                then s\<lparr>numericColumns := numericColumns s @ [col]\<rparr> else s);
          dateCount = length (filter (isDateValue E) sample)
      in if js_gt (js_div (num dateCount) (num (length sample))) (lit 8 10)
            \<and> (str_includes (toLowerCase col) ''time'' \<or> str_includes (toLowerCase col) ''date'')
         then s1\<lparr>dateColumns := dateColumns s1 @ [col]\<rparr> else s1)"

definition DataAnalyzer_identifyColumnTypes :: "engine \<Rightarrow> DataAnalyzer \<Rightarrow> error + DataAnalyzer" where
  "DataAnalyzer_identifyColumnTypes E s =
     (case data s of
        None \<Rightarrow> Inl (TypeError ''Cannot read properties of null (reading 'length')'')
      | Some [] \<Rightarrow> Inr s
      | Some (r0 # rs) \<Rightarrow>
          Inr (foldl (DataAnalyzer_classify E (r0 # rs))
                 (s\<lparr>columns := objectKeys r0, numericColumns := [], dateColumns := []\<rparr>)
                 (objectKeys r0)))"

definition hasColumns :: "'a analyzer_scheme \<Rightarrow> string list \<Rightarrow> bool" where
  "hasColumns s requiredColumns =
     list_all (\<lambda>col. list_ex (\<lambda>existingCol. toLowerCase existingCol = toLowerCase col) (columns s))
       requiredColumns"

text \<open>The rows of the table; the methods below are only reached with a table loaded.\<close>

definition rowsOf :: "'a analyzer_scheme \<Rightarrow> row list" where
  "rowsOf s = (case data s of None \<Rightarrow> [] | Some rows \<Rightarrow> rows)"

definition sum_list_js :: "jsnum list \<Rightarrow> jsnum" where
  "sum_list_js xs = foldl js_add (Fin 0) xs"

definition calculateVolatility :: "DataAnalyzer \<Rightarrow> jsnum list" where
  "calculateVolatility s =
     (if \<not> hasColumns s [''high'', ''low''] then []
      else filter (\<lambda>v. \<not> isNaN v)
             (map (\<lambda>r. let high = parseFloat (getCell r ''high'');
                           low = parseFloat (getCell r ''low'')
                       in js_div (js_sub high low) low)
                  (rowsOf s)))"

text \<open>The points \<open>{x: index, y: parseFloat(row[column])}\<close> with a parseable \<open>y\<close>.\<close>

definition trendPoints :: "row list \<Rightarrow> string \<Rightarrow> (jsnum \<times> jsnum) list" where
  "trendPoints rows column =
     filter (\<lambda>p. \<not> isNaN (snd p))
       (map (\<lambda>(index, r). (num index, parseFloat (getCell r column)))
            (zip [0 ..< length rows] rows))"

definition regressionSlope :: "(jsnum \<times> jsnum) list \<Rightarrow> jsnum" where
  "regressionSlope vals =
     (let n = num (length vals);
          sumX = foldl (\<lambda>sum p. js_add sum (fst p)) (Fin 0) vals;
          sumY = foldl (\<lambda>sum p. js_add sum (snd p)) (Fin 0) vals;
          sumXY = foldl (\<lambda>sum p. js_add sum (js_mul (fst p) (snd p))) (Fin 0) vals;
          sumXX = foldl (\<lambda>sum p. js_add sum (js_mul (fst p) (fst p))) (Fin 0) vals
      in js_div (js_sub (js_mul n sumXY) (js_mul sumX sumY))
                (js_sub (js_mul n sumXX) (js_mul sumX sumX)))"

definition calculateTrend :: "DataAnalyzer \<Rightarrow> string \<Rightarrow> trend" where
  "calculateTrend s column =
     (let vals = trendPoints (rowsOf s) column in
      if length vals < 2 then \<lparr>direction = ''Insufficient Data'', slope = Fin 0\<rparr>
      else
        let sl = regressionSlope vals;
            dir = (if js_gt sl (lit 1 1000) then ''Upward''
                   else if js_lt sl (js_neg (lit 1 1000)) then ''Downward''
                   else ''Sideways'')
        in \<lparr>direction = dir, slope = sl\<rparr>)"

text \<open>The parseable values of a column: \<open>data.map(row => parseFloat(row[column])).filter(v => !isNaN(v))\<close>.\<close>

definition columnValues :: "row list \<Rightarrow> string \<Rightarrow> jsnum list" where
  "columnValues rows column =
     filter (\<lambda>v. \<not> isNaN v) (map (\<lambda>r. parseFloat (getCell r column)) rows)"

definition meanOf :: "jsnum list \<Rightarrow> jsnum" where
  "meanOf vals = js_div (sum_list_js vals) (num (length vals))"

definition medianOf :: "jsnum list \<Rightarrow> jsnum" where
  "medianOf sortedValues =
     (if length sortedValues mod 2 = 0
      then js_div (js_add (sortedValues ! (length sortedValues div 2 - 1))
                          (sortedValues ! (length sortedValues div 2)))
                  (Fin 2)
      else sortedValues ! (length sortedValues div 2))"

definition varianceOf :: "jsnum list \<Rightarrow> jsnum" where
  "varianceOf vals =
     js_div (foldl (\<lambda>sum val. js_add sum (Math_pow (js_sub val (meanOf vals)) 2)) (Fin 0) vals)
            (num (length vals))"

definition skewnessOf :: "jsnum list \<Rightarrow> jsnum" where
  "skewnessOf vals =
     (let m = meanOf vals; sd = Math_sqrt (varianceOf vals) in
      if js_eq sd (Fin 0) then Fin 0
      else js_div (foldl (\<lambda>sum val. js_add sum (Math_pow (js_div (js_sub val m) sd) 3))
                         (Fin 0) vals)
                  (num (length vals)))"

definition calculateStats :: "DataAnalyzer \<Rightarrow> string \<Rightarrow> stats" where
  "calculateStats s column =
     (let vals = columnValues (rowsOf s) column in
      if length vals = 0
      then \<lparr>mean = None, median = None, std = None, skewness = None,
            stats_min = None, stats_max = None\<rparr>
      else \<lparr>mean = Some (meanOf vals),
            median = Some (medianOf (js_sort js_sub vals)),
            std = Some (Math_sqrt (varianceOf vals)),
            skewness = Some (skewnessOf vals),
            stats_min = Some (Math_min vals),
            stats_max = Some (Math_max vals)\<rparr>)"

text \<open>The pairs \<open>{x, y}\<close> of two columns in the rows where both values parse.\<close>

definition validPairs :: "row list \<Rightarrow> string \<Rightarrow> string \<Rightarrow> (jsnum \<times> jsnum) list" where
  "validPairs rows col1 col2 =
     filter (\<lambda>p. \<not> isNaN (fst p) \<and> \<not> isNaN (snd p))
       (map (\<lambda>r. (parseFloat (getCell r col1), parseFloat (getCell r col2))) rows)"

definition pearsonNumerator :: "(jsnum \<times> jsnum) list \<Rightarrow> jsnum" where
  "pearsonNumerator pairs =
     (let n = num (length pairs);
          sumX = foldl (\<lambda>sum p. js_add sum (fst p)) (Fin 0) pairs;
          sumY = foldl (\<lambda>sum p. js_add sum (snd p)) (Fin 0) pairs;
          sumXY = foldl (\<lambda>sum p. js_add sum (js_mul (fst p) (snd p))) (Fin 0) pairs
      in js_sub (js_mul n sumXY) (js_mul sumX sumY))"

definition pearsonDenominator :: "(jsnum \<times> jsnum) list \<Rightarrow> jsnum" where
  "pearsonDenominator pairs =
     (let n = num (length pairs);
          sumX = foldl (\<lambda>sum p. js_add sum (fst p)) (Fin 0) pairs;
          sumY = foldl (\<lambda>sum p. js_add sum (snd p)) (Fin 0) pairs;
          sumXX = foldl (\<lambda>sum p. js_add sum (js_mul (fst p) (fst p))) (Fin 0) pairs;
          sumYY = foldl (\<lambda>sum p. js_add sum (js_mul (snd p) (snd p))) (Fin 0) pairs
      in Math_sqrt (js_mul (js_sub (js_mul n sumXX) (js_mul sumX sumX))
                           (js_sub (js_mul n sumYY) (js_mul sumY sumY))))"

text \<open>\<open>pearsonCorrelation\<close>; None is the result \<open>null\<close>.\<close>

definition pearsonCorrelation :: "DataAnalyzer \<Rightarrow> string \<Rightarrow> string \<Rightarrow> jsnum option" where
  "pearsonCorrelation s col1 col2 =
     (let pairs = validPairs (rowsOf s) col1 col2 in
      if length pairs < 2 then None
      else if js_eq (pearsonDenominator pairs) (Fin 0) then None
      else Some (js_div (pearsonNumerator pairs) (pearsonDenominator pairs)))"

definition getCorrelationStrength :: "jsnum \<Rightarrow> string" where
  "getCorrelationStrength c =
     (let a = Math_abs c in
      if js_ge a (lit 8 10) then ''Very Strong''
      else if js_ge a (lit 6 10) then ''Strong''
      else if js_ge a (lit 4 10) then ''Moderate''
      else if js_ge a (lit 2 10) then ''Weak''
      else ''Very Weak'')"

definition getCorrelationDescription :: "engine \<Rightarrow> string \<Rightarrow> string \<Rightarrow> jsnum \<Rightarrow> string" where
  "getCorrelationDescription E col1 col2 c =
     (let dir = (if js_gt c (Fin 0) then ''positive'' else ''negative'');
          str = toLowerCase (getCorrelationStrength c)
      in col1 @ '' and '' @ col2 @ '' show a '' @ str @ '' '' @ dir
         @ '' correlation ('' @ toFixed E c 3 @ ''). ''
         @ ''This means that as '' @ col1 @ '' ''
         @ (if js_gt c (Fin 0) then ''increases'' else ''decreases'') @ '', ''
         @ col2 @ '' tends to '' @ (if js_gt c (Fin 0) then ''increase'' else ''decrease'')
         @ '' as well.'')"

text \<open>The index pairs \<open>i < j\<close> of the two nested loops, in the order the loops visit them.\<close>

fun columnPairs :: "'a list \<Rightarrow> ('a \<times> 'a) list" where
  "columnPairs [] = []"
| "columnPairs (x # xs) = map (Pair x) xs @ columnPairs xs"

definition calculateCorrelations :: "engine \<Rightarrow> DataAnalyzer \<Rightarrow> DataAnalyzer" where
  "calculateCorrelations E s =
     (if length (numericColumns s) < 2 then s\<lparr>correlations := []\<rparr>
      else
        let found = concat (map (\<lambda>(col1, col2).
                      case pearsonCorrelation s col1 col2 of
                        None \<Rightarrow> []
                      | Some c \<Rightarrow>
                          if js_gt (Math_abs c) (lit 1 10)
                          then [\<lparr>column1 = col1, column2 = col2, correlation = c,
                                 strength = getCorrelationStrength c,
                                 corr_description = getCorrelationDescription E col1 col2 c\<rparr>]
                          else [])
                    (columnPairs (numericColumns s)))
        in s\<lparr>correlations :=
               js_sort (\<lambda>a b. js_sub (Math_abs (correlation b)) (Math_abs (correlation a))) found\<rparr>)"


definition distributionTheme :: "DataAnalyzer \<Rightarrow> string \<Rightarrow> theme list" where
  "distributionTheme s col =
     (let st = calculateStats s col in
      case skewness st of
        None \<Rightarrow> []
      | Some sk \<Rightarrow>
          let distributionType =
                (if js_gt (Math_abs sk) (Fin 1)
                 then (if js_gt sk (Fin 0) then ''Right-skewed'' else ''Left-skewed'')
                 else ''Normal'')
          in [\<lparr>theme_name = col @ '' Distribution: '' @ distributionType,
               theme_description = ''Statistical distribution of '' @ col @ '' showing ''
                  @ toLowerCase distributionType @ '' characteristics'',
               confidence = lit 7 10,
               indicators = [col],
               theme_type = ''distribution'',
               theme_metrics = Some (StatsMetrics st)\<rparr>])"

definition findThemes :: "engine \<Rightarrow> DataAnalyzer \<Rightarrow> DataAnalyzer" where
  "findThemes E s =
     (let financial =
            (if hasColumns s [''open'', ''high'', ''low'', ''close'']
             then [\<lparr>theme_name = ''Financial Market Data'',
                    theme_description = ''OHLC (Open, High, Low, Close) price data typical of stock market or trading data'',
                    confidence = lit 95 100,
                    indicators = [''open'', ''high'', ''low'', ''close''],
                    theme_type = ''financial'',
                    theme_metrics = None\<rparr>]
             else []);
          volume =
            (if hasColumns s [''volume'']
             then [\<lparr>theme_name = ''Trading Volume Analysis'',
                    theme_description = ''Volume data indicating trading activity and market liquidity'',
                    confidence = lit 9 10,
                    indicators = [''volume''],
                    theme_type = ''financial'',
                    theme_metrics = None\<rparr>]
             else []);
          temporal =
            (if length (dateColumns s) > 0
             then [\<lparr>theme_name = ''Time Series Data'',
                    theme_description = ''Data with temporal components allowing for trend analysis over time'',
                    confidence = lit 85 100,
                    indicators = dateColumns s,
                    theme_type = ''temporal'',
                    theme_metrics = None\<rparr>]
             else []);
          volatility =
            (if hasColumns s [''high'', ''low'']
             then (let volatilities = calculateVolatility s;
                       avgVolatility = js_div (sum_list_js volatilities) (num (length volatilities))
                   in [\<lparr>theme_name = ''Price Volatility Patterns'',
                        theme_description = ''Price volatility analysis shows average volatility of ''
                           @ toFixed E avgVolatility 4,
                        confidence = lit 8 10,
                        indicators = [''high'', ''low''],
                        theme_type = ''statistical'',
                        theme_metrics = Some (AvgVolatility avgVolatility)\<rparr>])
             else []);
          trendThemes =
            (if hasColumns s [''close''] \<and> length (rowsOf s) > 10
             then (let t = calculateTrend s ''close''
                   in [\<lparr>theme_name = ''Price Trend: '' @ direction t,
                        theme_description = ''Overall price trend showing '' @ direction t
                           @ '' movement with slope of '' @ toFixed E (slope t) 6,
                        confidence = (if js_gt (Math_abs (slope t)) (lit 1 1000)
                                      then lit 8 10 else lit 5 10),
                        indicators = [''close''],
                        theme_type = ''trend'',
                        theme_metrics = Some (TrendMetrics t)\<rparr>])
             else [])
      in s\<lparr>themes := financial @ volume @ temporal @ volatility @ trendThemes
                        @ concat (map (distributionTheme s) (numericColumns s))\<rparr>)"

text \<open>\<open>analyzeData\<close>; the final delay has no effect on the state.\<close>

definition analyzeData :: "engine \<Rightarrow> DataAnalyzer \<Rightarrow> error + DataAnalyzer" where
  "analyzeData E s =
     (if data s = None \<or> data s = Some [] then Inl (Error ''No data to analyze'')
      else case DataAnalyzer_identifyColumnTypes E s of
             Inl e \<Rightarrow> Inl e
           | Inr s1 \<Rightarrow> Inr (calculateCorrelations E (findThemes E s1)))"


section \<open>The comprehensive analyzer (class \<open>ComprehensiveDataAnalyzer\<close>)\<close>

text \<open>
  The result aggregate \<open>analysisResults\<close> starts as the empty object; a field that has
  not been assigned yet is None.  Fields that the analysis creates and never fills
  (the \<open>insights\<close> arrays of the sub-analyses, \<open>performance.trends\<close>,
  \<open>temporal.seasonality\<close>) are constant and left out.  Objects keyed by column or
  segment names are association lists; the property name \<open>__proto__\<close> is not modelled.
\<close>

record qualityMetrics =
  completeness :: "(string \<times> string) list"
  uniqueness :: "(string \<times> nat) list"
  overall :: jsnum

record keyMetric =
  label :: string
  metric_value :: string
  metric_type :: string

record executiveSummary =
  totalRows :: nat
  totalColumns :: nat
  numericColumnCount :: nat
  dateColumnCount :: nat
  categoricalColumnCount :: nat
  dataQualityScore :: jsnum
  keyMetrics :: "keyMetric list"

record efficiencyMetrics =
  cpc :: "jsnum option"
  costPerConversion :: "jsnum option"
  roi :: "jsnum option"

record performanceAnalysis =
  topPerformers :: "row list"
  efficiency :: efficiencyMetrics

record segmentMetrics =
  seg_sum :: jsnum
  seg_avg :: jsnum
  seg_count :: nat

type_synonym groups = "(string \<times> row list) list"

type_synonym segmentPerformance = "(string \<times> (string \<times> segmentMetrics) list) list"

record demographicAnalysis =
  segments :: "(string \<times> groups) list"
  demo_performance :: "(string \<times> segmentPerformance) list"

text \<open>The result of \<open>calculateTrends\<close>, an object with up to three properties.\<close>

record trends =
  trends_direction :: "string option"
  trends_slope :: "jsnum option"
  trends_metric :: "string option"

record temporalAnalysis =
  temporal_trends :: trends

record distributionStats =
  d_mean :: jsnum
  d_median :: jsnum
  d_std :: jsnum
  d_skewness :: jsnum
  d_min :: jsnum
  d_max :: jsnum
  q1 :: jsnum
  q3 :: jsnum

record statisticalAnalysis =
  distributions :: "(string \<times> distributionStats option) list"
  outliers :: "(string \<times> jsnum list) list"

record correlationAnalysis =
  significant :: "correlation_record list"

record insight =
  insight_type :: string
  insight_title :: string
  insight_description :: string

record recommendation =
  priority :: string
  rec_title :: string
  rec_description :: string

record analysisResults =
  dataQuality :: "qualityMetrics option"
  executiveSummary :: "executiveSummary option"
  performance :: "performanceAnalysis option"
  demographics :: "demographicAnalysis option"
  temporal :: "temporalAnalysis option"
  statistical :: "statisticalAnalysis option"
  res_correlations :: "correlationAnalysis option"
  advancedInsights :: "insight list option"
  recommendations :: "recommendation list option"

record ComprehensiveDataAnalyzer = analyzer +
  categoricalColumns :: "string list"
  analysisResults :: analysisResults

definition new_ComprehensiveDataAnalyzer :: ComprehensiveDataAnalyzer where
  "new_ComprehensiveDataAnalyzer =
     \<lparr>data = None, columns = [], numericColumns = [], dateColumns = [],
      categoricalColumns = [],
      analysisResults = \<lparr>dataQuality = None, executiveSummary = None, performance = None,
        demographics = None, temporal = None, statistical = None, res_correlations = None,
        advancedInsights = None, recommendations = None\<rparr>\<rparr>"

text \<open>Sequencing of steps that can throw.\<close>

definition andThen :: "error + 'a \<Rightarrow> ('a \<Rightarrow> error + 'b) \<Rightarrow> error + 'b" where
  "andThen r f = (case r of Inl e \<Rightarrow> Inl e | Inr x \<Rightarrow> f x)"

subsection \<open>Column types\<close>

text \<open>The body of the \<open>forEach\<close>: each branch that pushes the column returns.\<close>

definition Comprehensive_classify ::
  "engine \<Rightarrow> row list \<Rightarrow> ComprehensiveDataAnalyzer \<Rightarrow> string \<Rightarrow> ComprehensiveDataAnalyzer" where
  "Comprehensive_classify E rows s col =
     (let sample = sampleOf (min 100 (length rows)) rows col;
          numericCount = length (filter isNumericValue sample)
      in if js_gt (js_div (num numericCount) (num (length sample))) (lit 7 10)
         then s\<lparr>numericColumns := numericColumns s @ [col]\<rparr>
         else
           let dateCount = length (filter (isDateValue E) sample)
           in if js_gt (js_div (num dateCount) (num (length sample))) (lit 7 10)
              then s\<lparr>dateColumns := dateColumns s @ [col]\<rparr>
              else s\<lparr>categoricalColumns := categoricalColumns s @ [col]\<rparr>)"

definition Comprehensive_identifyColumnTypes ::
  "engine \<Rightarrow> ComprehensiveDataAnalyzer \<Rightarrow> error + ComprehensiveDataAnalyzer" where
  "Comprehensive_identifyColumnTypes E s =
     (case data s of
        None \<Rightarrow> Inl (TypeError ''Cannot read properties of null (reading 'length')'')
      | Some [] \<Rightarrow> Inr s
      | Some (r0 # rs) \<Rightarrow>
          Inr (foldl (Comprehensive_classify E (r0 # rs))
                 (s\<lparr>columns := objectKeys r0, numericColumns := [], dateColumns := [],
                    categoricalColumns := []\<rparr>)
                 (objectKeys r0)))"

subsection \<open>Data quality\<close>

text \<open>The key under which \<open>new Set\<close> stores a cell (SameValueZero: the two zeros are
  one value).\<close>

definition setKey :: "cell \<Rightarrow> cell" where
  "setKey c = (if c = CNum NZero then CNum (Fin 0) else c)"

definition objectValues :: "(string \<times> 'v) list \<Rightarrow> 'v list" where
  "objectValues ob = concat (map (\<lambda>k. case map_of ob k of None \<Rightarrow> [] | Some v \<Rightarrow> [v]) (objectKeys ob))"

definition objectEntries :: "(string \<times> 'v) list \<Rightarrow> (string \<times> 'v) list" where
  "objectEntries ob =
     concat (map (\<lambda>k. case map_of ob k of None \<Rightarrow> [] | Some v \<Rightarrow> [(k, v)]) (objectKeys ob))"

definition assessDataQuality :: "engine \<Rightarrow> ComprehensiveDataAnalyzer \<Rightarrow> ComprehensiveDataAnalyzer" where
  "assessDataQuality E s =
     (let rows = rowsOf s;
          totalRows = length rows;
          nonNullValues = (\<lambda>col. filter nonEmpty (map (\<lambda>r. getCell r col) rows));
          compl = foldl (\<lambda>ob col. objectSet ob col
                     (toFixed E (js_mul (js_div (num (length (nonNullValues col))) (num totalRows))
                                        (Fin 100)) 1))
                   [] (columns s);
          uniq = foldl (\<lambda>ob col. objectSet ob col
                     (length (remdups (map setKey (nonNullValues col)))))
                   [] (columns s);
          avgCompleteness =
            js_div (foldl (\<lambda>sum val. js_add sum (parseFloat (CStr val))) (Fin 0) (objectValues compl))
                   (num (length (columns s)))
      in s\<lparr>analysisResults := (analysisResults s)
            \<lparr>dataQuality := Some \<lparr>completeness = compl, uniqueness = uniq,
                                  overall = avgCompleteness\<rparr>\<rparr>\<rparr>)"

subsection \<open>Helper methods\<close>

definition sumColumn :: "row list \<Rightarrow> string \<Rightarrow> jsnum" where
  "sumColumn rows columnName =
     foldl (\<lambda>sum r. let v = parseFloat (getCell r columnName)
                     in js_add sum (if isNaN v then Fin 0 else v))
           (Fin 0) rows"

definition isWordChar :: "char \<Rightarrow> bool" where
  "isWordChar c = (let n = (of_char c :: nat) in
     (48 \<le> n \<and> n \<le> 57) \<or> (65 \<le> n \<and> n \<le> 90) \<or> n = 95 \<or> (97 \<le> n \<and> n \<le> 122))"

definition upperChar :: "char \<Rightarrow> char" where
  "upperChar c = (let n = (of_char c :: nat) in
     if 97 \<le> n \<and> n \<le> 122 then char_of (n - 32) else c)"

text \<open>\<open>replace(/\b\w/g, l => l.toUpperCase())\<close>: a word character is replaced when no
  word character precedes it.\<close>

fun capitalizeWords :: "bool \<Rightarrow> string \<Rightarrow> string" where
  "capitalizeWords inWord [] = []"
| "capitalizeWords inWord (c # cs) =
     (if isWordChar c
      then (if inWord then c else upperChar c) # capitalizeWords True cs
      else c # capitalizeWords False cs)"

definition formatColumnName :: "string \<Rightarrow> string" where
  "formatColumnName col =
     capitalizeWords False (map (\<lambda>c. if c = CHR ''_'' then CHR '' '' else c) col)"

text \<open>The property key of a cell used as \<open>groups[key]\<close>.\<close>

definition cellKey :: "engine \<Rightarrow> cell \<Rightarrow> string" where
  "cellKey E c = (case c of CStr k \<Rightarrow> k | CNum x \<Rightarrow> numberToString E x
                  | CNull \<Rightarrow> ''null'' | CUndef \<Rightarrow> ''undefined'')"

text \<open>The property names every object inherits from \<open>Object.prototype\<close>.  For such a
  key \<open>groups[key]\<close> is an inherited value, no array is created, and the call of
  \<open>push\<close> throws.\<close>

definition objectPrototypeKeys :: "string list" where
  "objectPrototypeKeys =
     [''constructor'', ''__defineGetter__'', ''__defineSetter__'', ''hasOwnProperty'',
      ''__lookupGetter__'', ''__lookupSetter__'', ''isPrototypeOf'',
      ''propertyIsEnumerable'', ''toString'', ''valueOf'', ''__proto__'', ''toLocaleString'']"

fun groupRows :: "engine \<Rightarrow> string \<Rightarrow> groups \<Rightarrow> row list \<Rightarrow> error + groups" where
  "groupRows E column gs [] = Inr gs"
| "groupRows E column gs (r # rs) =
     (let key = cellKey E (getCell r column) in
      if key \<in> set objectPrototypeKeys
      then Inl (TypeError ''groups[key].push is not a function'')
      else groupRows E column
             (case map_of gs key of
                None \<Rightarrow> gs @ [(key, [r])]
              | Some g \<Rightarrow> objectSet gs key (g @ [r]))
             rs)"

definition groupBy :: "engine \<Rightarrow> row list \<Rightarrow> string \<Rightarrow> error + groups" where
  "groupBy E rows column = groupRows E column [] rows"

subsection \<open>Correlation and distribution statistics\<close>

definition calculateCorrelation :: "row list \<Rightarrow> string \<Rightarrow> string \<Rightarrow> jsnum" where
  "calculateCorrelation rows col1 col2 =
     (let pairs = validPairs rows col1 col2 in
      if length pairs < 2 then Fin 0
      else if js_eq (pearsonDenominator pairs) (Fin 0) then Fin 0
      else js_div (pearsonNumerator pairs) (pearsonDenominator pairs))"

text \<open>\<open>Math.floor(sorted.length * 0.25)\<close> and \<open>Math.floor(sorted.length * 0.75)\<close>: both
  products are exact for an array length, so the indices are \<open>n div 4\<close> and
  \<open>3 * n div 4\<close>.\<close>

definition calculateDistributionStats :: "jsnum list \<Rightarrow> distributionStats option" where
  "calculateDistributionStats vals =
     (if length vals = 0 then None
      else
        let sortedValues = js_sort js_sub vals in
        Some \<lparr>d_mean = meanOf vals,
              d_median = medianOf sortedValues,
              d_std = Math_sqrt (varianceOf vals),
              d_skewness = skewnessOf vals,
              d_min = Math_min vals,
              d_max = Math_max vals,
              q1 = sortedValues ! (length sortedValues div 4),
              q3 = sortedValues ! (3 * length sortedValues div 4)\<rparr>)"

definition lowerBound :: "distributionStats \<Rightarrow> jsnum" where
  "lowerBound st = js_sub (q1 st) (js_mul (lit 15 10) (js_sub (q3 st) (q1 st)))"

definition upperBound :: "distributionStats \<Rightarrow> jsnum" where
  "upperBound st = js_add (q3 st) (js_mul (lit 15 10) (js_sub (q3 st) (q1 st)))"

definition detectOutliers :: "jsnum list \<Rightarrow> jsnum list" where
  "detectOutliers vals =
     (case calculateDistributionStats vals of
        None \<Rightarrow> []
      | Some st \<Rightarrow> filter (\<lambda>val. js_lt val (lowerBound st) \<or> js_gt val (upperBound st)) vals)"


subsection \<open>Executive summary\<close>

definition undefinedProperty :: "string \<Rightarrow> error" where
  "undefinedProperty p = TypeError (''Cannot read properties of undefined (reading '' @ p @ '')'')"

definition generateExecutiveSummary ::
  "engine \<Rightarrow> ComprehensiveDataAnalyzer \<Rightarrow> error + ComprehensiveDataAnalyzer" where
  "generateExecutiveSummary E s =
     (case dataQuality (analysisResults s) of
        None \<Rightarrow> Inl (undefinedProperty ''overall'')
      | Some dq \<Rightarrow>
          let rows = rowsOf s;
              metricsList =
                (if hasColumns s [''impressions'', ''clicks'', ''spent'']
                 then
                   (let totalImpressions = sumColumn rows ''impressions'';
                        totalClicks = sumColumn rows ''clicks'';
                        totalSpent = sumColumn rows ''spent'';
                        ctr = (if js_gt totalImpressions (Fin 0)
                               then js_mul (js_div totalClicks totalImpressions) (Fin 100)
                               else Fin 0)
                    in [\<lparr>label = ''Total Impressions'',
                         metric_value = toLocaleString E totalImpressions, metric_type = ''count''\<rparr>,
                        \<lparr>label = ''Total Clicks'',
                         metric_value = toLocaleString E totalClicks, metric_type = ''count''\<rparr>,
                        \<lparr>label = ''Total Spend'',
                         metric_value = ''$'' @ toLocaleString E totalSpent, metric_type = ''currency''\<rparr>,
                        \<lparr>label = ''Overall CTR'',
                         metric_value = toFixed E ctr 3 @ ''%'', metric_type = ''percentage''\<rparr>])
                 else map (\<lambda>col. \<lparr>label = formatColumnName col,
                                    metric_value = toLocaleString E (sumColumn rows col),
                                    metric_type = ''count''\<rparr>)
                          (take 4 (numericColumns s)))
          in Inr (s\<lparr>analysisResults := (analysisResults s)
                \<lparr>executiveSummary := Some
                   \<lparr>totalRows = length rows,
                    totalColumns = length (columns s),
                    numericColumnCount = length (numericColumns s),
                    dateColumnCount = length (dateColumns s),
                    categoricalColumnCount = length (categoricalColumns s),
                    dataQualityScore = overall dq,
                    keyMetrics = metricsList\<rparr>\<rparr>\<rparr>))"

subsection \<open>Performance\<close>

definition calculateEfficiencyMetrics :: "ComprehensiveDataAnalyzer \<Rightarrow> efficiencyMetrics" where
  "calculateEfficiencyMetrics s =
     (let rows = rowsOf s;
          e1 = (if hasColumns s [''spent'', ''clicks'']
                then (let totalSpent = sumColumn rows ''spent'';
                          totalClicks = sumColumn rows ''clicks''
                      in \<lparr>cpc = Some (if js_gt totalClicks (Fin 0)
                                        then js_div totalSpent totalClicks else Fin 0),
                          costPerConversion = None, roi = None\<rparr>)
                else \<lparr>cpc = None, costPerConversion = None, roi = None\<rparr>)
      in if hasColumns s [''spent'', ''approved_conversion'']
         then (let totalSpent = sumColumn rows ''spent'';
                   totalConversions = sumColumn rows ''approved_conversion''
               in e1\<lparr>costPerConversion := Some (if js_gt totalConversions (Fin 0)
                                                  then js_div totalSpent totalConversions else Fin 0),
                     roi := Some (if js_gt totalSpent (Fin 0)
                                  then js_div totalConversions totalSpent else Fin 0)\<rparr>)
         else e1)"

text \<open>The sort is applied to the copy \<open>[...this.data]\<close>; \<open>this.data\<close> keeps its order.\<close>

definition performPerformanceAnalysis :: "ComprehensiveDataAnalyzer \<Rightarrow> ComprehensiveDataAnalyzer" where
  "performPerformanceAnalysis s =
     (let top = (case numericColumns s of
                   [] \<Rightarrow> []
                 | primaryMetric # _ \<Rightarrow>
                     take 10 (js_sort (\<lambda>a b. js_sub (parseFloat (getCell b primaryMetric))
                                                      (parseFloat (getCell a primaryMetric)))
                                      (rowsOf s)));
          eff = (if hasColumns s [''spent'', ''clicks''] \<or> hasColumns s [''cost'', ''revenue'']
                 then calculateEfficiencyMetrics s
                 else \<lparr>cpc = None, costPerConversion = None, roi = None\<rparr>)
      in s\<lparr>analysisResults := (analysisResults s)
            \<lparr>performance := Some \<lparr>topPerformers = top, efficiency = eff\<rparr>\<rparr>\<rparr>)"

subsection \<open>Demographics\<close>

definition calculateSegmentPerformance ::
  "ComprehensiveDataAnalyzer \<Rightarrow> groups \<Rightarrow> segmentPerformance" where
  "calculateSegmentPerformance s segs =
     foldl (\<lambda>perf (segment, segmentData).
              objectSet perf segment
                (foldl (\<lambda>ms numCol.
                          let vals = columnValues segmentData numCol
                          in objectSet ms numCol
                               \<lparr>seg_sum = sum_list_js vals,
                                seg_avg = (if length vals > 0
                                           then js_div (sum_list_js vals) (num (length vals))
                                           else Fin 0),
                                seg_count = length vals\<rparr>)
                       [] (numericColumns s)))
           [] (objectEntries segs)"

definition isDemographicColumn :: "string \<Rightarrow> bool" where
  "isDemographicColumn col =
     list_ex (\<lambda>demo. str_includes (toLowerCase col) demo)
       [''age'', ''gender'', ''location'', ''segment'', ''category'', ''type'']"

fun demographicColumns ::
  "engine \<Rightarrow> ComprehensiveDataAnalyzer \<Rightarrow> demographicAnalysis \<Rightarrow> string list
   \<Rightarrow> error + demographicAnalysis" where
  "demographicColumns E s d [] = Inr d"
| "demographicColumns E s d (col # cols) =
     (case groupBy E (rowsOf s) col of
        Inl e \<Rightarrow> Inl e
      | Inr segs \<Rightarrow>
          demographicColumns E s
            (d\<lparr>segments := objectSet (segments d) col segs,
               demo_performance :=
                 (if length (numericColumns s) > 0
                  then objectSet (demo_performance d) col (calculateSegmentPerformance s segs)
                  else demo_performance d)\<rparr>)
            cols)"

definition performDemographicAnalysis ::
  "engine \<Rightarrow> ComprehensiveDataAnalyzer \<Rightarrow> error + ComprehensiveDataAnalyzer" where
  "performDemographicAnalysis E s =
     (case demographicColumns E s \<lparr>segments = [], demo_performance = []\<rparr>
             (filter isDemographicColumn (categoricalColumns s)) of
        Inl e \<Rightarrow> Inl e
      | Inr d \<Rightarrow> Inr (s\<lparr>analysisResults := (analysisResults s)\<lparr>demographics := Some d\<rparr>\<rparr>))"

text \<open>A Number in a condition: NaN and the zeros are falsy.\<close>

definition truthy :: "jsnum \<Rightarrow> bool" where
  "truthy x = (x \<noteq> NaN \<and> \<not> is_zero x)"

definition orZero :: "jsnum \<Rightarrow> jsnum" where
  "orZero x = (if truthy x then x else Fin 0)"

definition findBestPerformingSegments :: "ComprehensiveDataAnalyzer \<Rightarrow> error + string list" where
  "findBestPerformingSegments s =
     (case demographics (analysisResults s) of
        None \<Rightarrow> Inl (undefinedProperty ''performance'')
      | Some d \<Rightarrow>
          Inr (concat (map (\<lambda>(column, segs).
                 case numericColumns s of
                   [] \<Rightarrow> []
                 | primaryMetric # _ \<Rightarrow>
                     if primaryMetric = [] then []
                     else
                       let avgOf = (\<lambda>m. case map_of m primaryMetric of
                                            None \<Rightarrow> Fin 0 | Some x \<Rightarrow> orZero (seg_avg x));
                           sortedSegments =
                             js_sort (\<lambda>a b. js_sub (avgOf (snd b)) (avgOf (snd a)))
                                     (objectEntries segs)
                       in (case sortedSegments of
                             [] \<Rightarrow> []
                           | best # _ \<Rightarrow> [column @ '': '' @ fst best]))
               (objectEntries (demo_performance d)))))"

subsection \<open>Time series\<close>

text \<open>An element of the time series: the time value of its \<open>date\<close> and the numeric
  columns, each \<open>parseFloat(row[col]) || 0\<close>.\<close>

record timeSeriesItem =
  item_date :: jsnum
  item_fields :: "(string \<times> jsnum) list"

text \<open>A numeric column called \<open>date\<close> overwrites the \<open>date\<close> property of every element
  with a Number, and the filter then calls \<open>getTime\<close> on that Number.\<close>

definition createTimeSeriesData ::
  "engine \<Rightarrow> ComprehensiveDataAnalyzer \<Rightarrow> string \<Rightarrow> error + timeSeriesItem list" where
  "createTimeSeriesData E s dateColumn =
     (if ''date'' \<in> set (numericColumns s) \<and> rowsOf s \<noteq> []
      then Inl (TypeError ''item.date.getTime is not a function'')
      else Inr (js_sort (\<lambda>a b. js_sub (item_date a) (item_date b))
             (filter (\<lambda>item. \<not> isNaN (item_date item))
                (map (\<lambda>r. \<lparr>item_date = Date_getTime E (getCell r dateColumn),
                            item_fields = foldl (\<lambda>acc col. objectSet acc col
                                                   (orZero (parseFloat (getCell r col))))
                                                [] (numericColumns s)\<rparr>)
                     (rowsOf s)))))"

definition calculateTrends :: "ComprehensiveDataAnalyzer \<Rightarrow> timeSeriesItem list \<Rightarrow> trends" where
  "calculateTrends s timeSeriesData =
     (if length timeSeriesData < 2
      then \<lparr>trends_direction = Some ''insufficient_data'', trends_slope = None, trends_metric = None\<rparr>
      else case numericColumns s of
        [] \<Rightarrow> \<lparr>trends_direction = Some ''no_numeric_data'', trends_slope = None, trends_metric = None\<rparr>
      | primaryMetric # _ \<Rightarrow>
          if primaryMetric = []
          then \<lparr>trends_direction = Some ''no_numeric_data'', trends_slope = None, trends_metric = None\<rparr>
          else
            let vals = map (\<lambda>(index, item).
                              (num index, case map_of (item_fields item) primaryMetric of
                                            None \<Rightarrow> NaN | Some y \<Rightarrow> y))
                           (zip [0 ..< length timeSeriesData] timeSeriesData);
                sl = regressionSlope vals;
                dir = (if js_gt sl (lit 1 1000) then ''increasing''
                       else if js_lt sl (js_neg (lit 1 1000)) then ''declining''
                       else ''stable'')
            in \<lparr>trends_direction = Some dir, trends_slope = Some sl,
                trends_metric = Some primaryMetric\<rparr>)"

definition performTemporalAnalysis ::
  "engine \<Rightarrow> ComprehensiveDataAnalyzer \<Rightarrow> error + ComprehensiveDataAnalyzer" where
  "performTemporalAnalysis E s =
     (case dateColumns s of
        [] \<Rightarrow> Inr (s\<lparr>analysisResults := (analysisResults s)
                 \<lparr>temporal := Some \<lparr>temporal_trends =
                     \<lparr>trends_direction = None, trends_slope = None, trends_metric = None\<rparr>\<rparr>\<rparr>\<rparr>)
      | dateCol # _ \<Rightarrow>
          (case createTimeSeriesData E s dateCol of
             Inl e \<Rightarrow> Inl e
           | Inr timeSeriesData \<Rightarrow>
               Inr (s\<lparr>analysisResults := (analysisResults s)
                 \<lparr>temporal := Some \<lparr>temporal_trends = calculateTrends s timeSeriesData\<rparr>\<rparr>\<rparr>)))"

subsection \<open>Statistics and correlations\<close>

definition performStatisticalAnalysis :: "ComprehensiveDataAnalyzer \<Rightarrow> ComprehensiveDataAnalyzer" where
  "performStatisticalAnalysis s =
     (let dists = foldl (\<lambda>ob col. objectSet ob col
                           (calculateDistributionStats (columnValues (rowsOf s) col)))
                        [] (numericColumns s);
          outl = foldl (\<lambda>ob col. objectSet ob col (detectOutliers (columnValues (rowsOf s) col)))
                       [] (numericColumns s)
      in s\<lparr>analysisResults := (analysisResults s)
            \<lparr>statistical := Some \<lparr>distributions = dists, outliers = outl\<rparr>\<rparr>\<rparr>)"

definition significantCorrelations :: "row list \<Rightarrow> string list \<Rightarrow> correlation_record list" where
  "significantCorrelations rows numCols =
     (if length numCols \<ge> 2
      then concat (map (\<lambda>(col1, col2).
                     let c = calculateCorrelation rows col1 col2
                     in if js_gt (Math_abs c) (lit 3 10)
                        then [\<lparr>column1 = col1, column2 = col2, correlation = c,
                               strength = getCorrelationStrength c\<rparr>]
                        else [])
                   (columnPairs numCols))
      else [])"

definition performCorrelationAnalysis :: "ComprehensiveDataAnalyzer \<Rightarrow> ComprehensiveDataAnalyzer" where
  "performCorrelationAnalysis s =
     s\<lparr>analysisResults := (analysisResults s)
        \<lparr>res_correlations := Some \<lparr>significant =
            significantCorrelations (rowsOf s) (numericColumns s)\<rparr>\<rparr>\<rparr>"

subsection \<open>Insights and recommendations\<close>

fun joinWith :: "string \<Rightarrow> string list \<Rightarrow> string" where
  "joinWith sep [] = []"
| "joinWith sep [x] = x"
| "joinWith sep (x # y # ys) = x @ sep @ joinWith sep (y # ys)"

definition generateAdvancedInsights ::
  "engine \<Rightarrow> ComprehensiveDataAnalyzer \<Rightarrow> error + ComprehensiveDataAnalyzer" where
  "generateAdvancedInsights E s =
     (case dataQuality (analysisResults s) of
        None \<Rightarrow> Inl (undefinedProperty ''overall'')
      | Some dq \<Rightarrow>
     (case performance (analysisResults s) of
        None \<Rightarrow> Inl (undefinedProperty ''efficiency'')
      | Some perf \<Rightarrow>
     (case res_correlations (analysisResults s) of
        None \<Rightarrow> Inl (undefinedProperty ''significant'')
      | Some cs \<Rightarrow>
          let avgQuality = overall dq;
              quality =
                (if js_lt avgQuality (Fin 80)
                 then [\<lparr>insight_type = ''warning'', insight_title = ''Data Quality Concern'',
                        insight_description = ''Average data completeness is ''
                          @ toFixed E avgQuality 1
                          @ ''%. Consider data cleaning to improve analysis accuracy.''\<rparr>]
                 else []);
              roiInsight =
                (case roi (efficiency perf) of
                   None \<Rightarrow> []
                 | Some r \<Rightarrow>
                     if truthy r \<and> js_lt r (Fin 1)
                     then [\<lparr>insight_type = ''opportunity'',
                            insight_title = ''ROI Optimization Opportunity'',
                            insight_description = ''Current ROI is '' @ toFixed E r 2
                              @ ''. Focus on high-performing segments to improve returns.''\<rparr>]
                     else []);
              strongCorrelations =
                filter (\<lambda>c. js_gt (Math_abs (correlation c)) (lit 7 10)) (significant cs);
              strong =
                (if length strongCorrelations > 0
                 then [\<lparr>insight_type = ''insight'', insight_title = ''Strong Correlations Detected'',
                        insight_description = ''Found ''
                          @ numberToString E (num (length strongCorrelations))
                          @ '' strong correlations that could indicate causal relationships.''\<rparr>]
                 else [])
          in Inr (s\<lparr>analysisResults := (analysisResults s)
                \<lparr>advancedInsights := Some (quality @ roiInsight @ strong)\<rparr>\<rparr>))))"

definition generateRecommendations ::
  "engine \<Rightarrow> ComprehensiveDataAnalyzer \<Rightarrow> error + ComprehensiveDataAnalyzer" where
  "generateRecommendations E s =
     (case findBestPerformingSegments s of
        Inl e \<Rightarrow> Inl e
      | Inr bestSegments \<Rightarrow>
     (case temporal (analysisResults s) of
        None \<Rightarrow> Inl (undefinedProperty ''trends'')
      | Some tmp \<Rightarrow>
     (case dataQuality (analysisResults s) of
        None \<Rightarrow> Inl (undefinedProperty ''completeness'')
      | Some dq \<Rightarrow>
          let segmentRec =
                (if length bestSegments > 0
                 then [\<lparr>priority = ''high'', rec_title = ''Focus on High-Performing Segments'',
                        rec_description = ''Allocate more resources to ''
                          @ joinWith '', '' bestSegments
                          @ '' segments which show superior performance metrics.''\<rparr>]
                 else []);
              trendRec =
                (if trends_direction (temporal_trends tmp) = Some ''declining''
                 then [\<lparr>priority = ''high'', rec_title = ''Address Declining Trend'',
                        rec_description = ''Implement strategies to reverse the declining performance trend identified in the temporal analysis.''\<rparr>]
                 else []);
              lowQualityColumns =
                map fst (filter (\<lambda>(col, quality). js_lt (parseFloat (CStr quality)) (Fin 70))
                                (objectEntries (completeness dq)));
              qualityRec =
                (if length lowQualityColumns > 0
                 then [\<lparr>priority = ''medium'', rec_title = ''Improve Data Collection'',
                        rec_description = ''Improve data collection for ''
                          @ joinWith '', '' lowQualityColumns
                          @ '' to enhance analysis accuracy.''\<rparr>]
                 else [])
          in Inr (s\<lparr>analysisResults := (analysisResults s)
                \<lparr>recommendations := Some (segmentRec @ trendRec @ qualityRec)\<rparr>\<rparr>))))"

subsection \<open>The entry point\<close>

text \<open>\<open>performComprehensiveAnalysis\<close>; the final delay has no effect on the state.\<close>

definition performComprehensiveAnalysis ::
  "engine \<Rightarrow> ComprehensiveDataAnalyzer \<Rightarrow> error + ComprehensiveDataAnalyzer" where
  "performComprehensiveAnalysis E s =
     andThen (Comprehensive_identifyColumnTypes E s) (\<lambda>s1.
     andThen (generateExecutiveSummary E (assessDataQuality E s1)) (\<lambda>s3.
     andThen (performDemographicAnalysis E (performPerformanceAnalysis s3)) (\<lambda>s5.
     andThen (performTemporalAnalysis E s5) (\<lambda>s6.
     andThen (generateAdvancedInsights E (performCorrelationAnalysis (performStatisticalAnalysis s6)))
             (generateRecommendations E)))))"

section \<open>Auxiliary notions for the proofs\<close>

text \<open>The order of the non-NaN Numbers: the rank separates the infinities from the finite
  values, which compare by their real value; \<open>not_below a b\<close> is \<open>a \<le> b\<close>.\<close>

definition js_rank :: "jsnum \<Rightarrow> int" where
  "js_rank a = (case a of NInf \<Rightarrow> - 1 | PInf \<Rightarrow> 1 | _ \<Rightarrow> 0)"

definition not_below :: "jsnum \<Rightarrow> jsnum \<Rightarrow> bool" where
  "not_below a b = (\<not> js_lt b a)"

text \<open>Two analyzer states hold the same table and the same column lists; two result
  aggregates agree on the first \<open>n\<close> properties, in the order in which
  \<open>performComprehensiveAnalysis\<close> writes them.\<close>

definition sameTable :: "ComprehensiveDataAnalyzer \<Rightarrow> ComprehensiveDataAnalyzer \<Rightarrow> bool" where
  "sameTable s t = (data s = data t \<and> columns s = columns t \<and> numericColumns s = numericColumns t
     \<and> dateColumns s = dateColumns t \<and> categoricalColumns s = categoricalColumns t)"

definition agreeUpTo :: "nat \<Rightarrow> analysisResults \<Rightarrow> analysisResults \<Rightarrow> bool" where
  "agreeUpTo n a b =
     ((1 \<le> n \<longrightarrow> dataQuality a = dataQuality b)
      \<and> (2 \<le> n \<longrightarrow> executiveSummary a = executiveSummary b)
      \<and> (3 \<le> n \<longrightarrow> performance a = performance b)
      \<and> (4 \<le> n \<longrightarrow> demographics a = demographics b)
      \<and> (5 \<le> n \<longrightarrow> temporal a = temporal b)
      \<and> (6 \<le> n \<longrightarrow> statistical a = statistical b)
      \<and> (7 \<le> n \<longrightarrow> res_correlations a = res_correlations b)
      \<and> (8 \<le> n \<longrightarrow> advancedInsights a = advancedInsights b)
      \<and> (9 \<le> n \<longrightarrow> recommendations a = recommendations b))"

definition related :: "nat \<Rightarrow> ComprehensiveDataAnalyzer \<Rightarrow> ComprehensiveDataAnalyzer \<Rightarrow> bool" where
  "related n s t = (sameTable s t \<and> agreeUpTo n (analysisResults s) (analysisResults t))"

text \<open>The calls of \<open>performComprehensiveAnalysis\<close> that follow \<open>identifyColumnTypes\<close>.\<close>

definition analysisSteps :: "engine \<Rightarrow> ComprehensiveDataAnalyzer \<Rightarrow> error + ComprehensiveDataAnalyzer" where
  "analysisSteps E s1 =
     andThen (generateExecutiveSummary E (assessDataQuality E s1)) (\<lambda>s3.
     andThen (performDemographicAnalysis E (performPerformanceAnalysis s3)) (\<lambda>s5.
     andThen (performTemporalAnalysis E s5) (\<lambda>s6.
     andThen (generateAdvancedInsights E (performCorrelationAnalysis (performStatisticalAnalysis s6)))
             (generateRecommendations E))))"

text \<open>A key metric of the executive summary that renders a Number other than NaN, in one
  of the three shapes \<open>generateExecutiveSummary\<close> produces.\<close>

inductive definedMetric :: "engine \<Rightarrow> keyMetric \<Rightarrow> bool" for E :: engine where
  count: "x \<noteq> NaN \<Longrightarrow>
    definedMetric E \<lparr>label = l, metric_value = toLocaleString E x, metric_type = ''count''\<rparr>"
| currency: "x \<noteq> NaN \<Longrightarrow>
    definedMetric E \<lparr>label = l, metric_value = ''$'' @ toLocaleString E x, metric_type = ''currency''\<rparr>"
| percentage: "x \<noteq> NaN \<Longrightarrow>
    definedMetric E \<lparr>label = l, metric_value = toFixed E x 3 @ ''%'', metric_type = ''percentage''\<rparr>"

section \<open>Concrete inputs\<close>

text \<open>
  An engine for the concrete tables below.  Its Date accepts the four ISO date strings
  that occur in them, with their time values in milliseconds (midnight UTC) and their
  years; every conforming engine agrees on these.  No example depends on the text
  formatters, which return the empty string.
\<close>

definition exampleEngine :: engine where
  "exampleEngine =
     \<lparr>Date_getTime = (\<lambda>c. if c = CStr ''2020'' then Fin 1577836800000
                           else if c = CStr ''2021'' then Fin 1609459200000
                           else if c = CStr ''2020-01-15'' then Fin 1579046400000
                           else if c = CStr ''2021-03-01'' then Fin 1614556800000 else NaN),
      Date_getFullYear = (\<lambda>c. if c = CStr ''2020'' \<or> c = CStr ''2020-01-15'' then Fin 2020
                               else if c = CStr ''2021'' \<or> c = CStr ''2021-03-01'' then Fin 2021
                               else NaN),
      toFixed = (\<lambda>x n. []),
      toLocaleString = (\<lambda>x. []),
      numberToString = (\<lambda>x. [])\<rparr>"

text \<open>A table with one column, called \<open>date\<close>, that holds years.\<close>

definition dateTable :: "row list" where
  "dateTable = [[(''date'', CStr ''2020'')], [(''date'', CStr ''2021'')]]"

text \<open>A table with a numeric, a date and a text column, and the analyzer state before
  and after its columns are classified.\<close>

definition mixedTable :: "row list" where
  "mixedTable = [[(''amount'', CStr ''1''), (''day'', CStr ''2020-01-15''), (''name'', CStr ''a'')],
                 [(''amount'', CStr ''2''), (''day'', CStr ''2021-03-01''), (''name'', CStr ''b'')]]"

definition mixedInitial :: ComprehensiveDataAnalyzer where
  "mixedInitial = new_ComprehensiveDataAnalyzer\<lparr>data := Some mixedTable\<rparr>"

definition mixedClassified :: ComprehensiveDataAnalyzer where
  "mixedClassified = new_ComprehensiveDataAnalyzer\<lparr>data := Some mixedTable,
        columns := [''amount'', ''day'', ''name''], numericColumns := [''amount''],
        dateColumns := [''day''], categoricalColumns := [''name'']\<rparr>"

text \<open>A column in which every cell is \<open>0.1\<close>, and the binary64 values that occur when its
  statistics are computed: the value of \<open>0.1\<close>, the sum of three of them, their mean, the
  deviation of \<open>0.1\<close> from that mean, and its square.\<close>

definition tenthsTable :: "row list" where
  "tenthsTable = [[(''x'', CStr ''0.1'')], [(''x'', CStr ''0.1'')], [(''x'', CStr ''0.1'')]]"

definition a01 :: real where "a01 = 7205759403792794 / 2 ^ 56"
definition s01 :: real where "s01 = 5404319552844596 / 2 ^ 54"
definition m01 :: real where "m01 = 7205759403792795 / 2 ^ 56"
definition d01 :: real where "d01 = - (1 / 2 ^ 56)"
definition q01 :: real where "q01 = 1 / 2 ^ 112"

text \<open>The empty table in a new comprehensive analyzer, and the result aggregate its analysis
  produces.\<close>

definition emptyInitial :: ComprehensiveDataAnalyzer where
  "emptyInitial = new_ComprehensiveDataAnalyzer\<lparr>data := Some []\<rparr>"

definition emptyResults :: analysisResults where
  "emptyResults =
     \<lparr>dataQuality = Some \<lparr>completeness = [], uniqueness = [], overall = NaN\<rparr>,
      executiveSummary = Some \<lparr>totalRows = 0, totalColumns = 0, numericColumnCount = 0,
        dateColumnCount = 0, categoricalColumnCount = 0, dataQualityScore = NaN, keyMetrics = []\<rparr>,
      performance = Some \<lparr>topPerformers = [],
        efficiency = \<lparr>cpc = None, costPerConversion = None, roi = None\<rparr>\<rparr>,
      demographics = Some \<lparr>segments = [], demo_performance = []\<rparr>,
      temporal = Some \<lparr>temporal_trends =
        \<lparr>trends_direction = None, trends_slope = None, trends_metric = None\<rparr>\<rparr>,
      statistical = Some \<lparr>distributions = [], outliers = []\<rparr>,
      res_correlations = Some \<lparr>significant = []\<rparr>,
      advancedInsights = Some [],
      recommendations = Some []\<rparr>"

text \<open>Three numeric columns: \<open>b\<close> correlates with \<open>a\<close> and with \<open>c\<close> by 0.5, and \<open>a\<close> with
  \<open>c\<close> by 1.\<close>

definition corrTable :: "row list" where
  "corrTable = [[(''a'', CStr ''1''), (''b'', CStr ''1''), (''c'', CStr ''1'')],
                [(''a'', CStr ''2''), (''b'', CStr ''3''), (''c'', CStr ''2'')],
                [(''a'', CStr ''3''), (''b'', CStr ''2''), (''c'', CStr ''3'')]]"

definition corrInitial :: ComprehensiveDataAnalyzer where
  "corrInitial = new_ComprehensiveDataAnalyzer\<lparr>data := Some corrTable\<rparr>"

definition corrClassified :: ComprehensiveDataAnalyzer where
  "corrClassified = new_ComprehensiveDataAnalyzer\<lparr>data := Some corrTable,
     columns := [''a'', ''b'', ''c''], numericColumns := [''a'', ''b'', ''c'']\<rparr>"

text \<open>Two numeric columns of which \<open>a\<close> is constant, in an exploratory analyzer.\<close>

definition constTable :: "row list" where
  "constTable = [[(''a'', CStr ''1''), (''b'', CStr ''1'')],
                 [(''a'', CStr ''1''), (''b'', CStr ''2'')]]"

definition constAnalyzer :: DataAnalyzer where
  "constAnalyzer = new_DataAnalyzer\<lparr>data := Some constTable, columns := [''a'', ''b''],
     numericColumns := [''a'', ''b'']\<rparr>"

text \<open>A table with a single dated row, classified by the comprehensive analyzer.\<close>

definition oneDayTable :: "row list" where
  "oneDayTable = [[(''day'', CStr ''2020-01-15''), (''amount'', CStr ''5'')]]"

definition oneDayClassified :: ComprehensiveDataAnalyzer where
  "oneDayClassified = new_ComprehensiveDataAnalyzer\<lparr>data := Some oneDayTable,
     columns := [''day'', ''amount''], numericColumns := [''amount''], dateColumns := [''day'']\<rparr>"

text \<open>Exploratory analyzers with one and with two rows of a rising \<open>close\<close> column, and a
  time series of two rising elements.\<close>

definition oneCloseAnalyzer :: DataAnalyzer where
  "oneCloseAnalyzer = new_DataAnalyzer\<lparr>data := Some [[(''close'', CStr ''5'')]]\<rparr>"

definition risingAnalyzer :: DataAnalyzer where
  "risingAnalyzer = new_DataAnalyzer\<lparr>data := Some [[(''close'', CStr ''1'')], [(''close'', CStr ''2'')]]\<rparr>"

definition risingSeries :: "timeSeriesItem list" where
  "risingSeries = [\<lparr>item_date = Fin 1579046400000, item_fields = [(''amount'', Fin 1)]\<rparr>,
                   \<lparr>item_date = Fin 1614556800000, item_fields = [(''amount'', Fin 2)]\<rparr>]"

text \<open>A price table whose \<open>low\<close> is 0, and one whose column names are capitalised.\<close>

definition zeroLowTable :: "row list" where
  "zeroLowTable = [[(''high'', CStr ''5''), (''low'', CStr ''0'')]]"

definition capitalTable :: "row list" where
  "capitalTable = [[(''High'', CStr ''12''), (''Low'', CStr ''9'')]]"

text \<open>The metrics carried by the themes called \<open>Price Volatility Patterns\<close>.\<close>

definition volatilityMetrics :: "DataAnalyzer \<Rightarrow> metrics option list" where
  "volatilityMetrics s =
     map theme_metrics (filter (\<lambda>t. theme_name t = ''Price Volatility Patterns'') (themes s))"

text \<open>A column with an infinity of each sign.\<close>

definition infTable :: "row list" where
  "infTable = [[(''x'', CStr ''Infinity'')], [(''x'', CStr ''-Infinity'')]]"

text \<open>Two columns with the quartiles 2 and 4, so with the fences -1 and 7: one column holds
  both fences, the other holds a value beyond each.\<close>

definition bothFences :: "jsnum list" where
  "bothFences = [Fin 7, Fin 3, Fin (- 1), Fin 4, Fin 2]"

definition beyondFences :: "jsnum list" where
  "beyondFences = [Fin 8, Fin 3, Fin (- 2), Fin 4, Fin 2]"

text \<open>The binary64 values of \<open>0.3\<close> and of the running sum \<open>0.3 + 0.3 + 0.3\<close>, which is also
  the product \<open>1.5 * 0.6\<close>; the values of \<open>0.6\<close> and \<open>1.2\<close> are \<open>2 * c03\<close> and \<open>4 * c03\<close>.\<close>

definition c03 :: real where "c03 = 5404319552844595 / 2 ^ 54"

definition s09 :: real where "s09 = 8106479329266892 / 2 ^ 53"

text \<open>A column whose first value lies exactly on \<open>Q1 - 1.5 * IQR\<close>.\<close>

definition edgeTable :: "row list" where
  "edgeTable = [[(''x'', CStr ''-0.3'')], [(''x'', CStr ''0.6'')], [(''x'', CStr ''0.6'')],
                [(''x'', CStr ''1.2'')], [(''x'', CStr ''1.2'')]]"

text \<open>Two columns that hold \<open>0.3\<close> in each of three rows, the analyzers after the
  classification of the columns, and the binary64 values met in the Pearson formula: the
  product \<open>0.3 * 0.3\<close>, the sum of three such products, \<open>3 * 0.27\<close>, \<open>0.9 * 0.9\<close> and
  their difference.\<close>

definition flatTable :: "row list" where
  "flatTable = [[(''a'', CStr ''0.3''), (''b'', CStr ''0.3'')],
                [(''a'', CStr ''0.3''), (''b'', CStr ''0.3'')],
                [(''a'', CStr ''0.3''), (''b'', CStr ''0.3'')]]"

definition flatAnalyzer :: DataAnalyzer where
  "flatAnalyzer = new_DataAnalyzer\<lparr>data := Some flatTable, columns := [''a'', ''b''],
     numericColumns := [''a'', ''b'']\<rparr>"

definition flatClassified :: ComprehensiveDataAnalyzer where
  "flatClassified = new_ComprehensiveDataAnalyzer\<lparr>data := Some flatTable,
     columns := [''a'', ''b''], numericColumns := [''a'', ''b'']\<rparr>"

definition p009 :: real where "p009 = 6485183463413514 / 2 ^ 56"

definition s027 :: real where "s027 = 4863887597560136 / 2 ^ 54"

definition n081 :: real where "n081 = 7295831396340204 / 2 ^ 53"

definition q081 :: real where "q081 = 7295831396340202 / 2 ^ 53"

definition e52 :: real where "e52 = 1 / 2 ^ 52"

text \<open>A dated table whose \<open>close\<close> column rises through 1, 2, 3 and ends with an
  unparseable cell, and the comprehensive analyzer after the classification of its
  columns.\<close>

definition gapSeriesTable :: "row list" where
  "gapSeriesTable = [[(''day'', CStr ''2020''), (''close'', CStr ''1'')],
                     [(''day'', CStr ''2020-01-15''), (''close'', CStr ''2'')],
                     [(''day'', CStr ''2021''), (''close'', CStr ''3'')],
                     [(''day'', CStr ''2021-03-01''), (''close'', CStr ''abc'')]]"

definition gapSeriesClassified :: ComprehensiveDataAnalyzer where
  "gapSeriesClassified = new_ComprehensiveDataAnalyzer\<lparr>data := Some gapSeriesTable,
     columns := [''day'', ''close''], numericColumns := [''close''], dateColumns := [''day'']\<rparr>"

text \<open>A table of Numbers (as a JSON file gives them) whose impressions and clicks each sum
  to more than the largest binary64 value.\<close>

definition largest :: real where "largest = 2 ^ 1023"

definition overflowTable :: "row list" where
  "overflowTable =
     [[(''impressions'', CNum (Fin largest)), (''clicks'', CNum (Fin largest)),
       (''spent'', CNum (Fin 1))],
      [(''impressions'', CNum (Fin largest)), (''clicks'', CNum (Fin largest)),
       (''spent'', CNum (Fin 1))]]"

definition overflowClassified :: ComprehensiveDataAnalyzer where
  "overflowClassified = new_ComprehensiveDataAnalyzer\<lparr>data := Some overflowTable,
     columns := [''impressions'', ''clicks'', ''spent''],
     numericColumns := [''impressions'', ''clicks'', ''spent'']\<rparr>"

text \<open>An engine whose formatters print the two Numbers of the next example, and a table with
  one numeric column: the analyzer state before the analysis, after the classification of the
  columns, and after the whole analysis.\<close>

definition reportEngine :: engine where
  "reportEngine = exampleEngine
     \<lparr>toFixed := (\<lambda>x n. if x = Fin 100 \<and> n = 1 then ''100.0'' else []),
      toLocaleString := (\<lambda>x. if x = Fin 4 then ''4'' else [])\<rparr>"

definition pairTable :: "row list" where
  "pairTable = [[(''n'', CNum (Fin 1))], [(''n'', CNum (Fin 3))]]"

definition pairInitial :: ComprehensiveDataAnalyzer where
  "pairInitial = new_ComprehensiveDataAnalyzer\<lparr>data := Some pairTable\<rparr>"

definition pairClassified :: ComprehensiveDataAnalyzer where
  "pairClassified = pairInitial\<lparr>columns := [''n''], numericColumns := [''n'']\<rparr>"

definition pairResults :: analysisResults where
  "pairResults =
     \<lparr>dataQuality = Some \<lparr>completeness = [(''n'', ''100.0'')], uniqueness = [(''n'', 2)],
        overall = Fin 100\<rparr>,
      executiveSummary = Some \<lparr>totalRows = 2, totalColumns = 1, numericColumnCount = 1,
        dateColumnCount = 0, categoricalColumnCount = 0, dataQualityScore = Fin 100,
        keyMetrics = [\<lparr>label = ''N'', metric_value = ''4'', metric_type = ''count''\<rparr>]\<rparr>,
      performance = Some \<lparr>topPerformers = [[(''n'', CNum (Fin 3))], [(''n'', CNum (Fin 1))]],
        efficiency = \<lparr>cpc = None, costPerConversion = None, roi = None\<rparr>\<rparr>,
      demographics = Some \<lparr>segments = [], demo_performance = []\<rparr>,
      temporal = Some \<lparr>temporal_trends =
        \<lparr>trends_direction = None, trends_slope = None, trends_metric = None\<rparr>\<rparr>,
      statistical = Some \<lparr>distributions =
          [(''n'', Some \<lparr>d_mean = Fin 2, d_median = Fin 2, d_std = Fin 1, d_skewness = Fin 0,
                          d_min = Fin 1, d_max = Fin 3, q1 = Fin 1, q3 = Fin 3\<rparr>)],
        outliers = [(''n'', [])]\<rparr>,
      res_correlations = Some \<lparr>significant = []\<rparr>,
      advancedInsights = Some [],
      recommendations = Some []\<rparr>"

definition pairAnalysed :: ComprehensiveDataAnalyzer where
  "pairAnalysed = pairClassified\<lparr>analysisResults := pairResults\<rparr>"

section \<open>Rounding to binary64\<close>

lemma pow2_powr: "pow2 e = 2 powr (real_of_int e)"
proof (cases "0 \<le> e")
  case True
  then show ?thesis by (simp add: pow2_def powr_realpow[symmetric])
next
  case False
  then have "real_of_int e = - real (nat (- e))" by simp
  then have "2 powr (real_of_int e) = 1 / 2 powr (real (nat (-e)))"
    by (metis powr_minus_divide)
  also have "\<dots> = 1 / 2 ^ nat (- e)" by (simp only: powr_realpow[of 2, simplified])
  finally show ?thesis using False by (simp add: pow2_def)
qed

lemma pow2_pos: "0 < pow2 e" by (simp add: pow2_powr)

lemma pow2_add: "pow2 (a + b) = pow2 a * pow2 b"
  by (simp add: pow2_powr powr_add)

lemma pow2_mono: "a \<le> b \<Longrightarrow> pow2 a \<le> pow2 b"
  by (simp add: pow2_powr)

lemma pow2_less: "a < b \<Longrightarrow> pow2 a < pow2 b"
  by (simp add: pow2_powr)

lemma binade_eq: "pow2 e \<le> \<bar>x\<bar> \<Longrightarrow> \<bar>x\<bar> < pow2 (e + 1) \<Longrightarrow> binade x = e"
proof -
  assume a: "pow2 e \<le> \<bar>x\<bar>" and b: "\<bar>x\<bar> < pow2 (e + 1)"
  have "0 < \<bar>x\<bar>" using a pow2_pos[of e] by linarith
  then show ?thesis unfolding binade_def
    using a b by (subst floor_log_eq_powr_iff) (simp_all add: pow2_powr)
qed

lemma binade_bounds: "x \<noteq> 0 \<Longrightarrow> pow2 (binade x) \<le> \<bar>x\<bar> \<and> \<bar>x\<bar> < pow2 (binade x + 1)"
proof -
  assume "x \<noteq> 0"
  then have "0 < \<bar>x\<bar>" by simp
  then show ?thesis
    using floor_log_eq_powr_iff[of "\<bar>x\<bar>" 2 "binade x"]
    by (simp add: binade_def pow2_powr)
qed

lemma rne_of_int: "rne (of_int k) = k"
  by (simp add: rne_def)

lemma rne_cases: "rne x = \<lfloor>x\<rfloor> \<or> rne x = \<lfloor>x\<rfloor> + 1"
  by (simp add: rne_def Let_def)

lemma rne_bounds: "\<bar>of_int (rne x) - x\<bar> \<le> 1/2"
proof -
  have "of_int \<lfloor>x\<rfloor> \<le> x" "x < of_int \<lfloor>x\<rfloor> + 1" by linarith+
  then show ?thesis unfolding rne_def Let_def
    by (simp split: if_splits)
qed

lemma rne_mono: "x \<le> y \<Longrightarrow> rne x \<le> rne y"
proof -
  assume xy: "x \<le> y"
  have fl: "\<lfloor>x\<rfloor> \<le> \<lfloor>y\<rfloor>" using xy by (rule floor_mono)
  show ?thesis
  proof (cases "\<lfloor>x\<rfloor> = \<lfloor>y\<rfloor>")
    case True
    then show ?thesis using xy unfolding rne_def Let_def by (simp split: if_splits)
  next
    case False
    then have "\<lfloor>x\<rfloor> + 1 \<le> \<lfloor>y\<rfloor>" using fl by linarith
    moreover have "rne x \<le> \<lfloor>x\<rfloor> + 1" using rne_cases[of x] by linarith
    moreover have "\<lfloor>y\<rfloor> \<le> rne y" using rne_cases[of y] by linarith
    ultimately show ?thesis by linarith
  qed
qed

lemma floor_minus_nonint: "x \<noteq> of_int \<lfloor>x\<rfloor> \<Longrightarrow> \<lfloor>- x :: real\<rfloor> = - \<lfloor>x\<rfloor> - 1"
proof -
  assume a: "x \<noteq> of_int \<lfloor>x\<rfloor>"
  have "of_int \<lfloor>x\<rfloor> < x" "x < of_int \<lfloor>x\<rfloor> + 1" using a by linarith+
  then show ?thesis by (intro floor_unique) (simp_all, linarith+)
qed

lemma rne_minus: "rne (- x) = - rne x"
proof (cases "x = of_int \<lfloor>x\<rfloor>")
  case True
  then obtain k where k: "x = of_int k" by metis
  then have "- x = of_int (- k)" by simp
  then have "rne (- x) = - k" by (metis rne_of_int)
  then show ?thesis using k rne_of_int by simp
next
  case False
  then have f: "\<lfloor>- x\<rfloor> = - \<lfloor>x\<rfloor> - 1" by (rule floor_minus_nonint)
  have d: "of_int \<lfloor>x\<rfloor> < x" "x < of_int \<lfloor>x\<rfloor> + 1" using False by linarith+
  show ?thesis unfolding rne_def Let_def f using d by (simp split: if_splits)
qed

lemma binade_minus: "binade (- x) = binade x" by (simp add: binade_def)
lemma ulp_exp_minus: "ulp_exp (- x) = ulp_exp x" by (simp add: ulp_exp_def binade_minus)

lemma rnd_val_minus: "rnd_val (- x) = - rnd_val x"
  by (simp add: rnd_val_def ulp_exp_minus rne_minus)

lemma rnd_val_0: "rnd_val 0 = 0"
  using rne_of_int[of 0] by (simp add: rnd_val_def)

lemma rne_nonneg: "0 \<le> x \<Longrightarrow> 0 \<le> rne x"
  using rne_mono[of 0 x] rne_of_int[of 0] by simp

lemma rnd_val_nonneg: "0 \<le> x \<Longrightarrow> 0 \<le> rnd_val x"
  unfolding rnd_val_def using pow2_pos[of "ulp_exp x"] rne_nonneg[of "x / pow2 (ulp_exp x)"]
  by simp

lemma ulp_exp_eq: "pow2 e \<le> \<bar>x\<bar> \<Longrightarrow> \<bar>x\<bar> < pow2 (e + 1) \<Longrightarrow> ulp_exp x = max e (-1022) - 52"
  by (simp add: ulp_exp_def binade_eq)

lemma rnd_val_eval:
  "pow2 e \<le> \<bar>x\<bar> \<Longrightarrow> \<bar>x\<bar> < pow2 (e + 1) \<Longrightarrow> u = max e (-1022) - 52 \<Longrightarrow>
   rnd_val x = of_int (rne (x / pow2 u)) * pow2 u"
  by (simp add: rnd_val_def ulp_exp_eq)

lemma binade_mono: "0 < x \<Longrightarrow> x \<le> y \<Longrightarrow> binade x \<le> binade y"
  unfolding binade_def by (intro floor_mono) simp

lemma rnd_val_upper:
  assumes "0 < x"
  shows "rnd_val x \<le> pow2 (ulp_exp x + 53)"
proof -
  let ?u = "ulp_exp x"
  have x0: "x \<noteq> 0" using assms by simp
  have "x < pow2 (binade x + 1)" using binade_bounds[OF x0] assms by simp
  also have "\<dots> \<le> pow2 (?u + 53)" by (intro pow2_mono) (simp add: ulp_exp_def)
  finally have "x < pow2 (?u + 53)" .
  then have "x / pow2 ?u < pow2 53"
    using pow2_pos[of ?u] by (simp add: pow2_add divide_less_eq mult.commute)
  then have "rne (x / pow2 ?u) \<le> rne (pow2 53)" by (intro rne_mono) simp
  also have "pow2 53 = of_int (2 ^ 53)" by (simp add: pow2_def)
  finally have "rne (x / pow2 ?u) \<le> 2 ^ 53" by (simp only: rne_of_int)
  then have "real_of_int (rne (x / pow2 ?u)) \<le> pow2 53"
    by (simp add: pow2_def)
  then have "real_of_int (rne (x / pow2 ?u)) * pow2 ?u \<le> pow2 53 * pow2 ?u"
    using pow2_pos[of ?u] by simp
  then show ?thesis by (simp add: rnd_val_def pow2_add mult.commute)
qed

lemma rnd_val_lower:
  assumes "0 < x" and "- 1022 \<le> binade x"
  shows "pow2 (ulp_exp x + 52) \<le> rnd_val x"
proof -
  let ?u = "ulp_exp x"
  have x0: "x \<noteq> 0" using assms by simp
  have u: "?u + 52 = binade x" using assms by (simp add: ulp_exp_def)
  have "pow2 (?u + 52) \<le> x" using binade_bounds[OF x0] assms u by simp
  then have "pow2 52 \<le> x / pow2 ?u"
    using pow2_pos[of ?u] by (simp add: pow2_add le_divide_eq mult.commute)
  then have "rne (pow2 52) \<le> rne (x / pow2 ?u)" by (intro rne_mono)
  moreover have "pow2 52 = of_int (2 ^ 52)" by (simp add: pow2_def)
  ultimately have "2 ^ 52 \<le> rne (x / pow2 ?u)" by (simp only: rne_of_int)
  then have "pow2 52 \<le> real_of_int (rne (x / pow2 ?u))"
    by (simp add: pow2_def)
  then have "pow2 52 * pow2 ?u \<le> real_of_int (rne (x / pow2 ?u)) * pow2 ?u"
    using pow2_pos[of ?u] by simp
  then show ?thesis by (simp add: rnd_val_def pow2_add mult.commute)
qed

lemma rnd_val_mono_pos:
  assumes "0 < x" and "x \<le> y"
  shows "rnd_val x \<le> rnd_val y"
proof (cases "ulp_exp x = ulp_exp y")
  case True
  have "x / pow2 (ulp_exp y) \<le> y / pow2 (ulp_exp y)"
    using assms pow2_pos[of "ulp_exp y"] by (simp add: divide_right_mono)
  then have "rne (x / pow2 (ulp_exp y)) \<le> rne (y / pow2 (ulp_exp y))" by (rule rne_mono)
  then show ?thesis using True pow2_pos[of "ulp_exp y"] by (simp add: rnd_val_def)
next
  case False
  have y0: "0 < y" using assms by simp
  have b: "binade x \<le> binade y" using assms by (rule binade_mono)
  then have lt: "ulp_exp x < ulp_exp y" using False unfolding ulp_exp_def by linarith
  then have biny: "- 1022 \<le> binade y" unfolding ulp_exp_def by linarith
  have "rnd_val x \<le> pow2 (ulp_exp x + 53)" using assms(1) by (rule rnd_val_upper)
  also have "\<dots> \<le> pow2 (ulp_exp y + 52)" using lt by (intro pow2_mono) simp
  also have "\<dots> \<le> rnd_val y" using y0 biny by (rule rnd_val_lower)
  finally show ?thesis .
qed

lemma rnd_val_mono: "x \<le> y \<Longrightarrow> rnd_val x \<le> rnd_val y"
proof -
  assume xy: "x \<le> y"
  consider "0 < x" | "x \<le> 0" "0 \<le> y" | "y < 0" by linarith
  then show ?thesis
  proof cases
    case 1
    then show ?thesis using xy by (rule rnd_val_mono_pos)
  next
    case 2
    have "rnd_val x \<le> 0" using rnd_val_nonneg[of "- x"] 2 by (simp add: rnd_val_minus)
    moreover have "0 \<le> rnd_val y" using 2 by (simp add: rnd_val_nonneg)
    ultimately show ?thesis by linarith
  next
    case 3
    then have "rnd_val (- y) \<le> rnd_val (- x)" using xy by (intro rnd_val_mono_pos) simp_all
    then show ?thesis by (simp add: rnd_val_minus)
  qed
qed

lemma pow2_nat: "0 \<le> d \<Longrightarrow> pow2 d = of_int (2 ^ nat d)"
  by (simp add: pow2_def)

lemma pow2_diff: "pow2 (a - b) = pow2 a / pow2 b"
  by (simp add: pow2_powr powr_diff)

lemma binade_less: "x \<noteq> 0 \<Longrightarrow> \<bar>x\<bar> < pow2 k \<Longrightarrow> binade x < k"
proof (rule ccontr)
  assume x0: "x \<noteq> 0" and lt: "\<bar>x\<bar> < pow2 k" and n: "\<not> binade x < k"
  then have "pow2 k \<le> pow2 (binade x)" by (intro pow2_mono) simp
  then show False using binade_bounds[OF x0] lt by linarith
qed

lemma rnd_val_exact:
  assumes x: "x = of_int m * pow2 e" and m: "\<bar>m\<bar> < 2 ^ 53" and e: "- 1074 \<le> e"
  shows "rnd_val x = x"
proof (cases "x = 0")
  case True
  then show ?thesis by (simp add: rnd_val_0)
next
  case False
  have "\<bar>x\<bar> = of_int \<bar>m\<bar> * pow2 e" using x pow2_pos[of e] by (simp add: abs_mult)
  also have "\<dots> < of_int (2 ^ 53) * pow2 e"
    using m pow2_pos[of e] by (intro mult_strict_right_mono) (simp_all only: of_int_less_iff)
  also have "\<dots> = pow2 (e + 53)"
  proof -
    have "pow2 53 = of_int (2 ^ 53)" by (simp add: pow2_def)
    then show ?thesis by (simp add: pow2_add)
  qed
  finally have "binade x < e + 53" using False by (intro binade_less)
  then have le: "ulp_exp x \<le> e" using e unfolding ulp_exp_def by linarith
  define d where "d = e - ulp_exp x"
  have d0: "0 \<le> d" using le by (simp add: d_def)
  have "x / pow2 (ulp_exp x) = of_int m * pow2 d"
    using x by (simp add: d_def pow2_diff)
  also have "\<dots> = of_int (m * 2 ^ nat d)" using d0 by (simp add: pow2_nat)
  finally have q: "x / pow2 (ulp_exp x) = of_int (m * 2 ^ nat d)" .
  have "rnd_val x = of_int (m * 2 ^ nat d) * pow2 (ulp_exp x)"
    unfolding rnd_val_def q rne_of_int ..
  also have "\<dots> = x / pow2 (ulp_exp x) * pow2 (ulp_exp x)" using q by simp
  also have "\<dots> = x" using pow2_pos[of "ulp_exp x"] by simp
  finally show ?thesis .
qed

lemma rnd_0: "rnd 0 = Fin 0"
  by (simp add: rnd_def rnd_val_0 zero_s_def)

lemma rnd_exact:
  assumes "x = of_int m * pow2 e" and "\<bar>m\<bar> < 2 ^ 53" and "- 1074 \<le> e" and "\<bar>x\<bar> < 2 ^ 1024"
  shows "rnd x = Fin x"
  using rnd_val_exact[OF assms(1-3)] assms(4) by (simp add: rnd_def zero_s_def)

lemma rnd_of_int: "\<bar>k\<bar> < 2 ^ 53 \<Longrightarrow> rnd (of_int k) = Fin (of_int k)"
proof -
  assume k: "\<bar>k\<bar> < 2 ^ 53"
  have "\<bar>real_of_int k\<bar> < 2 ^ 53" using k
    by (metis of_int_abs of_int_less_iff of_int_numeral of_int_power)
  also have "\<dots> < (2::real) ^ 1024" by simp
  finally have "\<bar>real_of_int k\<bar> < 2 ^ 1024" .
  then show ?thesis using k by (intro rnd_exact[where m = k and e = 0]) (simp_all add: pow2_def)
qed

lemma num_small: "n < 2 ^ 53 \<Longrightarrow> num n = Fin (real n)"
proof -
  assume "n < 2 ^ 53"
  then have "\<bar>int n\<bar> < 2 ^ 53" by (simp add: nat_less_iff[symmetric]) 
  then have "rnd (of_int (int n)) = Fin (of_int (int n))" by (rule rnd_of_int)
  then show ?thesis by (simp add: num_def)
qed

lemma ulp_exp_ge: "- 1074 \<le> ulp_exp x" by (simp add: ulp_exp_def)

lemma rnd_val_grid: "\<exists>k::int. rnd_val x = of_int k * pow2 (- 1074)"
proof -
  define d where "d = ulp_exp x + 1074"
  have d0: "0 \<le> d" using ulp_exp_ge[of x] by (simp add: d_def)
  have "pow2 (ulp_exp x) = pow2 d * pow2 (- 1074)"
    unfolding d_def by (simp add: pow2_add[symmetric])
  also have "\<dots> = of_int (2 ^ nat d) * pow2 (- 1074)" using d0 by (simp add: pow2_nat)
  finally have "rnd_val x = of_int (rne (x / pow2 (ulp_exp x)) * 2 ^ nat d) * pow2 (- 1074)"
    by (simp add: rnd_val_def)
  then show ?thesis by blast
qed

lemma rnd_val_min_subnormal: "rnd_val (pow2 (- 1074)) = pow2 (- 1074)"
  by (rule rnd_val_exact[where m = 1 and e = "- 1074"]) simp_all

lemma rnd_val_pos_grid:
  assumes "z = of_int k * pow2 (- 1074)" and "0 < z"
  shows "0 < rnd_val z"
proof -
  have "0 < k" using assms pow2_pos[of "- 1074"] by (simp add: zero_less_mult_iff)
  then have "1 \<le> real_of_int k" by simp
  then have "1 * pow2 (- 1074) \<le> z" unfolding assms(1)
    using pow2_pos[of "- 1074"] by (intro mult_right_mono) simp_all
  then have "rnd_val (pow2 (- 1074)) \<le> rnd_val z" by (intro rnd_val_mono) simp
  then show ?thesis using pow2_pos[of "- 1074"] by (simp add: rnd_val_min_subnormal)
qed

lemma rnd_dyadic:
  assumes "x = of_int m / 2 ^ n" and "\<bar>m\<bar> < 2 ^ 53" and "n \<le> 1074"
  shows "rnd x = Fin x"
proof -
  have p: "pow2 (- int n) = 1 / 2 ^ n" by (simp add: pow2_def)
  have x: "x = of_int m * pow2 (- int n)" using assms(1) p by simp
  have "\<bar>real_of_int m\<bar> < 2 ^ 53" using assms(2)
    by (metis of_int_abs of_int_less_iff of_int_numeral of_int_power)
  moreover have "\<bar>x\<bar> \<le> \<bar>real_of_int m\<bar>"
  proof -
    have "(1::real) \<le> 2 ^ n" by simp
    then have "\<bar>real_of_int m\<bar> / 2 ^ n \<le> \<bar>real_of_int m\<bar> / 1"
      by (intro divide_left_mono) simp_all
    then show ?thesis using assms(1) by (simp add: abs_divide)
  qed
  ultimately have "\<bar>x\<bar> < 2 ^ 1024" by simp
  then show ?thesis using x assms(2,3) by (intro rnd_exact[where m = m and e = "- int n"]) simp_all
qed

lemma rnd_eval:
  assumes "pow2 e \<le> \<bar>x\<bar>" and "\<bar>x\<bar> < pow2 (e + 1)" and "u = max e (- 1022) - 52"
    and "k = rne (x / pow2 u)" and "r = of_int k * pow2 u" and "\<bar>r\<bar> < 2 ^ 1024" and "r \<noteq> 0"
  shows "rnd x = Fin r"
proof -
  have "rnd_val x = r" using rnd_val_eval[OF assms(1,2,3)] assms(4,5) by simp
  then show ?thesis using assms(6,7) by (simp add: rnd_def)
qed

lemma rnd_dyadicI:
  "x = of_int m / 2 ^ n \<Longrightarrow> \<bar>m\<bar> < 2 ^ 53 \<Longrightarrow> n \<le> 1074 \<Longrightarrow> c = x \<Longrightarrow> rnd x = Fin c"
  using rnd_dyadic by blast

lemma js_add_FinI: "rnd (a + b) = c \<Longrightarrow> js_add (Fin a) (Fin b) = c"
  by (simp add: js_add_def)

lemma js_sub_FinI: "rnd (a - b) = c \<Longrightarrow> js_sub (Fin a) (Fin b) = c"
  by (cases "b = 0") (auto simp add: js_sub_def js_neg_def js_add_def)

lemma js_mul_FinI: "a \<noteq> 0 \<Longrightarrow> b \<noteq> 0 \<Longrightarrow> rnd (a * b) = c \<Longrightarrow> js_mul (Fin a) (Fin b) = c"
  by (simp add: js_mul_def)

lemma js_div_FinI: "a \<noteq> 0 \<Longrightarrow> b \<noteq> 0 \<Longrightarrow> rnd (a / b) = c \<Longrightarrow> js_div (Fin a) (Fin b) = c"
  by (simp add: js_div_def)

lemma Math_pow_FinI: "0 < n \<Longrightarrow> rnd (a ^ n) = c \<Longrightarrow> Math_pow (Fin a) n = c"
  by (simp add: Math_pow_def)

lemma Math_sqrt_FinI: "0 \<le> a \<Longrightarrow> 0 \<le> b \<Longrightarrow> b * b = a \<Longrightarrow> rnd b = c \<Longrightarrow> Math_sqrt (Fin a) = c"
proof -
  assume a: "0 \<le> a" and b: "0 \<le> b" and bb: "b * b = a" and r: "rnd b = c"
  have "sqrt a = b" using b bb by (intro real_sqrt_unique) (simp_all add: power2_eq_square)
  then show ?thesis using a r by (simp add: Math_sqrt_def)
qed

lemma num_Fin: "n < 2 ^ 53 \<Longrightarrow> num n = Fin (real n)"
  by (rule num_small)

lemma rnd_1: "rnd 1 = Fin 1"
  using rnd_of_int[of 1] by simp

lemma rnd_numeral: "(numeral w :: int) < 2 ^ 53 \<Longrightarrow> rnd (numeral w) = Fin (numeral w)"
  using rnd_of_int[of "numeral w"] by simp

lemma rnd_neg_numeral: "(numeral w :: int) < 2 ^ 53 \<Longrightarrow> rnd (- numeral w) = Fin (- numeral w)"
  using rnd_of_int[of "- numeral w"] by simp

lemma rnd_neg_1: "rnd (- 1) = Fin (- 1)"
  using rnd_of_int[of "- 1"] by simp

lemma rnd_half: "rnd (1 / 2) = Fin (1 / 2)"
  by (rule rnd_dyadicI[where m = 1 and n = 1]) simp_all

lemma js_add_Fin: "js_add (Fin a) (Fin b) = rnd (a + b)"
  by (simp add: js_add_def)

lemma js_sub_Fin: "js_sub (Fin a) (Fin b) = rnd (a - b)"
  by (rule js_sub_FinI) simp

lemma js_mul_Fin:
  "js_mul (Fin a) (Fin b) = (if a = 0 \<or> b = 0 then zero_s ((a < 0) \<noteq> (b < 0)) else rnd (a * b))"
  by (simp add: js_mul_def)

lemma js_div_Fin:
  "js_div (Fin a) (Fin b) =
     (if b = 0 then (if a = 0 then NaN else inf_s (a < 0))
      else if a = 0 then zero_s (b < 0) else rnd (a / b))"
  by (simp add: js_div_def)

lemma num_0: "num 0 = Fin 0" by (simp add: num_def rnd_0)

lemma num_Suc: "Suc n < 2 ^ 53 \<Longrightarrow> num (Suc n) = Fin (1 + real n)"
  using num_small[of "Suc n"] by (simp add: add.commute)

lemma num_numeral: "(numeral w :: nat) < 2 ^ 53 \<Longrightarrow> num (numeral w) = Fin (numeral w)"
  using num_small[of "numeral w"] by simp

lemma num3: "num (Suc (Suc (Suc 0))) = Fin 3"
  using num_small[of 3] by (simp add: numeral_3_eq_3)

lemmas js_eval = rnd_0 rnd_1 rnd_neg_1 rnd_numeral rnd_neg_numeral rnd_half js_add_Fin js_sub_Fin js_mul_Fin
  js_div_Fin num_0 num_Suc num_numeral zero_s_def inf_s_def js_gt_def js_eq_def js_ge_def isNaN_def

lemma lit_8_10: "lit 8 10 = Fin (7205759403792794 / 2 ^ 53)"
  unfolding lit_def
  by (rule rnd_eval[where e = "- 1" and u = "- 53" and k = 7205759403792794])
     (simp_all add: pow2_def rne_def)

lemma lit_7_10: "lit 7 10 = Fin (6305039478318694 / 2 ^ 53)"
  unfolding lit_def
  by (rule rnd_eval[where e = "- 1" and u = "- 53" and k = 6305039478318694])
     (simp_all add: pow2_def rne_def)

lemma lit_3_10: "lit 3 10 = Fin (5404319552844595 / 2 ^ 54)"
  unfolding lit_def
  by (rule rnd_eval[where e = "- 2" and u = "- 54" and k = 5404319552844595])
     (simp_all add: pow2_def rne_def)

lemma lit_1_10: "lit 1 10 = Fin (7205759403792794 / 2 ^ 56)"
  unfolding lit_def
  by (rule rnd_eval[where e = "- 4" and u = "- 56" and k = 7205759403792794])
     (simp_all add: pow2_def rne_def)

lemma lit_15_10: "lit 15 10 = Fin (3 / 2)"
  unfolding lit_def
  by (rule rnd_dyadicI[where m = 3 and n = 1]) simp_all

lemma lit_1_1000: "lit 1 1000 = Fin (4611686018427388 / 2 ^ 62)"
  unfolding lit_def
  by (rule rnd_eval[where e = "- 10" and u = "- 62" and k = 4611686018427388])
     (simp_all add: pow2_def rne_def)

lemmas parse_eval = parseFloat_def trimStart_def isWhiteSpace_def strDecimalLiteral_def splitSign_def
  isDigit_def exponentPart_def digitsVal_def digitVal_def pow10_def isFinite_def stringToNumber_def
  trim_def is_finite_def isNumericValue_def nonEmpty_def getCell_def


lemma lit_6_10: "lit 6 10 = Fin (5404319552844595 / 2 ^ 53)"
  unfolding lit_def
  by (rule rnd_eval[where e = "- 1" and u = "- 53" and k = 5404319552844595])
     (simp_all add: pow2_def rne_def)

lemma lit_4_10: "lit 4 10 = Fin (7205759403792794 / 2 ^ 54)"
  unfolding lit_def
  by (rule rnd_eval[where e = "- 2" and u = "- 54" and k = 7205759403792794])
     (simp_all add: pow2_def rne_def)

lemma lit_2_10: "lit 2 10 = Fin (7205759403792794 / 2 ^ 55)"
  unfolding lit_def
  by (rule rnd_eval[where e = "- 3" and u = "- 55" and k = 7205759403792794])
     (simp_all add: pow2_def rne_def)

subsection \<open>Binary64 values are fixed points of rounding\<close>

lemma rnd_not_NaN: "rnd x \<noteq> NaN"
  by (simp add: rnd_def Let_def zero_s_def inf_s_def)

lemma js_add_not_NaN:
  "a \<noteq> NaN \<Longrightarrow> b \<noteq> NaN \<Longrightarrow> \<not> is_inf b \<Longrightarrow> js_add a b \<noteq> NaN"
  by (simp add: js_add_def rnd_not_NaN)

lemma rne_scaled_le:
  assumes "0 < x"
  shows "rne (x / pow2 (ulp_exp x)) \<le> 2 ^ 53"
proof -
  let ?u = "ulp_exp x"
  have x0: "x \<noteq> 0" using assms by simp
  have "x < pow2 (binade x + 1)" using binade_bounds[OF x0] assms by simp
  also have "\<dots> \<le> pow2 (?u + 53)" by (intro pow2_mono) (simp add: ulp_exp_def)
  finally have "x < pow2 (?u + 53)" .
  then have "x / pow2 ?u < pow2 53"
    using pow2_pos[of ?u] by (simp add: pow2_add divide_less_eq mult.commute)
  then have "rne (x / pow2 ?u) \<le> rne (pow2 53)" by (intro rne_mono) simp
  also have "pow2 53 = of_int (2 ^ 53)" by (simp add: pow2_def)
  finally show ?thesis by (simp only: rne_of_int)
qed

lemma rne_scaled_abs_le: "\<bar>rne (x / pow2 (ulp_exp x))\<bar> \<le> 2 ^ 53"
proof -
  consider "0 < x" | "x = 0" | "x < 0" by linarith
  then show ?thesis
  proof cases
    case 1
    then have "0 \<le> rne (x / pow2 (ulp_exp x))"
      using pow2_pos[of "ulp_exp x"] by (intro rne_nonneg) simp
    then show ?thesis using rne_scaled_le[OF 1] by simp
  next
    case 2
    then show ?thesis using rne_of_int[of 0] by simp
  next
    case 3
    then have p: "0 < - x" by simp
    have "0 \<le> - x / pow2 (ulp_exp (- x))"
      using p pow2_pos[of "ulp_exp (- x)"] by (intro divide_nonneg_pos) simp_all
    then have "0 \<le> rne (- x / pow2 (ulp_exp (- x)))" by (rule rne_nonneg)
    moreover have "rne (- x / pow2 (ulp_exp (- x))) = - rne (x / pow2 (ulp_exp x))"
      using rne_minus[of "x / pow2 (ulp_exp x)"] by (simp add: ulp_exp_minus)
    ultimately show ?thesis using rne_scaled_le[OF p] by simp
  qed
qed

lemma rnd_val_idem: "rnd_val (rnd_val x) = rnd_val x"
proof -
  define k where "k = rne (x / pow2 (ulp_exp x))"
  define u where "u = ulp_exp x"
  have r: "rnd_val x = of_int k * pow2 u" by (simp add: rnd_val_def k_def u_def)
  have u: "- 1074 \<le> u" using ulp_exp_ge[of x] by (simp add: u_def)
  have k: "\<bar>k\<bar> \<le> 2 ^ 53" using rne_scaled_abs_le[of x] by (simp add: k_def)
  show ?thesis
  proof (cases "\<bar>k\<bar> < 2 ^ 53")
    case True
    then show ?thesis using r u by (intro rnd_val_exact[where m = k and e = u]) simp_all
  next
    case False
    then have kk: "\<bar>k\<bar> = 2 ^ 53" using k by linarith
    define m where "m = k div 2"
    have "k = 2 ^ 53 \<or> k = - (2 ^ 53)" using kk by linarith
    then have km: "k = 2 * m" "\<bar>m\<bar> < 2 ^ 53" unfolding m_def by auto
    have "pow2 (u + 1) = 2 * pow2 u" using pow2_add[of u 1] by (simp add: pow2_def)
    then have "rnd_val x = of_int m * pow2 (u + 1)" using r km(1) by simp
    then show ?thesis using km(2) u by (intro rnd_val_exact[where m = m and e = "u + 1"]) simp_all
  qed
qed

lemma is_double_rnd: "is_double (rnd x)"
proof (cases "rnd x")
  case (Fin r)
  then have r: "r = rnd_val x" "\<bar>r\<bar> < 2 ^ 1024"
    by (auto simp add: rnd_def Let_def zero_s_def inf_s_def rnd_val_0 split: if_splits)
  have "rnd_val r = r" using r(1) rnd_val_idem by simp
  then have "rnd r = Fin r" using r(2) by (simp add: rnd_def zero_s_def)
  then show ?thesis using Fin by (simp add: is_double_def)
qed (simp_all add: is_double_def)

lemma is_double_Fin: "is_double (Fin r) \<Longrightarrow> rnd_val r = r"
  by (auto simp add: is_double_def rnd_def Let_def zero_s_def inf_s_def split: if_splits)

lemma is_double_grid: "is_double x \<Longrightarrow> \<exists>k::int. rv x = of_int k * pow2 (- 1074)"
proof (cases x)
  case (Fin r)
  assume "is_double x"
  then have "rnd_val r = r" using Fin is_double_Fin by simp
  then show ?thesis using rnd_val_grid[of r] Fin by simp
qed (simp_all add: exI[where x = 0])

lemma rnd_val_grid_nonzero:
  assumes "z = of_int k * pow2 (- 1074)" and "z \<noteq> 0"
  shows "rnd_val z \<noteq> 0"
proof (cases "0 < z")
  case True
  then show ?thesis using rnd_val_pos_grid[OF assms(1)] by simp
next
  case False
  then have "0 < - z" using assms(2) by simp
  moreover have "- z = of_int (- k) * pow2 (- 1074)" using assms(1) by simp
  ultimately have "0 < rnd_val (- z)" by (intro rnd_val_pos_grid[where k = "- k"])
  then show ?thesis by (simp add: rnd_val_minus)
qed

lemma rnd_grid_not_zero:
  assumes "z = of_int k * pow2 (- 1074)" and "z \<noteq> 0"
  shows "\<not> is_zero (rnd z)"
  using rnd_val_grid_nonzero[OF assms]
  by (simp add: rnd_def Let_def inf_s_def)

lemma grid_add:
  "a = of_int k * pow2 (- 1074) \<Longrightarrow> b = of_int l * pow2 (- 1074) \<Longrightarrow>
   a + b = of_int (k + l) * pow2 (- 1074)"
  by (simp add: algebra_simps)

lemma js_add_not_NZero:
  assumes "is_double a" and "is_double b" and "a \<noteq> NZero"
  shows "js_add a b \<noteq> NZero"
proof (cases "a = NaN \<or> b = NaN \<or> is_inf a \<or> is_inf b")
  case True
  then show ?thesis by (auto simp add: js_add_def split: if_splits)
next
  case False
  obtain k l where kl: "rv a = of_int k * pow2 (- 1074)" "rv b = of_int l * pow2 (- 1074)"
    using is_double_grid[OF assms(1)] is_double_grid[OF assms(2)] by blast
  have eq: "js_add a b = rnd (rv a + rv b)" using False assms(3) by (simp add: js_add_def)
  show ?thesis
  proof (cases "rv a + rv b = 0")
    case True
    then show ?thesis using eq by (simp add: rnd_0)
  next
    case f: False
    have "\<not> is_zero (rnd (rv a + rv b))" using grid_add[OF kl] f by (intro rnd_grid_not_zero)
    then show ?thesis using eq by auto
  qed
qed

lemma js_add_is_double: "is_double a \<Longrightarrow> is_double b \<Longrightarrow> is_double (js_add a b)"
  by (auto simp add: js_add_def is_double_rnd) (simp_all add: is_double_def)

lemma js_add_zero_right: "is_double x \<Longrightarrow> x \<noteq> NZero \<Longrightarrow> js_add x (Fin 0) = x"
  by (cases x) (simp_all add: js_add_def is_double_def)

subsection \<open>Sorting\<close>

lemma set_insert_by: "set (insert_by cmp x ys) = insert x (set ys)"
  by (induction ys) auto

lemma set_js_sort: "set (js_sort cmp xs) = set xs"
  unfolding js_sort_def by (induction xs) (simp_all add: set_insert_by)


subsection \<open>Order and monotonicity\<close>

lemma js_lt_iff:
  "a \<noteq> NaN \<Longrightarrow> b \<noteq> NaN \<Longrightarrow>
   js_lt a b \<longleftrightarrow> (js_rank a < js_rank b \<or> (js_rank a = 0 \<and> js_rank b = 0 \<and> rv a < rv b))"
  by (cases a; cases b) (simp_all add: js_rank_def)

lemma js_rank_0: "a \<noteq> NaN \<Longrightarrow> js_rank a = 0 \<longleftrightarrow> \<not> is_inf a"
  by (cases a) (simp_all add: js_rank_def)

lemma rnd_PInf: "rnd x = PInf \<longleftrightarrow> 2 ^ 1024 \<le> rnd_val x"
proof -
  have "x < 0 \<Longrightarrow> rnd_val x \<le> 0" using rnd_val_nonneg[of "- x"] by (simp add: rnd_val_minus)
  moreover have "0 \<le> x \<Longrightarrow> 0 \<le> rnd_val x" by (rule rnd_val_nonneg)
  ultimately show ?thesis
    by (cases "x < 0") (auto simp add: rnd_def Let_def inf_s_def zero_s_def)
qed

lemma rnd_NInf: "rnd x = NInf \<longleftrightarrow> rnd_val x \<le> - (2 ^ 1024)"
proof -
  have "x < 0 \<Longrightarrow> rnd_val x \<le> 0" using rnd_val_nonneg[of "- x"] by (simp add: rnd_val_minus)
  moreover have "0 \<le> x \<Longrightarrow> 0 \<le> rnd_val x" by (rule rnd_val_nonneg)
  ultimately show ?thesis
    by (cases "x < 0") (auto simp add: rnd_def Let_def inf_s_def zero_s_def)
qed

lemma rnd_finite_rv: "\<not> is_inf (rnd x) \<Longrightarrow> rv (rnd x) = rnd_val x"
  by (cases "x < 0") (auto simp add: rnd_def Let_def inf_s_def zero_s_def split: if_splits)

lemma rnd_rank:
  "js_rank (rnd x) = (if 2 ^ 1024 \<le> rnd_val x then 1 else if rnd_val x \<le> - (2 ^ 1024) then - 1 else 0)"
proof -
  have "rnd x \<noteq> NaN" by (rule rnd_not_NaN)
  then show ?thesis using rnd_PInf[of x] rnd_NInf[of x]
    by (cases "rnd x") (auto simp add: js_rank_def)
qed

lemma rnd_mono: "x \<le> y \<Longrightarrow> \<not> js_lt (rnd y) (rnd x)"
proof -
  assume xy: "x \<le> y"
  have m: "rnd_val x \<le> rnd_val y" using xy by (rule rnd_val_mono)
  have n: "rnd x \<noteq> NaN" "rnd y \<noteq> NaN" by (rule rnd_not_NaN)+
  have rx: "js_rank (rnd x) = 0 \<Longrightarrow> rv (rnd x) = rnd_val x"
    using js_rank_0[OF n(1)] rnd_finite_rv by simp
  have ry: "js_rank (rnd y) = 0 \<Longrightarrow> rv (rnd y) = rnd_val y"
    using js_rank_0[OF n(2)] rnd_finite_rv by simp
  show ?thesis
    unfolding js_lt_iff[OF n(2) n(1)]
    using m rx ry by (auto simp add: rnd_rank split: if_splits)
qed

lemma js_lt_zero_rnd:
  assumes "z = of_int k * pow2 (- 1074)"
  shows "js_lt (Fin 0) (rnd z) \<longleftrightarrow> 0 < z"
proof (cases "0 < z")
  case True
  have p: "0 < rnd_val z" using rnd_val_pos_grid[OF assms True] .
  have "rnd z \<noteq> NaN" by (rule rnd_not_NaN)
  moreover have "rnd z \<noteq> NInf" using p by (simp add: rnd_NInf)
  moreover have "\<not> is_inf (rnd z) \<Longrightarrow> rv (rnd z) = rnd_val z" by (rule rnd_finite_rv)
  ultimately have "js_lt (Fin 0) (rnd z)" using p by (cases "rnd z") auto
  then show ?thesis using True by simp
next
  case False
  then have "\<not> js_lt (rnd 0) (rnd z)" by (intro rnd_mono) simp
  then show ?thesis using False by (simp add: rnd_0)
qed

lemma grid_diff:
  "a = of_int k * pow2 (- 1074) \<Longrightarrow> b = of_int l * pow2 (- 1074) \<Longrightarrow>
   a - b = of_int (k - l) * pow2 (- 1074)"
  by (simp add: algebra_simps)

lemma js_sub_finite:
  assumes "a \<noteq> NaN" "b \<noteq> NaN" "\<not> is_inf a" "\<not> is_inf b"
  shows "js_sub a b = rnd (rv a - rv b) \<or> (js_sub a b = NZero \<and> rv a - rv b = 0)"
  using assms by (cases a; cases b) (simp_all add: js_sub_def js_neg_def js_add_def)

lemma comparator_sign:
  assumes "a \<noteq> NaN" "b \<noteq> NaN" "is_double a" "is_double b"
  shows "js_gt (js_sub a b) (Fin 0) \<longleftrightarrow> js_lt b a"
proof (cases "is_inf a \<or> is_inf b")
  case True
  then show ?thesis using assms(1,2)
    by (cases a; cases b) (simp_all add: js_gt_def js_sub_def js_neg_def js_add_def)
next
  case False
  obtain k l where kl: "rv a = of_int k * pow2 (- 1074)" "rv b = of_int l * pow2 (- 1074)"
    using is_double_grid[OF assms(3)] is_double_grid[OF assms(4)] by blast
  have lt: "js_lt b a \<longleftrightarrow> rv b < rv a" using False assms(1,2) by (cases a; cases b) simp_all
  have "js_lt (Fin 0) (js_sub a b) \<longleftrightarrow> 0 < rv a - rv b"
    using js_sub_finite[of a b] assms(1,2) False js_lt_zero_rnd[OF grid_diff[OF kl]] by auto
  then show ?thesis using lt by (simp add: js_gt_def)
qed

lemma not_below_trans:
  "a \<noteq> NaN \<Longrightarrow> b \<noteq> NaN \<Longrightarrow> c \<noteq> NaN \<Longrightarrow> not_below a b \<Longrightarrow> not_below b c \<Longrightarrow> not_below a c"
  unfolding not_below_def by (simp add: js_lt_iff) linarith

lemma js_lt_asym: "js_lt a b \<Longrightarrow> \<not> js_lt b a"
  by (cases "a = NaN \<or> b = NaN") (auto simp add: js_lt_iff)

lemma sorted_insert_by:
  assumes "x \<noteq> NaN" "is_double x" "list_all (\<lambda>v. v \<noteq> NaN \<and> is_double v) ys"
    and "sorted_wrt not_below ys"
  shows "sorted_wrt not_below (insert_by js_sub x ys)"
  using assms(3,4)
proof (induction ys)
  case Nil
  then show ?case by simp
next
  case (Cons y ys)
  have y: "y \<noteq> NaN" "is_double y" using Cons.prems(1) by simp_all
  have c: "js_gt (js_sub x y) (Fin 0) \<longleftrightarrow> js_lt y x"
    using comparator_sign[OF assms(1) y(1) assms(2) y(2)] .
  show ?case
  proof (cases "js_lt y x")
    case True
    have "not_below y x" using True js_lt_asym by (simp add: not_below_def)
    moreover have "\<forall>z \<in> set ys. not_below y z" using Cons.prems(2) by simp
    ultimately have "\<forall>z \<in> set (insert_by js_sub x ys). not_below y z"
      by (simp add: set_insert_by)
    moreover have "sorted_wrt not_below (insert_by js_sub x ys)"
      using Cons by simp
    ultimately show ?thesis using True c by simp
  next
    case False
    have xy: "not_below x y" using False by (simp add: not_below_def)
    have "\<forall>z \<in> set ys. not_below x z"
    proof
      fix z assume z: "z \<in> set ys"
      then have "z \<noteq> NaN" using Cons.prems(1) by (auto simp add: list_all_iff)
      moreover have "not_below y z" using Cons.prems(2) z by simp
      ultimately show "not_below x z" using not_below_trans[OF assms(1) y(1) _ xy] by simp
    qed
    then show ?thesis using False c xy Cons.prems(2) by simp
  qed
qed

lemma list_all_insert_by: "list_all P (insert_by cmp x ys) = (P x \<and> list_all P ys)"
  by (simp add: list_all_iff set_insert_by)

lemma sorted_js_sort:
  "list_all (\<lambda>v. v \<noteq> NaN \<and> is_double v) xs \<Longrightarrow> sorted_wrt not_below (js_sort js_sub xs)"
proof (induction xs)
  case Nil
  then show ?case by (simp add: js_sort_def)
next
  case (Cons x xs)
  have "list_all (\<lambda>v. v \<noteq> NaN \<and> is_double v) (js_sort js_sub xs)"
    using Cons.prems by (simp add: list_all_iff set_js_sort)
  then have "sorted_wrt not_below (insert_by js_sub x (js_sort js_sub xs))"
    using Cons by (intro sorted_insert_by) simp_all
  then show ?case by (simp add: js_sort_def)
qed

lemma length_insert_by: "length (insert_by cmp x ys) = Suc (length ys)"
  by (induction ys) simp_all

lemma length_js_sort: "length (js_sort cmp xs) = length xs"
  unfolding js_sort_def by (induction xs) (simp_all add: length_insert_by)

lemma js_lt_irrefl: "\<not> js_lt a a"
  by (cases a) simp_all

lemma sorted_nth_not_below:
  "sorted_wrt not_below xs \<Longrightarrow> i \<le> j \<Longrightarrow> j < length xs \<Longrightarrow> not_below (xs ! i) (xs ! j)"
  by (cases "i = j") (auto simp add: not_below_def js_lt_irrefl sorted_wrt_iff_nth_less)

lemma js_lt_simps2 [simp]:
  "\<not> js_lt x NInf" "\<not> js_lt PInf x" "\<not> js_lt x NaN" "\<not> js_lt NaN x"
  by (cases x; simp)+

lemma js_lt_NZero:
  "js_lt NZero y = js_lt (Fin 0) y" "js_lt y NZero = js_lt y (Fin 0)"
  by (cases y; simp)+

lemma js_add_finite:
  assumes "a \<noteq> NaN" "b \<noteq> NaN" "\<not> is_inf a" "\<not> is_inf b"
  shows "js_add a b = rnd (rv a + rv b) \<or> (js_add a b = NZero \<and> rv a + rv b = 0)"
  using assms by (cases a; cases b) (simp_all add: js_add_def)

lemma difference_not_negative:
  assumes "lo \<noteq> NaN" "hi \<noteq> NaN" "not_below lo hi"
  shows "js_sub hi lo = NaN \<or> \<not> js_lt (js_sub hi lo) (Fin 0)"
proof (cases "is_inf lo \<or> is_inf hi")
  case True
  then show ?thesis using assms
    by (cases lo; cases hi) (simp_all add: js_sub_def js_add_def js_neg_def not_below_def)
next
  case False
  have le: "rv lo \<le> rv hi" using False assms by (cases lo; cases hi) (simp_all add: not_below_def)
  then have "\<not> js_lt (rnd (rv hi - rv lo)) (rnd 0)" by (intro rnd_mono) simp
  then show ?thesis
    using js_sub_finite[of hi lo] assms(1,2) False by (auto simp add: rnd_0)
qed

lemma scaled_not_negative:
  assumes "i \<noteq> NaN" "\<not> js_lt i (Fin 0)"
  shows "js_mul (lit 15 10) i \<noteq> NaN \<and> \<not> js_lt (js_mul (lit 15 10) i) (Fin 0)"
proof (cases i)
  case (Fin r)
  then have r: "0 \<le> r" using assms(2) by simp
  have "\<not> js_lt (rnd (3 / 2 * r)) (rnd 0)" using r by (intro rnd_mono) simp
  then show ?thesis using Fin r by (simp add: lit_15_10 js_mul_def zero_s_def rnd_0 rnd_not_NaN)
qed (use assms in \<open>simp_all add: lit_15_10 js_mul_def zero_s_def inf_s_def\<close>)

lemma fences_ordered:
  assumes "lo \<noteq> NaN" "hi \<noteq> NaN" "not_below lo hi" "t \<noteq> NaN" "\<not> js_lt t (Fin 0)"
  shows "\<not> js_lt (js_add hi t) (js_sub lo t)"
proof (cases "is_inf lo \<or> is_inf hi \<or> is_inf t")
  case True
  then show ?thesis using assms
    by (cases lo; cases hi; cases t) (simp_all add: js_sub_def js_add_def js_neg_def not_below_def)
next
  case False
  have le: "rv lo \<le> rv hi" using False assms(1,2,3) by (cases lo; cases hi) (simp_all add: not_below_def)
  have t: "0 \<le> rv t" using False assms(4,5) by (cases t) simp_all
  have m: "\<not> js_lt (rnd (rv hi + rv t)) (rnd (rv lo - rv t))" using le t by (intro rnd_mono) simp
  have m1: "rv hi + rv t = 0 \<Longrightarrow> \<not> js_lt (Fin 0) (rnd (rv lo - rv t))"
    using rnd_mono[of "rv lo - rv t" 0] le t by (simp add: rnd_0)
  have m2: "rv lo - rv t = 0 \<Longrightarrow> \<not> js_lt (rnd (rv hi + rv t)) (Fin 0)"
    using rnd_mono[of 0 "rv hi + rv t"] le t by (simp add: rnd_0)
  show ?thesis
    using js_add_finite[of hi t] js_sub_finite[of lo t] assms(1,2,4) False m m1 m2
    by (auto simp add: js_lt_NZero)
qed

lemma js_eq_same_order:
  "js_eq a b \<Longrightarrow> js_lt a c = js_lt b c \<and> js_lt c a = js_lt c b"
  by (cases a; cases b; cases c) (auto simp add: js_eq_def)

lemma js_eq_not_lt: "js_eq a b \<Longrightarrow> \<not> js_lt a b \<and> \<not> js_lt b a"
  by (cases a; cases b) (auto simp add: js_eq_def)

lemma quartiles_in_range:
  assumes "vals \<noteq> []"
  shows "length vals div 4 \<le> 3 * length vals div 4" "3 * length vals div 4 < length vals"
  using assms by (simp_all add: div_le_mono less_mult_imp_div_less)

section \<open>Column classification\<close>

lemma parse_2020: "parseFloat (CStr ''2020'') = Fin 2020"
  by (simp add: parseFloat_def trimStart_def isWhiteSpace_def strDecimalLiteral_def splitSign_def
        isDigit_def exponentPart_def digitsVal_def digitVal_def pow10_def js_eval)

lemma parse_2021: "parseFloat (CStr ''2021'') = Fin 2021"
  by (simp add: parseFloat_def trimStart_def isWhiteSpace_def strDecimalLiteral_def splitSign_def
        isDigit_def exponentPart_def digitsVal_def digitVal_def pow10_def js_eval)

lemma finite_2020: "isFinite (CStr ''2020'')"
  by (simp add: isFinite_def stringToNumber_def trim_def isWhiteSpace_def strDecimalLiteral_def
        splitSign_def isDigit_def exponentPart_def digitsVal_def digitVal_def pow10_def js_eval
        is_finite_def)

lemma finite_2021: "isFinite (CStr ''2021'')"
  by (simp add: isFinite_def stringToNumber_def trim_def isWhiteSpace_def strDecimalLiteral_def
        splitSign_def isDigit_def exponentPart_def digitsVal_def digitVal_def pow10_def js_eval
        is_finite_def)

lemma keys_date: "objectKeys [(''date'', c)] = [''date'']"
  by (simp add: objectKeys_def isArrayIndex_def isDigit_def)

lemma distinct_objectKeys: "distinct (objectKeys ob)"
  by (auto simp add: objectKeys_def Let_def)

lemma Comprehensive_classify_cases:
  "Comprehensive_classify E rows s col = s\<lparr>numericColumns := numericColumns s @ [col]\<rparr>
   \<or> Comprehensive_classify E rows s col = s\<lparr>dateColumns := dateColumns s @ [col]\<rparr>
   \<or> Comprehensive_classify E rows s col = s\<lparr>categoricalColumns := categoricalColumns s @ [col]\<rparr>"
  by (simp add: Comprehensive_classify_def Let_def)

lemma foldl_Comprehensive_classify:
  "distinct cs \<Longrightarrow>
   set cs \<inter> set (numericColumns s @ dateColumns s @ categoricalColumns s) = {} \<Longrightarrow>
   distinct (numericColumns s @ dateColumns s @ categoricalColumns s) \<Longrightarrow>
   s' = foldl (Comprehensive_classify E rows) s cs \<Longrightarrow>
   distinct (numericColumns s' @ dateColumns s' @ categoricalColumns s')
   \<and> set (numericColumns s' @ dateColumns s' @ categoricalColumns s')
       = set (numericColumns s @ dateColumns s @ categoricalColumns s) \<union> set cs
   \<and> columns s' = columns s \<and> data s' = data s"
proof (induction cs arbitrary: s)
  case Nil
  then show ?case by simp
next
  case (Cons c cs)
  let ?t = "Comprehensive_classify E rows s c"
  have t: "set cs \<inter> set (numericColumns ?t @ dateColumns ?t @ categoricalColumns ?t) = {}
           \<and> distinct (numericColumns ?t @ dateColumns ?t @ categoricalColumns ?t)
           \<and> set (numericColumns ?t @ dateColumns ?t @ categoricalColumns ?t)
               = set (numericColumns s @ dateColumns s @ categoricalColumns s) \<union> {c}
           \<and> columns ?t = columns s \<and> data ?t = data s"
    using Comprehensive_classify_cases[of E rows s c] Cons.prems(1,2,3) by auto
  have "s' = foldl (Comprehensive_classify E rows) ?t cs" using Cons.prems(4) by simp
  with Cons.IH[of ?t] t Cons.prems(1) show ?case by auto
qed

text \<open>
  \<open>ComprehensiveDataAnalyzer.identifyColumnTypes\<close> returns after each push: for every
  loaded table its numeric, date and categorical lists together hold each column of the
  table exactly once.
\<close>

theorem classification_exclusive:
  assumes "data s = Some (r0 # rs)"
    and "Comprehensive_identifyColumnTypes E s = Inr s'"
  shows "columns s' = objectKeys r0
         \<and> distinct (numericColumns s' @ dateColumns s' @ categoricalColumns s')
         \<and> set (numericColumns s' @ dateColumns s' @ categoricalColumns s') = set (columns s')"
proof -
  let ?s0 = "s\<lparr>columns := objectKeys r0, numericColumns := [], dateColumns := [],
                categoricalColumns := []\<rparr>"
  have s': "s' = foldl (Comprehensive_classify E (r0 # rs)) ?s0 (objectKeys r0)"
    using assms by (simp add: Comprehensive_identifyColumnTypes_def)
  show ?thesis
    using foldl_Comprehensive_classify[OF distinct_objectKeys _ _ s'] by simp
qed

lemma mixedTable_classified:
  "Comprehensive_identifyColumnTypes exampleEngine mixedInitial = Inr mixedClassified"
  by (simp add: Comprehensive_identifyColumnTypes_def new_ComprehensiveDataAnalyzer_def mixedTable_def
      mixedInitial_def mixedClassified_def
      objectKeys_def isArrayIndex_def Comprehensive_classify_def sampleOf_def parse_eval
      isDateValue_def exampleEngine_def js_eval lit_7_10)

lemma mixedInitial_data: "data mixedInitial = Some (hd mixedTable # tl mixedTable)"
  by (simp add: mixedInitial_def mixedTable_def)

theorem classification_exclusive_witness:
  "data mixedInitial = Some (hd mixedTable # tl mixedTable)
   \<and> Comprehensive_identifyColumnTypes exampleEngine mixedInitial = Inr mixedClassified
   \<and> columns mixedClassified = objectKeys (hd mixedTable)
   \<and> distinct (numericColumns mixedClassified @ dateColumns mixedClassified
                @ categoricalColumns mixedClassified)
   \<and> set (numericColumns mixedClassified @ dateColumns mixedClassified
           @ categoricalColumns mixedClassified) = set (columns mixedClassified)"
  using mixedInitial_data mixedTable_classified
    classification_exclusive[OF mixedInitial_data mixedTable_classified]
  by blast

text \<open>
  Claim C1 at the table with the single column \<open>date\<close> holding the years 2020 and 2021:
  \<open>DataAnalyzer.identifyColumnTypes\<close> tests a column for numbers and for dates with two
  independent conditions and puts this column both in its numeric list and in its date
  list, while \<open>ComprehensiveDataAnalyzer.identifyColumnTypes\<close> puts it in the numeric list
  only.
\<close>

theorem column_numeric_and_date:
  "(case DataAnalyzer_identifyColumnTypes exampleEngine (new_DataAnalyzer\<lparr>data := Some dateTable\<rparr>) of
      Inl e \<Rightarrow> False
    | Inr s \<Rightarrow> numericColumns s = [''date''] \<and> dateColumns s = [''date''])
   \<and> (case Comprehensive_identifyColumnTypes exampleEngine
              (new_ComprehensiveDataAnalyzer\<lparr>data := Some dateTable\<rparr>) of
      Inl e \<Rightarrow> False
    | Inr s \<Rightarrow> numericColumns s = [''date''] \<and> dateColumns s = [] \<and> categoricalColumns s = [])"
  by (simp add: DataAnalyzer_identifyColumnTypes_def new_DataAnalyzer_def dateTable_def keys_date
      DataAnalyzer_classify_def sampleOf_def getCell_def nonEmpty_def isNumericValue_def
      parse_2020 parse_2021 finite_2020 finite_2021 isDateValue_def exampleEngine_def
      js_eval lit_8_10 lit_7_10 toLowerCase_def lowerChar_def
      Comprehensive_identifyColumnTypes_def new_ComprehensiveDataAnalyzer_def
      Comprehensive_classify_def)

section \<open>The empty table\<close>

lemma emptyInitial_fields:
  "data emptyInitial = Some []" "columns emptyInitial = []" "numericColumns emptyInitial = []"
  "dateColumns emptyInitial = []" "categoricalColumns emptyInitial = []"
  "rowsOf emptyInitial = []"
  by (simp_all add: emptyInitial_def new_ComprehensiveDataAnalyzer_def rowsOf_def)

text \<open>
  Claim C2 at the empty table: \<open>DataAnalyzer.analyzeData\<close> throws the error
  \<open>No data to analyze\<close>, while \<open>ComprehensiveDataAnalyzer.performComprehensiveAnalysis\<close>
  throws nothing and stores a complete result aggregate whose data-quality score is NaN.
\<close>

theorem empty_table_analysis:
  "analyzeData E (new_DataAnalyzer\<lparr>data := Some []\<rparr>) = Inl (Error ''No data to analyze'')
   \<and> performComprehensiveAnalysis E emptyInitial
       = Inr (emptyInitial\<lparr>analysisResults := emptyResults\<rparr>)"
proof -
  have 1: "Comprehensive_identifyColumnTypes E emptyInitial = Inr emptyInitial"
    by (simp add: Comprehensive_identifyColumnTypes_def emptyInitial_fields)
  have 2: "performComprehensiveAnalysis E emptyInitial
           = Inr (emptyInitial\<lparr>analysisResults := emptyResults\<rparr>)"
    unfolding performComprehensiveAnalysis_def 1
    by (simp add: andThen_def emptyInitial_def new_ComprehensiveDataAnalyzer_def emptyResults_def
      assessDataQuality_def objectValues_def
      generateExecutiveSummary_def hasColumns_def rowsOf_def
      performPerformanceAnalysis_def performDemographicAnalysis_def
      performTemporalAnalysis_def performStatisticalAnalysis_def performCorrelationAnalysis_def
      significantCorrelations_def generateAdvancedInsights_def generateRecommendations_def
      findBestPerformingSegments_def objectEntries_def objectKeys_def js_eval)
  show ?thesis using 2 by (simp add: analyzeData_def)
qed

section \<open>The order of the correlation records\<close>

lemma sqrt_36: "Math_sqrt (Fin 36) = Fin 6"
  by (rule Math_sqrt_FinI[where b = 6]) (simp_all add: js_eval)

lemma corrTable_classified:
  "Comprehensive_identifyColumnTypes E corrInitial = Inr corrClassified"
  by (simp add: Comprehensive_identifyColumnTypes_def new_ComprehensiveDataAnalyzer_def corrTable_def
      corrInitial_def corrClassified_def
      objectKeys_def isArrayIndex_def Comprehensive_classify_def sampleOf_def parse_eval
      js_eval lit_7_10)

lemma corrTable_pairs:
  "validPairs corrTable ''a'' ''b'' = [(Fin 1, Fin 1), (Fin 2, Fin 3), (Fin 3, Fin 2)]"
  "validPairs corrTable ''a'' ''c'' = [(Fin 1, Fin 1), (Fin 2, Fin 2), (Fin 3, Fin 3)]"
  "validPairs corrTable ''b'' ''c'' = [(Fin 1, Fin 1), (Fin 3, Fin 2), (Fin 2, Fin 3)]"
  by (simp_all add: validPairs_def corrTable_def parse_eval js_eval)

lemma corrTable_coefficients:
  "calculateCorrelation corrTable ''a'' ''b'' = Fin (1 / 2)"
  "calculateCorrelation corrTable ''a'' ''c'' = Fin 1"
  "calculateCorrelation corrTable ''b'' ''c'' = Fin (1 / 2)"
  by (simp_all add: calculateCorrelation_def corrTable_pairs pearsonDenominator_def
      pearsonNumerator_def js_eval sqrt_36)

text \<open>
  Claim C3 at a table with three numeric columns:
  \<open>ComprehensiveDataAnalyzer.performCorrelationAnalysis\<close> emits the records in the order
  of the column pairs, here with the coefficients 0.5, 1, 0.5, which is not descending.
\<close>

theorem comprehensive_correlations_unsorted:
  "Comprehensive_identifyColumnTypes E corrInitial = Inr corrClassified
   \<and> res_correlations (analysisResults (performCorrelationAnalysis corrClassified))
     = Some \<lparr>significant =
         [\<lparr>column1 = ''a'', column2 = ''b'', correlation = Fin (1 / 2), strength = ''Moderate''\<rparr>,
          \<lparr>column1 = ''a'', column2 = ''c'', correlation = Fin 1, strength = ''Very Strong''\<rparr>,
          \<lparr>column1 = ''b'', column2 = ''c'', correlation = Fin (1 / 2), strength = ''Moderate''\<rparr>]\<rparr>"
proof -
  have r: "rowsOf corrClassified = corrTable" "numericColumns corrClassified = [''a'', ''b'', ''c'']"
    by (simp_all add: corrClassified_def rowsOf_def new_ComprehensiveDataAnalyzer_def)
  show ?thesis
    by (simp add: corrTable_classified performCorrelationAnalysis_def r significantCorrelations_def
        corrTable_coefficients getCorrelationStrength_def Math_abs_def js_eval
        lit_3_10 lit_8_10 lit_6_10 lit_4_10)
qed

section \<open>A zero denominator\<close>

lemma zero_not_above_literal: "\<not> js_gt (Math_abs (Fin 0)) (lit 3 10)"
  by (simp add: Math_abs_def js_gt_def lit_3_10)

text \<open>
  When the denominator that the code computes over the valid pairs of two columns is 0,
  \<open>DataAnalyzer.pearsonCorrelation\<close> returns \<open>null\<close>,
  \<open>ComprehensiveDataAnalyzer.calculateCorrelation\<close> returns 0, and neither analyzer emits
  a correlation record for the pair.
\<close>

theorem zero_denominator_excluded:
  assumes "js_eq (pearsonDenominator (validPairs (rowsOf s) col1 col2)) (Fin 0)"
  shows "pearsonCorrelation s col1 col2 = None
         \<and> calculateCorrelation (rowsOf s) col1 col2 = Fin 0
         \<and> \<not> list_ex (\<lambda>r. column1 r = col1 \<and> column2 r = col2)
                (correlations (calculateCorrelations E s))
         \<and> \<not> list_ex (\<lambda>r. column1 r = col1 \<and> column2 r = col2)
                (significantCorrelations (rowsOf s) cols)"
proof -
  have p: "pearsonCorrelation s col1 col2 = None"
    using assms by (simp add: pearsonCorrelation_def Let_def)
  have c: "calculateCorrelation (rowsOf s) col1 col2 = Fin 0"
    using assms by (simp add: calculateCorrelation_def Let_def)
  have d: "\<not> list_ex (\<lambda>r. column1 r = col1 \<and> column2 r = col2)
              (correlations (calculateCorrelations E s))"
    using p by (auto simp add: calculateCorrelations_def Let_def list_ex_iff set_js_sort
        split: option.splits if_splits)
  have g: "\<not> list_ex (\<lambda>r. column1 r = col1 \<and> column2 r = col2)
              (significantCorrelations (rowsOf s) cols)"
    using c zero_not_above_literal
    by (auto simp add: significantCorrelations_def Let_def list_ex_iff split: if_splits)
  show ?thesis using p c d g by simp
qed

lemma constTable_denominator:
  "js_eq (pearsonDenominator (validPairs (rowsOf constAnalyzer) ''a'' ''b'')) (Fin 0)"
proof -
  have v: "validPairs (rowsOf constAnalyzer) ''a'' ''b'' = [(Fin 1, Fin 1), (Fin 1, Fin 2)]"
    by (simp add: constAnalyzer_def rowsOf_def validPairs_def constTable_def parse_eval js_eval)
  have s: "Math_sqrt (Fin 0) = Fin 0" by (simp add: Math_sqrt_def js_eval)
  show ?thesis unfolding v by (simp add: pearsonDenominator_def js_eval s)
qed

theorem zero_denominator_excluded_witness:
  "js_eq (pearsonDenominator (validPairs (rowsOf constAnalyzer) ''a'' ''b'')) (Fin 0)
   \<and> pearsonCorrelation constAnalyzer ''a'' ''b'' = None
   \<and> calculateCorrelation (rowsOf constAnalyzer) ''a'' ''b'' = Fin 0
   \<and> \<not> list_ex (\<lambda>r. column1 r = ''a'' \<and> column2 r = ''b'')
          (correlations (calculateCorrelations exampleEngine constAnalyzer))
   \<and> \<not> list_ex (\<lambda>r. column1 r = ''a'' \<and> column2 r = ''b'')
          (significantCorrelations (rowsOf constAnalyzer) [''a'', ''b''])"
  using constTable_denominator
    zero_denominator_excluded[OF constTable_denominator, of exampleEngine "[''a'', ''b'']"]
  by blast

subsection \<open>Two columns without variance\<close>

lemma parse_03: "parseFloat (CStr ''0.3'') = Fin c03"
proof -
  have "rnd (3 / 10) = Fin c03"
    by (rule rnd_eval[where e = "- 2" and u = "- 54" and k = 5404319552844595])
       (simp_all add: pow2_def rne_def c03_def)
  then show ?thesis
    by (simp add: parseFloat_def trimStart_def isWhiteSpace_def strDecimalLiteral_def splitSign_def
        isDigit_def exponentPart_def digitsVal_def digitVal_def pow10_def)
qed

lemma flat_pairs:
  "validPairs flatTable ''a'' ''b'' = [(Fin c03, Fin c03), (Fin c03, Fin c03), (Fin c03, Fin c03)]"
  by (simp add: validPairs_def flatTable_def getCell_def parse_03 isNaN_def)

lemma flat_sum:
  "js_add (Fin 0) (Fin c03) = Fin c03"
  "js_add (Fin c03) (Fin c03) = Fin (2 * c03)"
  "js_add (Fin (2 * c03)) (Fin c03) = Fin s09"
proof -
  show "js_add (Fin 0) (Fin c03) = Fin c03"
    by (rule js_add_FinI, rule rnd_dyadicI[where m = 5404319552844595 and n = 54])
       (simp_all add: c03_def)
  show "js_add (Fin c03) (Fin c03) = Fin (2 * c03)"
    by (rule js_add_FinI, rule rnd_dyadicI[where m = 5404319552844595 and n = 53])
       (simp_all add: c03_def)
  show "js_add (Fin (2 * c03)) (Fin c03) = Fin s09"
    by (rule js_add_FinI, rule rnd_eval[where e = "- 1" and u = "- 53" and k = 8106479329266892])
       (simp_all add: pow2_def rne_def c03_def s09_def)
qed

lemma flat_square: "js_mul (Fin c03) (Fin c03) = Fin p009"
  by (rule js_mul_FinI[OF _ _ rnd_eval[where e = "- 4" and u = "- 56" and k = 6485183463413514]])
     (simp_all add: pow2_def rne_def c03_def p009_def)

lemma flat_squares:
  "js_add (Fin 0) (Fin p009) = Fin p009"
  "js_add (Fin p009) (Fin p009) = Fin (2 * p009)"
  "js_add (Fin (2 * p009)) (Fin p009) = Fin s027"
proof -
  show "js_add (Fin 0) (Fin p009) = Fin p009"
    by (rule js_add_FinI, rule rnd_dyadicI[where m = 6485183463413514 and n = 56])
       (simp_all add: p009_def)
  show "js_add (Fin p009) (Fin p009) = Fin (2 * p009)"
    by (rule js_add_FinI, rule rnd_dyadicI[where m = 6485183463413514 and n = 55])
       (simp_all add: p009_def)
  show "js_add (Fin (2 * p009)) (Fin p009) = Fin s027"
    by (rule js_add_FinI, rule rnd_eval[where e = "- 2" and u = "- 54" and k = 4863887597560136])
       (simp_all add: pow2_def rne_def p009_def s027_def)
qed

lemma flat_products:
  "js_mul (Fin 3) (Fin s027) = Fin n081"
  "js_mul (Fin s09) (Fin s09) = Fin q081"
proof -
  show "js_mul (Fin 3) (Fin s027) = Fin n081"
    by (rule js_mul_FinI[OF _ _ rnd_eval[where e = "- 1" and u = "- 53" and k = 7295831396340204]])
       (simp_all add: pow2_def rne_def s027_def n081_def)
  show "js_mul (Fin s09) (Fin s09) = Fin q081"
    by (rule js_mul_FinI[OF _ _ rnd_eval[where e = "- 1" and u = "- 53" and k = 7295831396340202]])
       (simp_all add: pow2_def rne_def s09_def q081_def)
qed

lemma flat_difference: "js_sub (Fin n081) (Fin q081) = Fin e52"
  by (rule js_sub_FinI, rule rnd_dyadicI[where m = 1 and n = 52])
     (simp_all add: n081_def q081_def e52_def)

lemma flat_root: "Math_sqrt (js_mul (Fin e52) (Fin e52)) = Fin e52"
proof -
  have "js_mul (Fin e52) (Fin e52) = Fin (e52 * e52)"
    by (rule js_mul_FinI[OF _ _ rnd_dyadicI[where m = 1 and n = 104]]) (simp_all add: e52_def)
  moreover have "Math_sqrt (Fin (e52 * e52)) = Fin e52"
    by (rule Math_sqrt_FinI[where b = e52, OF _ _ _ rnd_dyadicI[where m = 1 and n = 52]])
       (simp_all add: e52_def)
  ultimately show ?thesis by simp
qed

lemma flat_quotient: "js_div (Fin e52) (Fin e52) = Fin 1"
  by (rule js_div_FinI[OF _ _ rnd_dyadicI[where m = 1 and n = 0]]) (simp_all add: e52_def)

lemma flat_numerator:
  "pearsonNumerator [(Fin c03, Fin c03), (Fin c03, Fin c03), (Fin c03, Fin c03)] = Fin e52"
  by (simp add: pearsonNumerator_def Let_def num3 flat_sum flat_square flat_squares flat_products
      flat_difference)

lemma flat_denominator:
  "pearsonDenominator [(Fin c03, Fin c03), (Fin c03, Fin c03), (Fin c03, Fin c03)] = Fin e52"
  by (simp add: pearsonDenominator_def Let_def num3 flat_sum flat_square flat_squares flat_products
      flat_difference flat_root)


lemma numeric_03: "isNumericValue (CStr ''0.3'')"
proof -
  have "rnd (3 / 10) = Fin c03"
    by (rule rnd_eval[where e = "- 2" and u = "- 54" and k = 5404319552844595])
       (simp_all add: pow2_def rne_def c03_def)
  then have "stringToNumber ''0.3'' = Fin c03"
    by (simp add: stringToNumber_def trim_def trimStart_def isWhiteSpace_def strDecimalLiteral_def
        splitSign_def isDigit_def exponentPart_def digitsVal_def digitVal_def pow10_def)
  then show ?thesis by (simp add: isNumericValue_def parse_03 isFinite_def is_finite_def isNaN_def)
qed

lemma flat_keys: "objectKeys [(''a'', x), (''b'', y)] = [''a'', ''b'']"
  by (simp add: objectKeys_def isArrayIndex_def isDigit_def)

lemma flat_samples:
  "sampleOf n flatTable c = filter nonEmpty (map (\<lambda>r. getCell r c) (take n flatTable))"
  by (simp add: sampleOf_def)

lemma flatTable_classified:
  "DataAnalyzer_identifyColumnTypes exampleEngine (new_DataAnalyzer\<lparr>data := Some flatTable\<rparr>)
   = Inr flatAnalyzer"
  "Comprehensive_identifyColumnTypes exampleEngine
     (new_ComprehensiveDataAnalyzer\<lparr>data := Some flatTable\<rparr>) = Inr flatClassified"
  by (simp_all add: DataAnalyzer_identifyColumnTypes_def Comprehensive_identifyColumnTypes_def
      new_DataAnalyzer_def new_ComprehensiveDataAnalyzer_def flatTable_def flatAnalyzer_def
      flatClassified_def flat_keys DataAnalyzer_classify_def Comprehensive_classify_def
      sampleOf_def getCell_def nonEmpty_def numeric_03 js_eval lit_8_10 lit_7_10
      toLowerCase_def lowerChar_def)


lemma flat_fields:
  "rowsOf flatAnalyzer = flatTable" "numericColumns flatAnalyzer = [''a'', ''b'']"
  "rowsOf flatClassified = flatTable" "numericColumns flatClassified = [''a'', ''b'']"
  by (simp_all add: flatAnalyzer_def flatClassified_def new_DataAnalyzer_def
      new_ComprehensiveDataAnalyzer_def rowsOf_def)

lemma flat_strength: "getCorrelationStrength (Fin 1) = ''Very Strong''"
  by (simp add: getCorrelationStrength_def Math_abs_def js_ge_def lit_8_10)

lemma flat_thresholds: "js_gt (Math_abs (Fin 1)) (lit 1 10)" "js_gt (Math_abs (Fin 1)) (lit 3 10)"
  by (simp_all add: Math_abs_def js_gt_def lit_1_10 lit_3_10)

text \<open>
  Claim C4 at the table whose columns \<open>a\<close> and \<open>b\<close> hold \<open>0.3\<close> in each of three rows:
  both columns have zero variance, so the denominator of the Pearson formula is 0, but the
  code computes \<open>2^-52\<close> for it (the running sums are rounded), the test
  \<open>denominator === 0\<close> fails, the coefficient is \<open>2^-52 / 2^-52 = 1\<close>, and both analyzers
  emit a record of strength \<open>Very Strong\<close> for the pair.
\<close>

theorem zero_variance_correlated:
  "DataAnalyzer_identifyColumnTypes exampleEngine (new_DataAnalyzer\<lparr>data := Some flatTable\<rparr>)
     = Inr flatAnalyzer
   \<and> pearsonDenominator (validPairs flatTable ''a'' ''b'') = Fin (1 / 2 ^ 52)
   \<and> pearsonCorrelation flatAnalyzer ''a'' ''b'' = Some (Fin 1)
   \<and> map (\<lambda>r. (column1 r, column2 r, correlation r, strength r))
          (correlations (calculateCorrelations exampleEngine flatAnalyzer))
     = [(''a'', ''b'', Fin 1, ''Very Strong'')]
   \<and> Comprehensive_identifyColumnTypes exampleEngine
        (new_ComprehensiveDataAnalyzer\<lparr>data := Some flatTable\<rparr>) = Inr flatClassified
   \<and> calculateCorrelation flatTable ''a'' ''b'' = Fin 1
   \<and> map_option significant
        (res_correlations (analysisResults (performCorrelationAnalysis flatClassified)))
     = Some [\<lparr>column1 = ''a'', column2 = ''b'', correlation = Fin 1,
               strength = ''Very Strong''\<rparr>]"
proof -
  have z: "\<not> js_eq (Fin e52) (Fin 0)" by (simp add: js_eq_def e52_def)
  have d: "pearsonDenominator (validPairs flatTable ''a'' ''b'') = Fin (1 / 2 ^ 52)"
    by (simp add: flat_pairs flat_denominator e52_def)
  have p: "pearsonCorrelation flatAnalyzer ''a'' ''b'' = Some (Fin 1)"
    by (simp add: pearsonCorrelation_def flat_fields flat_pairs flat_denominator flat_numerator
        z flat_quotient)
  have c: "calculateCorrelation flatTable ''a'' ''b'' = Fin 1"
    by (simp add: calculateCorrelation_def flat_pairs flat_denominator flat_numerator
        z flat_quotient)
  have e: "map (\<lambda>r. (column1 r, column2 r, correlation r, strength r))
          (correlations (calculateCorrelations exampleEngine flatAnalyzer))
     = [(''a'', ''b'', Fin 1, ''Very Strong'')]"
    by (simp add: calculateCorrelations_def flat_fields p flat_strength flat_thresholds js_sort_def)
  have g: "map_option significant
        (res_correlations (analysisResults (performCorrelationAnalysis flatClassified)))
     = Some [\<lparr>column1 = ''a'', column2 = ''b'', correlation = Fin 1,
               strength = ''Very Strong''\<rparr>]"
    by (simp add: performCorrelationAnalysis_def significantCorrelations_def flat_fields c
        flat_strength flat_thresholds)
  show ?thesis using flatTable_classified d p c e g by simp
qed

section \<open>A column of identical values\<close>

lemma parse_01: "parseFloat (CStr ''0.1'') = Fin a01"
proof -
  have "rnd (1 / 10) = Fin a01"
    by (rule rnd_eval[where e = "- 4" and u = "- 56" and k = 7205759403792794])
       (simp_all add: pow2_def rne_def a01_def)
  then show ?thesis
    by (simp add: parseFloat_def trimStart_def isWhiteSpace_def strDecimalLiteral_def splitSign_def
        isDigit_def exponentPart_def digitsVal_def digitVal_def pow10_def)
qed

lemma sum01: "sum_list_js [Fin a01, Fin a01, Fin a01] = Fin s01"
proof -
  have 1: "js_add (Fin 0) (Fin a01) = Fin a01"
    by (rule js_add_FinI, rule rnd_dyadicI[where m = 7205759403792794 and n = 56])
       (simp_all add: a01_def)
  have 2: "js_add (Fin a01) (Fin a01) = Fin (2 * a01)"
    by (rule js_add_FinI, rule rnd_dyadicI[where m = 7205759403792794 and n = 55])
       (simp_all add: a01_def)
  have 3: "js_add (Fin (2 * a01)) (Fin a01) = Fin s01"
    by (rule js_add_FinI, rule rnd_eval[where e = "- 2" and u = "- 54" and k = 5404319552844596])
       (simp_all add: pow2_def rne_def a01_def s01_def)
  show ?thesis by (simp only: sum_list_js_def foldl.simps 1 2 3)
qed

lemma mean01: "meanOf [Fin a01, Fin a01, Fin a01] = Fin m01"
proof -
  have "js_div (Fin s01) (Fin 3) = Fin m01"
    by (rule js_div_FinI[OF _ _ rnd_eval[where e = "- 4" and u = "- 56" and k = 7205759403792795]])
       (simp_all add: pow2_def rne_def m01_def s01_def)
  then show ?thesis by (simp add: meanOf_def sum01 num3)
qed

lemma dev01: "js_sub (Fin a01) (Fin m01) = Fin d01"
  by (rule js_sub_FinI, rule rnd_dyadicI[where m = "- 1" and n = 56])
     (simp_all add: a01_def m01_def d01_def)

lemma sq01: "Math_pow (Fin d01) 2 = Fin q01"
  by (rule Math_pow_FinI[OF _ rnd_dyadicI[where m = 1 and n = 112]])
     (simp_all add: d01_def q01_def power2_eq_square)

lemma var01: "varianceOf [Fin a01, Fin a01, Fin a01] = Fin q01"
proof -
  have 1: "js_add (Fin 0) (Fin q01) = Fin q01"
    by (rule js_add_FinI, rule rnd_dyadicI[where m = 1 and n = 112]) (simp_all add: q01_def)
  have 2: "js_add (Fin q01) (Fin q01) = Fin (2 * q01)"
    by (rule js_add_FinI, rule rnd_dyadicI[where m = 1 and n = 111]) (simp_all add: q01_def)
  have 3: "js_add (Fin (2 * q01)) (Fin q01) = Fin (3 * q01)"
    by (rule js_add_FinI, rule rnd_dyadicI[where m = 3 and n = 112]) (simp_all add: q01_def)
  have 4: "js_div (Fin (3 * q01)) (Fin 3) = Fin q01"
    by (rule js_div_FinI[OF _ _ rnd_dyadicI[where m = 1 and n = 112]]) (simp_all add: q01_def)
  show ?thesis
    by (simp add: varianceOf_def mean01 dev01 sq01 num3 1 2 3 4)
qed

lemma std01: "Math_sqrt (varianceOf [Fin a01, Fin a01, Fin a01]) = Fin (- d01)"
  unfolding var01
  by (rule Math_sqrt_FinI[where b = "- d01", OF _ _ _ rnd_dyadicI[where m = 1 and n = 56]])
     (simp_all add: d01_def q01_def)

lemma skew01: "skewnessOf [Fin a01, Fin a01, Fin a01] = Fin (- 1)"
proof -
  have q: "js_div (Fin d01) (Fin (- d01)) = Fin (- 1)"
    by (rule js_div_FinI[OF _ _ rnd_dyadicI[where m = "- 1" and n = 0]]) (simp_all add: d01_def)
  have c: "Math_pow (Fin (- 1)) 3 = Fin (- 1)"
    by (rule Math_pow_FinI[OF _ rnd_dyadicI[where m = "- 1" and n = 0]]) simp_all
  have 1: "js_add (Fin 0) (Fin (- 1)) = Fin (- 1)"
    by (rule js_add_FinI, rule rnd_dyadicI[where m = "- 1" and n = 0]) simp_all
  have 2: "js_add (Fin (- 1)) (Fin (- 1)) = Fin (- 2)"
    by (rule js_add_FinI, rule rnd_dyadicI[where m = "- 2" and n = 0]) simp_all
  have 3: "js_add (Fin (- 2)) (Fin (- 1)) = Fin (- 3)"
    by (rule js_add_FinI, rule rnd_dyadicI[where m = "- 3" and n = 0]) simp_all
  have 4: "js_div (Fin (- 3)) (Fin 3) = Fin (- 1)"
    by (rule js_div_FinI[OF _ _ rnd_dyadicI[where m = "- 1" and n = 0]]) simp_all
  have z: "\<not> js_eq (Fin (- d01)) (Fin 0)" by (simp add: js_eq_def d01_def)
  show ?thesis
    by (simp add: skewnessOf_def std01 mean01 dev01 q c num3 z 1 2 3 4)
qed

text \<open>
  Claim C5 at the column \<open>0.1, 0.1, 0.1\<close>: the running sum of the three values is
  rounded, the mean differs from \<open>0.1\<close> in the last place, and both analyzers report the
  standard deviation \<open>2^-56\<close> and the skewness \<open>-1\<close> instead of 0 and 0.
\<close>

theorem constant_column_std_skewness:
  "map_option d_std (calculateDistributionStats (columnValues tenthsTable ''x''))
     = Some (Fin (1 / 2 ^ 56))
   \<and> map_option d_skewness (calculateDistributionStats (columnValues tenthsTable ''x''))
     = Some (Fin (- 1))
   \<and> std (calculateStats (new_DataAnalyzer\<lparr>data := Some tenthsTable\<rparr>) ''x'')
     = Some (Fin (1 / 2 ^ 56))
   \<and> skewness (calculateStats (new_DataAnalyzer\<lparr>data := Some tenthsTable\<rparr>) ''x'')
     = Some (Fin (- 1))"
proof -
  have v: "columnValues tenthsTable ''x'' = [Fin a01, Fin a01, Fin a01]"
    by (simp add: tenthsTable_def columnValues_def getCell_def parse_01 isNaN_def)
  have d: "- d01 = 1 / 2 ^ 56" by (simp add: d01_def)
  have r: "rowsOf (new_DataAnalyzer\<lparr>data := Some tenthsTable\<rparr>) = tenthsTable"
    by (simp add: rowsOf_def)
  show ?thesis
    unfolding calculateStats_def r v
    by (simp add: calculateDistributionStats_def Let_def std01 skew01 d)
qed

section \<open>Outlier fences\<close>

lemma count_insert_by: "count_list (insert_by cmp x ys) v = count_list (x # ys) v"
  by (induction ys) auto

lemma count_js_sort: "count_list (js_sort cmp xs) v = count_list xs v"
  unfolding js_sort_def by (induction xs) (simp_all add: count_insert_by)

lemma edge_literals:
  "rnd (- (3 / 10)) = Fin (- c03)" "rnd (6 / 10) = Fin (2 * c03)" "rnd (12 / 10) = Fin (4 * c03)"
proof -
  show "rnd (- (3 / 10)) = Fin (- c03)"
    by (rule rnd_eval[where e = "- 2" and u = "- 54" and k = "- 5404319552844595"])
       (simp_all add: pow2_def rne_def c03_def)
  show "rnd (6 / 10) = Fin (2 * c03)"
    by (rule rnd_eval[where e = "- 1" and u = "- 53" and k = 5404319552844595])
       (simp_all add: pow2_def rne_def c03_def)
  show "rnd (12 / 10) = Fin (4 * c03)"
    by (rule rnd_eval[where e = 0 and u = "- 52" and k = 5404319552844595])
       (simp_all add: pow2_def rne_def c03_def)
qed

lemma edge_values:
  "columnValues edgeTable ''x''
   = [Fin (- c03), Fin (2 * c03), Fin (2 * c03), Fin (4 * c03), Fin (4 * c03)]"
proof -
  have p: "parseFloat (CStr ''-0.3'') = Fin (- c03)" "parseFloat (CStr ''0.6'') = Fin (2 * c03)"
    "parseFloat (CStr ''1.2'') = Fin (4 * c03)"
    using edge_literals
    by (simp_all add: parseFloat_def trimStart_def isWhiteSpace_def strDecimalLiteral_def
        splitSign_def isDigit_def exponentPart_def digitsVal_def digitVal_def pow10_def)
  show ?thesis by (simp add: columnValues_def edgeTable_def getCell_def p isNaN_def)
qed


lemma edge_doubles:
  "is_double (Fin (- c03))" "is_double (Fin (2 * c03))" "is_double (Fin (4 * c03))"
  using edge_literals is_double_rnd[of "- (3 / 10)"] is_double_rnd[of "6 / 10"]
    is_double_rnd[of "12 / 10"]
  by simp_all

lemma edge_order:
  "\<not> js_gt (js_sub (Fin (- c03)) (Fin (2 * c03))) (Fin 0)"
  "\<not> js_gt (js_sub (Fin (2 * c03)) (Fin (2 * c03))) (Fin 0)"
  "\<not> js_gt (js_sub (Fin (2 * c03)) (Fin (4 * c03))) (Fin 0)"
  "\<not> js_gt (js_sub (Fin (4 * c03)) (Fin (4 * c03))) (Fin 0)"
  by (simp_all add: comparator_sign edge_doubles) (simp_all add: c03_def)

lemma edge_sorted:
  "js_sort js_sub [Fin (- c03), Fin (2 * c03), Fin (2 * c03), Fin (4 * c03), Fin (4 * c03)]
   = [Fin (- c03), Fin (2 * c03), Fin (2 * c03), Fin (4 * c03), Fin (4 * c03)]"
  by (simp add: js_sort_def edge_order)

lemma edge_range: "js_sub (Fin (4 * c03)) (Fin (2 * c03)) = Fin (2 * c03)"
  by (rule js_sub_FinI, rule rnd_dyadicI[where m = 5404319552844595 and n = 53])
     (simp_all add: c03_def)

lemma edge_scaled: "js_mul (Fin (3 / 2)) (Fin (2 * c03)) = Fin s09"
  by (rule js_mul_FinI[OF _ _ rnd_eval[where e = "- 1" and u = "- 53" and k = 8106479329266892]])
     (simp_all add: pow2_def rne_def c03_def s09_def)

lemma edge_lower: "js_sub (Fin (2 * c03)) (Fin s09) = Fin (2 * c03 - s09)"
  by (rule js_sub_FinI, rule rnd_dyadicI[where m = "- 2702159776422297" and n = 53])
     (simp_all add: c03_def s09_def)

lemma edge_upper: "js_add (Fin (4 * c03)) (Fin s09) = Fin (1182194902184755 / 2 ^ 49)"
  by (rule js_add_FinI, rule rnd_eval[where e = 1 and u = "- 51" and k = 4728779608739020])
     (simp_all add: pow2_def rne_def c03_def s09_def)

text \<open>
  Claim C6, as stated, fails: in the column \<open>-0.3, 0.6, 0.6, 1.2, 1.2\<close> the quartiles are
  \<open>0.6\<close> and \<open>1.2\<close> and the first value equals \<open>Q1 - 1.5 * IQR\<close> exactly, but the
  product \<open>1.5 * 0.6\<close> is rounded down, the computed fence \<open>-0.29999999999999993\<close> lies
  above the value, and \<open>detectOutliers\<close> reports it.
\<close>

theorem value_on_fence_reported:
  "columnValues edgeTable ''x''
     = [Fin (- c03), Fin (2 * c03), Fin (2 * c03), Fin (4 * c03), Fin (4 * c03)]
   \<and> map_option q1 (calculateDistributionStats (columnValues edgeTable ''x'')) = Some (Fin (2 * c03))
   \<and> map_option q3 (calculateDistributionStats (columnValues edgeTable ''x'')) = Some (Fin (4 * c03))
   \<and> - c03 = 2 * c03 - 3 / 2 * (4 * c03 - 2 * c03)
   \<and> detectOutliers (columnValues edgeTable ''x'') = [Fin (- c03)]"
proof -
  let ?vals = "[Fin (- c03), Fin (2 * c03), Fin (2 * c03), Fin (4 * c03), Fin (4 * c03)]"
  obtain st where st: "calculateDistributionStats ?vals = Some st"
    by (simp add: calculateDistributionStats_def Let_def)
  have q: "q1 st = Fin (2 * c03)" "q3 st = Fin (4 * c03)"
    using st by (auto simp add: calculateDistributionStats_def Let_def edge_sorted)
  have b: "lowerBound st = Fin (2 * c03 - s09)" "upperBound st = Fin (1182194902184755 / 2 ^ 49)"
    by (simp_all add: lowerBound_def upperBound_def q lit_15_10 edge_range edge_scaled edge_lower
        edge_upper)
  have d: "detectOutliers ?vals = [Fin (- c03)]"
    by (simp add: detectOutliers_def st b js_gt_def) (simp add: c03_def s09_def)
  show ?thesis
    unfolding edge_values using st q d by simp
qed

text \<open>
  Claim C6 (amended): for a column of non-NaN binary64 values (what
  \<open>performStatisticalAnalysis\<close> passes), let \<open>Q1\<close> and \<open>Q3\<close> be the elements at the indices
  \<open>n div 4\<close> and \<open>3 * n div 4\<close> of the ascending arrangement of the column, and let the
  fences be \<open>Q1 - 1.5 * (Q3 - Q1)\<close> and \<open>Q3 + 1.5 * (Q3 - Q1)\<close> as binary64 computes them,
  every operation rounded.  \<open>detectOutliers\<close> reports, in their order, exactly the values
  strictly below the lower fence or strictly above the upper fence; a value equal to either
  computed fence is not reported.
\<close>

theorem outlier_fences_strict:
  assumes "list_all (\<lambda>v. v \<noteq> NaN \<and> is_double v) vals" and "vals \<noteq> []"
  shows "let sortedValues = js_sort js_sub vals;
             lo = sortedValues ! (length vals div 4);
             hi = sortedValues ! (3 * length vals div 4);
             lower = js_sub lo (js_mul (Fin (3 / 2)) (js_sub hi lo));
             upper = js_add hi (js_mul (Fin (3 / 2)) (js_sub hi lo))
         in sorted_wrt (\<lambda>a b. \<not> js_lt b a) sortedValues
            \<and> (\<forall>v. count_list sortedValues v = count_list vals v)
            \<and> detectOutliers vals = filter (\<lambda>x. js_lt x lower \<or> js_lt upper x) vals
            \<and> (\<forall>x. js_eq x lower \<or> js_eq x upper \<longrightarrow> x \<notin> set (detectOutliers vals))"
proof -
  let ?sorted = "js_sort js_sub vals"
  let ?lo = "?sorted ! (length vals div 4)"
  let ?hi = "?sorted ! (3 * length vals div 4)"
  let ?iqr = "js_sub ?hi ?lo"
  let ?t = "js_mul (lit 15 10) ?iqr"
  let ?lower = "js_sub ?lo ?t"
  let ?upper = "js_add ?hi ?t"
  obtain st where st: "calculateDistributionStats vals = Some st"
    using assms(2) by (simp add: calculateDistributionStats_def Let_def)
  have q: "q1 st = ?lo" "q3 st = ?hi"
    using st assms(2) by (auto simp add: calculateDistributionStats_def Let_def length_js_sort)
  have b: "lowerBound st = ?lower" "upperBound st = ?upper"
    by (simp_all add: lowerBound_def upperBound_def q)
  have d: "detectOutliers vals = filter (\<lambda>x. js_lt x ?lower \<or> js_lt ?upper x) vals"
    using st by (simp add: detectOutliers_def b js_gt_def)
  have s: "sorted_wrt not_below ?sorted" using assms(1) by (rule sorted_js_sort)
  have i: "length vals div 4 \<le> 3 * length vals div 4" "3 * length vals div 4 < length ?sorted"
    using quartiles_in_range[OF assms(2)] by (simp_all add: length_js_sort)
  have o: "not_below ?lo ?hi" using s i by (rule sorted_nth_not_below)
  have "?lo \<in> set ?sorted" "?hi \<in> set ?sorted"
    using i by (simp_all add: length_js_sort)
  then have n: "?lo \<noteq> NaN" "?hi \<noteq> NaN"
    using assms(1) by (auto simp add: set_js_sort list_all_iff)
  have f: "\<not> js_lt ?upper ?lower"
  proof (cases "?iqr = NaN")
    case True
    then show ?thesis by (simp add: js_mul_def js_sub_def js_add_def js_neg_def)
  next
    case False
    then have "\<not> js_lt ?iqr (Fin 0)" using difference_not_negative[OF n o] by simp
    then have "?t \<noteq> NaN \<and> \<not> js_lt ?t (Fin 0)" using False by (intro scaled_not_negative)
    then show ?thesis using fences_ordered[OF n o] by simp
  qed
  have e: "\<forall>x. js_eq x ?lower \<or> js_eq x ?upper
            \<longrightarrow> \<not> (js_lt x ?lower \<or> js_lt ?upper x)"
    using f js_eq_same_order js_eq_not_lt by blast
  have s': "sorted_wrt (\<lambda>a b. \<not> js_lt b a) ?sorted"
    using s by (simp add: not_below_def[abs_def])
  show ?thesis
    unfolding Let_def lit_15_10[symmetric]
    using s' count_js_sort[of js_sub vals] d e by auto
qed


lemma fences_sorted:
  "js_sort js_sub bothFences = [Fin (- 1), Fin 2, Fin 3, Fin 4, Fin 7]"
  "js_sort js_sub beyondFences = [Fin (- 2), Fin 2, Fin 3, Fin 4, Fin 8]"
  by (simp_all add: bothFences_def beyondFences_def js_sort_def js_eval)

lemma fences_doubles:
  "list_all (\<lambda>v. v \<noteq> NaN \<and> is_double v) bothFences"
  "list_all (\<lambda>v. v \<noteq> NaN \<and> is_double v) beyondFences"
  by (simp_all add: bothFences_def beyondFences_def is_double_def js_eval)

lemma fences_values:
  "js_sub (Fin 2) (js_mul (Fin (3 / 2)) (js_sub (Fin 4) (Fin 2))) = Fin (- 1)"
  "js_add (Fin 4) (js_mul (Fin (3 / 2)) (js_sub (Fin 4) (Fin 2))) = Fin 7"
proof -
  have "js_mul (Fin (3 / 2)) (Fin 2) = Fin 3"
    by (rule js_mul_FinI[OF _ _ rnd_dyadicI[where m = 3 and n = 0]]) simp_all
  then show "js_sub (Fin 2) (js_mul (Fin (3 / 2)) (js_sub (Fin 4) (Fin 2))) = Fin (- 1)"
    "js_add (Fin 4) (js_mul (Fin (3 / 2)) (js_sub (Fin 4) (Fin 2))) = Fin 7"
    by (simp_all add: js_sub_Fin js_add_Fin rnd_numeral rnd_neg_1)
qed

theorem outlier_fences_strict_witness:
  "list_all (\<lambda>v. v \<noteq> NaN \<and> is_double v) bothFences \<and> bothFences \<noteq> []
   \<and> js_sort js_sub bothFences = [Fin (- 1), Fin 2, Fin 3, Fin 4, Fin 7]
   \<and> js_sub (Fin 2) (js_mul (Fin (3 / 2)) (js_sub (Fin 4) (Fin 2))) = Fin (- 1)
   \<and> js_add (Fin 4) (js_mul (Fin (3 / 2)) (js_sub (Fin 4) (Fin 2))) = Fin 7
   \<and> Fin (- 1) \<in> set bothFences \<and> Fin 7 \<in> set bothFences
   \<and> detectOutliers bothFences = []
   \<and> list_all (\<lambda>v. v \<noteq> NaN \<and> is_double v) beyondFences \<and> beyondFences \<noteq> []
   \<and> js_sort js_sub beyondFences = [Fin (- 2), Fin 2, Fin 3, Fin 4, Fin 8]
   \<and> detectOutliers beyondFences = [Fin 8, Fin (- 2)]"
proof -
  have n: "bothFences \<noteq> []" "beyondFences \<noteq> []"
    by (simp_all add: bothFences_def beyondFences_def)
  have l: "length bothFences = 5" "length beyondFences = 5"
    by (simp_all add: bothFences_def beyondFences_def)
  note A = outlier_fences_strict[OF fences_doubles(1) n(1)]
  note B = outlier_fences_strict[OF fences_doubles(2) n(2)]
  have a: "detectOutliers bothFences = []"
    using A unfolding Let_def fences_sorted l by (simp add: fences_values) (simp add: bothFences_def)
  have b: "detectOutliers beyondFences = [Fin 8, Fin (- 2)]"
    using B unfolding Let_def fences_sorted l by (simp add: fences_values) (simp add: beyondFences_def)
  show ?thesis
    using a b n fences_doubles fences_sorted fences_values by (simp add: bothFences_def)
qed

section \<open>Trend estimation\<close>

lemma oneDay_classified:
  "Comprehensive_identifyColumnTypes exampleEngine
     (new_ComprehensiveDataAnalyzer\<lparr>data := Some oneDayTable\<rparr>) = Inr oneDayClassified"
  by (simp add: Comprehensive_identifyColumnTypes_def new_ComprehensiveDataAnalyzer_def oneDayTable_def
      oneDayClassified_def
      objectKeys_def isArrayIndex_def Comprehensive_classify_def sampleOf_def parse_eval
      isDateValue_def exampleEngine_def js_eval lit_7_10)

text \<open>
  For a time series with fewer than 2 elements
  \<open>ComprehensiveDataAnalyzer.calculateTrends\<close> returns the direction
  \<open>insufficient_data\<close> and no slope at all, where \<open>DataAnalyzer.calculateTrend\<close> returns
  the slope 0.
\<close>

theorem insufficient_data_without_slope:
  "Comprehensive_identifyColumnTypes exampleEngine
     (new_ComprehensiveDataAnalyzer\<lparr>data := Some oneDayTable\<rparr>) = Inr oneDayClassified
   \<and> map_sum id (\<lambda>s. temporal (analysisResults s))
        (performTemporalAnalysis exampleEngine oneDayClassified)
     = Inr (Some \<lparr>temporal_trends = \<lparr>trends_direction = Some ''insufficient_data'',
                   trends_slope = None, trends_metric = None\<rparr>\<rparr>)"
proof -
  have f: "dateColumns oneDayClassified = [''day'']" "numericColumns oneDayClassified = [''amount'']"
    "rowsOf oneDayClassified = oneDayTable"
    by (simp_all add: oneDayClassified_def new_ComprehensiveDataAnalyzer_def rowsOf_def)
  have t: "createTimeSeriesData exampleEngine oneDayClassified ''day''
           = Inr [\<lparr>item_date = Fin 1579046400000, item_fields = [(''amount'', Fin 5)]\<rparr>]"
    by (simp add: createTimeSeriesData_def f oneDayTable_def parse_eval exampleEngine_def
        js_sort_def isNaN_def objectSet_def orZero_def truthy_def js_eval)
  show ?thesis
    by (simp add: oneDay_classified performTemporalAnalysis_def f t calculateTrends_def)
qed

lemma thresholds_apart: "\<not> (js_gt x (lit 1 1000) \<and> js_lt x (js_neg (lit 1 1000)))"
  by (cases x) (simp_all add: lit_1_1000 js_neg_def js_gt_def)

text \<open>
  The threshold rule on the points that each estimator is given:
  \<open>DataAnalyzer.calculateTrend\<close> returns the direction \<open>Insufficient Data\<close> with slope 0
  when fewer than 2 rows have a parseable value, and otherwise the least-squares slope with
  the direction Upward iff slope \<open>> 0.001\<close>, Downward iff slope \<open>< -0.001\<close>, Sideways
  otherwise.  \<open>ComprehensiveDataAnalyzer.calculateTrends\<close> returns \<open>insufficient_data\<close>
  without a slope for a series of fewer than 2 elements, \<open>no_numeric_data\<close> without a slope
  when there is no (non-empty-named) first numeric column, and otherwise a slope with the
  direction increasing, declining or stable by the same two thresholds.
\<close>

theorem trend_direction:
  "(length (trendPoints (rowsOf s) column) < 2 \<longrightarrow>
      calculateTrend s column = \<lparr>direction = ''Insufficient Data'', slope = Fin 0\<rparr>)
   \<and> (2 \<le> length (trendPoints (rowsOf s) column) \<longrightarrow>
      slope (calculateTrend s column) = regressionSlope (trendPoints (rowsOf s) column)
      \<and> (direction (calculateTrend s column) = ''Upward''
           \<longleftrightarrow> js_gt (slope (calculateTrend s column)) (lit 1 1000))
      \<and> (direction (calculateTrend s column) = ''Downward''
           \<longleftrightarrow> js_lt (slope (calculateTrend s column)) (js_neg (lit 1 1000)))
      \<and> (direction (calculateTrend s column) = ''Sideways''
           \<longleftrightarrow> \<not> js_gt (slope (calculateTrend s column)) (lit 1 1000)
               \<and> \<not> js_lt (slope (calculateTrend s column)) (js_neg (lit 1 1000))))
   \<and> (length series < 2 \<longrightarrow>
      calculateTrends t series = \<lparr>trends_direction = Some ''insufficient_data'',
                                   trends_slope = None, trends_metric = None\<rparr>)
   \<and> (2 \<le> length series \<and> (numericColumns t = [] \<or> hd (numericColumns t) = []) \<longrightarrow>
      calculateTrends t series = \<lparr>trends_direction = Some ''no_numeric_data'',
                                   trends_slope = None, trends_metric = None\<rparr>)
   \<and> (2 \<le> length series \<and> numericColumns t \<noteq> [] \<and> hd (numericColumns t) \<noteq> [] \<longrightarrow>
      (\<exists>sl. trends_slope (calculateTrends t series) = Some sl
        \<and> trends_metric (calculateTrends t series) = Some (hd (numericColumns t))
        \<and> (trends_direction (calculateTrends t series) = Some ''increasing''
             \<longleftrightarrow> js_gt sl (lit 1 1000))
        \<and> (trends_direction (calculateTrends t series) = Some ''declining''
             \<longleftrightarrow> js_lt sl (js_neg (lit 1 1000)))
        \<and> (trends_direction (calculateTrends t series) = Some ''stable''
             \<longleftrightarrow> \<not> js_gt sl (lit 1 1000) \<and> \<not> js_lt sl (js_neg (lit 1 1000)))))"
proof -
  have a: "length (trendPoints (rowsOf s) column) < 2 \<longrightarrow>
      calculateTrend s column = \<lparr>direction = ''Insufficient Data'', slope = Fin 0\<rparr>"
    by (simp add: calculateTrend_def Let_def)
  have b: "2 \<le> length (trendPoints (rowsOf s) column) \<longrightarrow>
      slope (calculateTrend s column) = regressionSlope (trendPoints (rowsOf s) column)
      \<and> (direction (calculateTrend s column) = ''Upward''
           \<longleftrightarrow> js_gt (slope (calculateTrend s column)) (lit 1 1000))
      \<and> (direction (calculateTrend s column) = ''Downward''
           \<longleftrightarrow> js_lt (slope (calculateTrend s column)) (js_neg (lit 1 1000)))
      \<and> (direction (calculateTrend s column) = ''Sideways''
           \<longleftrightarrow> \<not> js_gt (slope (calculateTrend s column)) (lit 1 1000)
               \<and> \<not> js_lt (slope (calculateTrend s column)) (js_neg (lit 1 1000)))"
    using thresholds_apart[of "regressionSlope (trendPoints (rowsOf s) column)"]
    by (simp add: calculateTrend_def Let_def)
  have c: "length series < 2 \<longrightarrow>
      calculateTrends t series = \<lparr>trends_direction = Some ''insufficient_data'',
                                   trends_slope = None, trends_metric = None\<rparr>"
    by (simp add: calculateTrends_def)
  have d: "2 \<le> length series \<and> (numericColumns t = [] \<or> hd (numericColumns t) = []) \<longrightarrow>
      calculateTrends t series = \<lparr>trends_direction = Some ''no_numeric_data'',
                                   trends_slope = None, trends_metric = None\<rparr>"
    by (auto simp add: calculateTrends_def split: list.splits)
  have e: "2 \<le> length series \<and> numericColumns t \<noteq> [] \<and> hd (numericColumns t) \<noteq> [] \<longrightarrow>
      (\<exists>sl. trends_slope (calculateTrends t series) = Some sl
        \<and> trends_metric (calculateTrends t series) = Some (hd (numericColumns t))
        \<and> (trends_direction (calculateTrends t series) = Some ''increasing''
             \<longleftrightarrow> js_gt sl (lit 1 1000))
        \<and> (trends_direction (calculateTrends t series) = Some ''declining''
             \<longleftrightarrow> js_lt sl (js_neg (lit 1 1000)))
        \<and> (trends_direction (calculateTrends t series) = Some ''stable''
             \<longleftrightarrow> \<not> js_gt sl (lit 1 1000) \<and> \<not> js_lt sl (js_neg (lit 1 1000))))"
  proof (cases "numericColumns t")
    case Nil
    then show ?thesis by simp
  next
    case (Cons m ms)
    let ?sl = "regressionSlope (map (\<lambda>(index, item).
                              (num index, case map_of (item_fields item) m of
                                            None \<Rightarrow> NaN | Some y \<Rightarrow> y))
                           (zip [0 ..< length series] series))"
    show ?thesis using Cons thresholds_apart[of ?sl]
      by (simp add: calculateTrends_def Let_def)
  qed
  show ?thesis using a b c d e by blast
qed

lemma rising_slope: "regressionSlope [(Fin 0, Fin 1), (Fin 1, Fin 2)] = Fin 1"
  by (simp add: regressionSlope_def js_eval)

lemma oneClose_points: "trendPoints (rowsOf oneCloseAnalyzer) ''close'' = [(Fin 0, Fin 5)]"
  by (simp add: oneCloseAnalyzer_def new_DataAnalyzer_def rowsOf_def trendPoints_def parse_eval js_eval)

lemma rising_points: "trendPoints (rowsOf risingAnalyzer) ''close'' = [(Fin 0, Fin 1), (Fin 1, Fin 2)]"
  by (simp add: risingAnalyzer_def new_DataAnalyzer_def rowsOf_def trendPoints_def parse_eval js_eval
      upt_rec)

lemma rising_series_slope: "trends_slope (calculateTrends mixedClassified risingSeries) = Some (Fin 1)"
  by (simp add: calculateTrends_def mixedClassified_def new_ComprehensiveDataAnalyzer_def
      risingSeries_def upt_rec js_eval rising_slope Let_def)

theorem trend_direction_witness:
  "length (trendPoints (rowsOf oneCloseAnalyzer) ''close'') < 2
   \<and> calculateTrend oneCloseAnalyzer ''close'' = \<lparr>direction = ''Insufficient Data'', slope = Fin 0\<rparr>
   \<and> 2 \<le> length (trendPoints (rowsOf risingAnalyzer) ''close'')
   \<and> slope (calculateTrend risingAnalyzer ''close'') = Fin 1
   \<and> direction (calculateTrend risingAnalyzer ''close'') = ''Upward''
   \<and> length ([] :: timeSeriesItem list) < 2
   \<and> calculateTrends mixedClassified [] = \<lparr>trends_direction = Some ''insufficient_data'',
        trends_slope = None, trends_metric = None\<rparr>
   \<and> 2 \<le> length risingSeries
   \<and> numericColumns new_ComprehensiveDataAnalyzer = []
   \<and> calculateTrends new_ComprehensiveDataAnalyzer risingSeries
       = \<lparr>trends_direction = Some ''no_numeric_data'', trends_slope = None, trends_metric = None\<rparr>
   \<and> numericColumns mixedClassified \<noteq> [] \<and> hd (numericColumns mixedClassified) \<noteq> []
   \<and> trends_direction (calculateTrends mixedClassified risingSeries) = Some ''increasing''"
proof -
  have h1: "length (trendPoints (rowsOf oneCloseAnalyzer) ''close'') < 2"
    by (simp add: oneClose_points)
  have h2: "2 \<le> length (trendPoints (rowsOf risingAnalyzer) ''close'')"
    by (simp add: rising_points)
  have h3: "2 \<le> length risingSeries" by (simp add: risingSeries_def)
  have h4: "numericColumns new_ComprehensiveDataAnalyzer = []"
    by (simp add: new_ComprehensiveDataAnalyzer_def)
  have h5: "numericColumns mixedClassified \<noteq> [] \<and> hd (numericColumns mixedClassified) \<noteq> []"
    by (simp add: mixedClassified_def new_ComprehensiveDataAnalyzer_def)
  have g: "js_gt (Fin 1) (lit 1 1000)" by (simp add: js_gt_def lit_1_1000)
  note T1 = trend_direction[of oneCloseAnalyzer "''close''" "[]" mixedClassified]
  note T2 = trend_direction[of risingAnalyzer "''close''" risingSeries new_ComprehensiveDataAnalyzer]
  note T3 = trend_direction[of risingAnalyzer "''close''" risingSeries mixedClassified]
  have c1: "calculateTrend oneCloseAnalyzer ''close'' = \<lparr>direction = ''Insufficient Data'', slope = Fin 0\<rparr>"
    using T1 h1 by blast
  have c2: "slope (calculateTrend risingAnalyzer ''close'') = Fin 1"
    using T2 h2 by (simp add: rising_points rising_slope)
  have c3: "direction (calculateTrend risingAnalyzer ''close'') = ''Upward''"
    using T2 h2 c2 g by simp
  have c4: "calculateTrends mixedClassified [] = \<lparr>trends_direction = Some ''insufficient_data'',
        trends_slope = None, trends_metric = None\<rparr>"
    using T1 by simp
  have c5: "calculateTrends new_ComprehensiveDataAnalyzer risingSeries
       = \<lparr>trends_direction = Some ''no_numeric_data'', trends_slope = None, trends_metric = None\<rparr>"
    using T2 h3 h4 by blast
  have c6: "trends_direction (calculateTrends mixedClassified risingSeries) = Some ''increasing''"
    using T3 h3 h5 rising_series_slope g by auto
  show ?thesis using h1 h2 h3 h4 h5 c1 c2 c3 c4 c5 c6 by simp
qed

subsection \<open>A series with an unparseable value\<close>

lemma gapSeries_samples:
  "sampleOf (min 100 (length gapSeriesTable)) gapSeriesTable ''day''
   = [CStr ''2020'', CStr ''2020-01-15'', CStr ''2021'', CStr ''2021-03-01'']"
  "sampleOf (min 100 (length gapSeriesTable)) gapSeriesTable ''close''
   = [CStr ''1'', CStr ''2'', CStr ''3'', CStr ''abc'']"
  by (simp_all add: sampleOf_def gapSeriesTable_def getCell_def nonEmpty_def)

lemma gapSeries_cells:
  "isNumericValue (CStr ''2020'')" "\<not> isNumericValue (CStr ''2020-01-15'')"
  "isNumericValue (CStr ''2021'')" "\<not> isNumericValue (CStr ''2021-03-01'')"
  "isNumericValue (CStr ''1'')" "isNumericValue (CStr ''2'')" "isNumericValue (CStr ''3'')"
  "\<not> isNumericValue (CStr ''abc'')"
  "isDateValue exampleEngine (CStr ''2020'')" "isDateValue exampleEngine (CStr ''2020-01-15'')"
  "isDateValue exampleEngine (CStr ''2021'')" "isDateValue exampleEngine (CStr ''2021-03-01'')"
  by (simp_all add: parse_eval isDateValue_def exampleEngine_def js_eval)

lemma three_quarters: "rnd (3 / 4) = Fin (3 / 4)"
  by (rule rnd_dyadicI[where m = 3 and n = 2]) simp_all

lemma identify_nonempty:
  "data s = Some (r0 # rs) \<Longrightarrow>
   Comprehensive_identifyColumnTypes E s
   = Inr (foldl (Comprehensive_classify E (r0 # rs))
            (s\<lparr>columns := objectKeys r0, numericColumns := [], dateColumns := [],
               categoricalColumns := []\<rparr>)
            (objectKeys r0))"
  by (simp add: Comprehensive_identifyColumnTypes_def)

lemma gapSeries_classified:
  "Comprehensive_identifyColumnTypes exampleEngine
     (new_ComprehensiveDataAnalyzer\<lparr>data := Some gapSeriesTable\<rparr>) = Inr gapSeriesClassified"
proof -
  have k: "objectKeys (hd gapSeriesTable) = [''day'', ''close'']"
    by (simp add: gapSeriesTable_def objectKeys_def isArrayIndex_def isDigit_def)
  have e: "hd gapSeriesTable # tl gapSeriesTable = gapSeriesTable"
    by (simp add: gapSeriesTable_def)
  have d: "data (new_ComprehensiveDataAnalyzer\<lparr>data := Some gapSeriesTable\<rparr>)
           = Some (hd gapSeriesTable # tl gapSeriesTable)"
    by (simp add: e)
  have c: "Comprehensive_classify exampleEngine gapSeriesTable s ''day''
           = s\<lparr>dateColumns := dateColumns s @ [''day'']\<rparr>"
    "Comprehensive_classify exampleEngine gapSeriesTable s ''close''
           = s\<lparr>numericColumns := numericColumns s @ [''close'']\<rparr>" for s
    by (simp_all add: Comprehensive_classify_def gapSeries_samples gapSeries_cells Let_def
        js_eval lit_7_10 three_quarters)
  show ?thesis
    unfolding identify_nonempty[OF d] e k
    by (simp add: c gapSeriesClassified_def new_ComprehensiveDataAnalyzer_def)
qed

lemma gapSeries_fields:
  "dateColumns gapSeriesClassified = [''day'']" "numericColumns gapSeriesClassified = [''close'']"
  "rowsOf gapSeriesClassified = gapSeriesTable"
  by (simp_all add: gapSeriesClassified_def new_ComprehensiveDataAnalyzer_def rowsOf_def)

lemma gapSeries_series:
  "createTimeSeriesData exampleEngine gapSeriesClassified ''day''
   = Inr [\<lparr>item_date = Fin 1577836800000, item_fields = [(''close'', Fin 1)]\<rparr>,
          \<lparr>item_date = Fin 1579046400000, item_fields = [(''close'', Fin 2)]\<rparr>,
          \<lparr>item_date = Fin 1609459200000, item_fields = [(''close'', Fin 3)]\<rparr>,
          \<lparr>item_date = Fin 1614556800000, item_fields = [(''close'', Fin 0)]\<rparr>]"
  by (simp add: createTimeSeriesData_def gapSeries_fields gapSeriesTable_def parse_eval exampleEngine_def
      js_sort_def isNaN_def objectSet_def orZero_def truthy_def js_eval)


lemma minus_fifth: "rnd (- (1 / 5)) = Fin (- 3602879701896397 / 2 ^ 54)"
  by (rule rnd_eval[where e = "- 3" and u = "- 55" and k = "- 7205759403792794"])
     (simp_all add: pow2_def rne_def)

lemma gapSeries_slope:
  "regressionSlope [(Fin 0, Fin 1), (Fin 1, Fin 2), (Fin 2, Fin 3), (Fin 3, Fin 0)]
   = Fin (- 3602879701896397 / 2 ^ 54)"
  by (simp add: regressionSlope_def js_eval minus_fifth)

lemma gapSeries_points:
  "trendPoints gapSeriesTable ''close'' = [(Fin 0, Fin 1), (Fin 1, Fin 2), (Fin 2, Fin 3)]"
  by (simp add: trendPoints_def gapSeriesTable_def parse_eval js_eval upt_rec)

lemma gapSeries_rising: "regressionSlope [(Fin 0, Fin 1), (Fin 1, Fin 2), (Fin 2, Fin 3)] = Fin 1"
  by (simp add: regressionSlope_def js_eval)

text \<open>
  Claim C7 at the table of four dated rows whose \<open>close\<close> cells are \<open>1, 2, 3, abc\<close>: the
  points with parseable values are the first three, and \<open>DataAnalyzer.calculateTrend\<close>
  filters the fourth row and returns the slope 1 and the direction Upward.
  \<open>ComprehensiveDataAnalyzer.createTimeSeriesData\<close> keeps the row with the value 0
  (\<open>parseFloat(row[col]) || 0\<close>), so \<open>performTemporalAnalysis\<close> stores the slope \<open>-0.2\<close>
  and the direction \<open>declining\<close>.
\<close>

theorem unparseable_value_trend:
  "Comprehensive_identifyColumnTypes exampleEngine
     (new_ComprehensiveDataAnalyzer\<lparr>data := Some gapSeriesTable\<rparr>) = Inr gapSeriesClassified
   \<and> map_sum id (\<lambda>s. temporal (analysisResults s))
        (performTemporalAnalysis exampleEngine gapSeriesClassified)
     = Inr (Some \<lparr>temporal_trends = \<lparr>trends_direction = Some ''declining'',
                   trends_slope = Some (Fin (- 3602879701896397 / 2 ^ 54)),
                   trends_metric = Some ''close''\<rparr>\<rparr>)
   \<and> calculateTrend (new_DataAnalyzer\<lparr>data := Some gapSeriesTable\<rparr>) ''close''
     = \<lparr>direction = ''Upward'', slope = Fin 1\<rparr>"
proof -
  have t: "calculateTrends gapSeriesClassified
             [\<lparr>item_date = Fin 1577836800000, item_fields = [(''close'', Fin 1)]\<rparr>,
              \<lparr>item_date = Fin 1579046400000, item_fields = [(''close'', Fin 2)]\<rparr>,
              \<lparr>item_date = Fin 1609459200000, item_fields = [(''close'', Fin 3)]\<rparr>,
              \<lparr>item_date = Fin 1614556800000, item_fields = [(''close'', Fin 0)]\<rparr>]
           = \<lparr>trends_direction = Some ''declining'',
              trends_slope = Some (Fin (- 3602879701896397 / 2 ^ 54)),
              trends_metric = Some ''close''\<rparr>"
    by (simp add: calculateTrends_def gapSeries_fields upt_rec num_Suc num_0 js_add_Fin rnd_1
        rnd_numeral gapSeries_slope Let_def lit_1_1000 js_gt_def js_neg_def)
  have r: "rowsOf (new_DataAnalyzer\<lparr>data := Some gapSeriesTable\<rparr>) = gapSeriesTable"
    by (simp add: rowsOf_def)
  have u: "calculateTrend (new_DataAnalyzer\<lparr>data := Some gapSeriesTable\<rparr>) ''close''
           = \<lparr>direction = ''Upward'', slope = Fin 1\<rparr>"
    by (simp add: calculateTrend_def r gapSeries_points gapSeries_rising Let_def lit_1_1000 js_gt_def)
  show ?thesis
    by (simp add: gapSeries_classified performTemporalAnalysis_def gapSeries_fields gapSeries_series
        t u)
qed

section \<open>Average volatility\<close>

lemma zeroLow_classified:
  "DataAnalyzer_identifyColumnTypes E (new_DataAnalyzer\<lparr>data := Some zeroLowTable\<rparr>)
   = Inr (new_DataAnalyzer\<lparr>data := Some zeroLowTable, columns := [''high'', ''low''],
            numericColumns := [''high'', ''low'']\<rparr>)"
  by (simp add: DataAnalyzer_identifyColumnTypes_def new_DataAnalyzer_def zeroLowTable_def
      objectKeys_def isArrayIndex_def DataAnalyzer_classify_def sampleOf_def parse_eval
      js_eval lit_8_10 toLowerCase_def lowerChar_def)

lemma lower_High_Low: "toLowerCase ''High'' = ''high''" "toLowerCase ''Low'' = ''low''"
  "toLowerCase ''high'' = ''high''" "toLowerCase ''low'' = ''low''"
  by code_simp+

lemma capital_classified:
  "DataAnalyzer_identifyColumnTypes E (new_DataAnalyzer\<lparr>data := Some capitalTable\<rparr>)
   = Inr (new_DataAnalyzer\<lparr>data := Some capitalTable, columns := [''High'', ''Low''],
            numericColumns := [''High'', ''Low'']\<rparr>)"
  by (simp add: DataAnalyzer_identifyColumnTypes_def new_DataAnalyzer_def capitalTable_def
      objectKeys_def isArrayIndex_def DataAnalyzer_classify_def sampleOf_def parse_eval
      js_eval lit_8_10 lower_High_Low)

lemma themes_calculateCorrelations: "themes (calculateCorrelations E s) = themes s"
  by (simp add: calculateCorrelations_def Let_def)

lemma zeroLow_volatility:
  "volatilityMetrics (findThemes E (new_DataAnalyzer\<lparr>data := Some zeroLowTable,
      columns := [''high'', ''low''], numericColumns := [''high'', ''low'']\<rparr>))
   = [Some (AvgVolatility PInf)]"
  by (simp add: volatilityMetrics_def findThemes_def new_DataAnalyzer_def hasColumns_def
      toLowerCase_def lowerChar_def calculateVolatility_def rowsOf_def zeroLowTable_def
      parse_eval js_eval sum_list_js_def js_add_def js_div_def distributionTheme_def
      calculateStats_def columnValues_def Let_def)

lemma capital_volatility:
  "volatilityMetrics (findThemes E (new_DataAnalyzer\<lparr>data := Some capitalTable,
      columns := [''High'', ''Low''], numericColumns := [''High'', ''Low'']\<rparr>))
   = [Some (AvgVolatility NaN)]"
  by (simp add: volatilityMetrics_def findThemes_def new_DataAnalyzer_def hasColumns_def
      lower_High_Low calculateVolatility_def rowsOf_def capitalTable_def
      parse_eval js_eval sum_list_js_def js_sub_def js_add_def js_neg_def js_div_def
      distributionTheme_def calculateStats_def
      columnValues_def Let_def)

text \<open>
  Claim C8 at two tables with the columns high and low: with a \<open>low\<close> of 0 the row
  volatility and so the average carried by the theme is Infinity, and with the column
  names \<open>High\<close>, \<open>Low\<close> (matched without regard to case, read with it) no row yields a
  value and the average is \<open>0 / 0\<close>, NaN.
\<close>

theorem average_volatility_undefined:
  "map_sum id volatilityMetrics (analyzeData E (new_DataAnalyzer\<lparr>data := Some zeroLowTable\<rparr>))
     = Inr [Some (AvgVolatility PInf)]
   \<and> map_sum id volatilityMetrics (analyzeData E (new_DataAnalyzer\<lparr>data := Some capitalTable\<rparr>))
     = Inr [Some (AvgVolatility NaN)]"
proof -
  have 1: "data (new_DataAnalyzer\<lparr>data := Some zeroLowTable\<rparr>) = Some zeroLowTable"
          "data (new_DataAnalyzer\<lparr>data := Some capitalTable\<rparr>) = Some capitalTable"
    by simp_all
  have 2: "zeroLowTable \<noteq> []" "capitalTable \<noteq> []"
    by (simp_all add: zeroLowTable_def capitalTable_def)
  have v: "\<And>s. volatilityMetrics (calculateCorrelations E s) = volatilityMetrics s"
    by (simp add: volatilityMetrics_def themes_calculateCorrelations)
  show ?thesis
    unfolding analyzeData_def 1 zeroLow_classified capital_classified
    using 2 by (simp add: v zeroLow_volatility capital_volatility)
qed

section \<open>Repeating the analysis\<close>

lemma analysis_as_steps:
  "performComprehensiveAnalysis E s = andThen (Comprehensive_identifyColumnTypes E s) (analysisSteps E)"
  by (simp add: performComprehensiveAnalysis_def analysisSteps_def[abs_def])

lemma sameTable_refl: "sameTable s s" by (simp add: sameTable_def)
lemma sameTable_sym: "sameTable s t \<Longrightarrow> sameTable t s" by (simp add: sameTable_def)
lemma sameTable_trans: "sameTable s t \<Longrightarrow> sameTable t u \<Longrightarrow> sameTable s u" by (simp add: sameTable_def)

lemma sameTable_helpers:
  assumes "sameTable s t"
  shows "rowsOf s = rowsOf t" "hasColumns s cols = hasColumns t cols"
    "calculateEfficiencyMetrics s = calculateEfficiencyMetrics t"
    "calculateSegmentPerformance s segs = calculateSegmentPerformance t segs"
    "createTimeSeriesData E s dc = createTimeSeriesData E t dc"
    "calculateTrends s series = calculateTrends t series"
  using assms
  by (simp_all add: sameTable_def rowsOf_def hasColumns_def calculateEfficiencyMetrics_def
      calculateSegmentPerformance_def createTimeSeriesData_def calculateTrends_def)

lemma sameTable_demographicColumns:
  "sameTable s t \<Longrightarrow> demographicColumns E s d cols = demographicColumns E t d cols"
proof (induction cols arbitrary: d)
  case Nil
  then show ?case by simp
next
  case (Cons c cols)
  have n: "numericColumns s = numericColumns t" using Cons.prems by (simp add: sameTable_def)
  show ?case
    using Cons sameTable_helpers(1,4)[OF Cons.prems] n
    by (simp split: sum.splits)
qed

lemma all_fields_agree: "agreeUpTo 9 a b \<Longrightarrow> a = b"
  by (cases a; cases b) (simp add: agreeUpTo_def)

lemma related_equal: "related 9 s t \<Longrightarrow> s = t"
  using all_fields_agree[of "analysisResults s" "analysisResults t"]
  by (cases s; cases t) (simp add: related_def sameTable_def)


lemma andThen_related:
  assumes "rel_sum (=) R x y" and "\<And>u v. R u v \<Longrightarrow> rel_sum (=) Q (f u) (g v)"
  shows "rel_sum (=) Q (andThen x f) (andThen y g)"
  using assms by (cases x; cases y) (simp_all add: andThen_def)

lemma assess_related:
  "related 0 s t \<Longrightarrow> related 1 (assessDataQuality E s) (assessDataQuality E t)"
  by (simp add: related_def sameTable_def agreeUpTo_def assessDataQuality_def rowsOf_def Let_def)

lemma summary_related:
  assumes "related 1 s t"
  shows "rel_sum (=) (related 2) (generateExecutiveSummary E s) (generateExecutiveSummary E t)"
proof -
  have st: "sameTable s t" using assms by (simp add: related_def)
  show ?thesis
    using assms sameTable_helpers(1,2)[OF st]
    by (simp add: related_def sameTable_def agreeUpTo_def generateExecutiveSummary_def Let_def
        split: option.splits)
qed

lemma performance_related:
  assumes "related 2 s t"
  shows "related 3 (performPerformanceAnalysis s) (performPerformanceAnalysis t)"
proof -
  have st: "sameTable s t" using assms by (simp add: related_def)
  show ?thesis
    using assms sameTable_helpers(1,2,3)[OF st]
    by (simp add: related_def sameTable_def agreeUpTo_def performPerformanceAnalysis_def Let_def
        cong: list.case_cong)
qed

lemma demographic_related:
  assumes "related 3 s t"
  shows "rel_sum (=) (related 4) (performDemographicAnalysis E s) (performDemographicAnalysis E t)"
proof -
  have st: "sameTable s t" using assms by (simp add: related_def)
  show ?thesis
    using assms sameTable_demographicColumns[OF st]
    by (simp add: related_def sameTable_def agreeUpTo_def performDemographicAnalysis_def
        split: sum.splits)
qed

lemma temporal_related:
  assumes "related 4 s t"
  shows "rel_sum (=) (related 5) (performTemporalAnalysis E s) (performTemporalAnalysis E t)"
proof -
  have st: "sameTable s t" using assms by (simp add: related_def)
  show ?thesis
    using assms sameTable_helpers(5,6)[OF st]
    by (simp add: related_def sameTable_def agreeUpTo_def performTemporalAnalysis_def
        split: sum.splits list.splits)
qed

lemma statistical_related:
  assumes "related 5 s t"
  shows "related 6 (performStatisticalAnalysis s) (performStatisticalAnalysis t)"
proof -
  have st: "sameTable s t" using assms by (simp add: related_def)
  show ?thesis
    using assms sameTable_helpers(1)[OF st]
    by (simp add: related_def sameTable_def agreeUpTo_def performStatisticalAnalysis_def Let_def)
qed

lemma correlation_related:
  assumes "related 6 s t"
  shows "related 7 (performCorrelationAnalysis s) (performCorrelationAnalysis t)"
proof -
  have st: "sameTable s t" using assms by (simp add: related_def)
  show ?thesis
    using assms sameTable_helpers(1)[OF st]
    by (simp add: related_def sameTable_def agreeUpTo_def performCorrelationAnalysis_def)
qed

lemma insights_related:
  assumes "related 7 s t"
  shows "rel_sum (=) (related 8) (generateAdvancedInsights E s) (generateAdvancedInsights E t)"
  using assms
  by (simp add: related_def sameTable_def agreeUpTo_def generateAdvancedInsights_def Let_def
      split: option.splits)

lemma bestSegments_related:
  "related 8 s t \<Longrightarrow> findBestPerformingSegments s = findBestPerformingSegments t"
  by (simp add: related_def sameTable_def agreeUpTo_def findBestPerformingSegments_def
      cong: list.case_cong option.case_cong)

lemma recommendations_related:
  assumes "related 8 s t"
  shows "rel_sum (=) (related 9) (generateRecommendations E s) (generateRecommendations E t)"
  using assms bestSegments_related[OF assms]
  by (simp add: related_def sameTable_def agreeUpTo_def generateRecommendations_def Let_def
      split: option.splits sum.splits)

lemma steps_related:
  assumes "related 0 s t"
  shows "rel_sum (=) (related 9) (analysisSteps E s) (analysisSteps E t)"
  unfolding analysisSteps_def
proof (rule andThen_related[where R = "related 2"])
  show "rel_sum (=) (related 2) (generateExecutiveSummary E (assessDataQuality E s))
          (generateExecutiveSummary E (assessDataQuality E t))"
    by (rule summary_related[OF assess_related[OF assms]])
next
  fix s3 t3 assume r2: "related 2 s3 t3"
  show "rel_sum (=) (related 9)
          (andThen (performDemographicAnalysis E (performPerformanceAnalysis s3)) (\<lambda>s5.
           andThen (performTemporalAnalysis E s5) (\<lambda>s6.
           andThen (generateAdvancedInsights E (performCorrelationAnalysis (performStatisticalAnalysis s6)))
                   (generateRecommendations E))))
          (andThen (performDemographicAnalysis E (performPerformanceAnalysis t3)) (\<lambda>s5.
           andThen (performTemporalAnalysis E s5) (\<lambda>s6.
           andThen (generateAdvancedInsights E (performCorrelationAnalysis (performStatisticalAnalysis s6)))
                   (generateRecommendations E))))"
  proof (rule andThen_related[where R = "related 4"])
    show "rel_sum (=) (related 4) (performDemographicAnalysis E (performPerformanceAnalysis s3))
            (performDemographicAnalysis E (performPerformanceAnalysis t3))"
      by (rule demographic_related[OF performance_related[OF r2]])
  next
    fix s5 t5 assume r4: "related 4 s5 t5"
    show "rel_sum (=) (related 9)
            (andThen (performTemporalAnalysis E s5) (\<lambda>s6.
             andThen (generateAdvancedInsights E (performCorrelationAnalysis (performStatisticalAnalysis s6)))
                     (generateRecommendations E)))
            (andThen (performTemporalAnalysis E t5) (\<lambda>s6.
             andThen (generateAdvancedInsights E (performCorrelationAnalysis (performStatisticalAnalysis s6)))
                     (generateRecommendations E)))"
    proof (rule andThen_related[where R = "related 5"])
      show "rel_sum (=) (related 5) (performTemporalAnalysis E s5) (performTemporalAnalysis E t5)"
        by (rule temporal_related[OF r4])
    next
      fix s6 t6 assume r5: "related 5 s6 t6"
      show "rel_sum (=) (related 9)
              (andThen (generateAdvancedInsights E (performCorrelationAnalysis (performStatisticalAnalysis s6)))
                       (generateRecommendations E))
              (andThen (generateAdvancedInsights E (performCorrelationAnalysis (performStatisticalAnalysis t6)))
                       (generateRecommendations E))"
      proof (rule andThen_related[where R = "related 8"])
        show "rel_sum (=) (related 8)
                (generateAdvancedInsights E (performCorrelationAnalysis (performStatisticalAnalysis s6)))
                (generateAdvancedInsights E (performCorrelationAnalysis (performStatisticalAnalysis t6)))"
          by (rule insights_related[OF correlation_related[OF statistical_related[OF r5]]])
      next
        fix s8 t8 assume "related 8 s8 t8"
        then show "rel_sum (=) (related 9) (generateRecommendations E s8) (generateRecommendations E t8)"
          by (rule recommendations_related)
      qed
    qed
  qed
qed

lemma steps_same: 
  assumes "sameTable s t"
  shows "analysisSteps E s = analysisSteps E t"
proof -
  have "related 0 s t" using assms by (simp add: related_def agreeUpTo_def)
  from steps_related[OF this, of E] show ?thesis
    by (cases "analysisSteps E s"; cases "analysisSteps E t") (auto dest: related_equal)
qed


lemma sameTable_classify:
  "sameTable a b \<Longrightarrow> sameTable (Comprehensive_classify E rows a c) (Comprehensive_classify E rows b c)"
  by (simp add: sameTable_def Comprehensive_classify_def Let_def)

lemma sameTable_foldl_classify:
  "sameTable a b \<Longrightarrow> sameTable (foldl (Comprehensive_classify E rows) a cs)
                                  (foldl (Comprehensive_classify E rows) b cs)"
  by (induction cs arbitrary: a b) (simp_all add: sameTable_classify)

lemma data_classify: "data (Comprehensive_classify E rows a c) = data a"
  by (simp add: Comprehensive_classify_def Let_def)

lemma data_foldl_classify: "data (foldl (Comprehensive_classify E rows) a cs) = data a"
  by (induction cs arbitrary: a) (simp_all add: data_classify)

lemma identify_related:
  assumes "data s = data t" and "data s \<noteq> Some []"
  shows "rel_sum (=) sameTable (Comprehensive_identifyColumnTypes E s)
           (Comprehensive_identifyColumnTypes E t)"
proof (cases "data s")
  case None
  then show ?thesis using assms by (simp add: Comprehensive_identifyColumnTypes_def)
next
  case (Some rows)
  then obtain r0 rs where rows: "rows = r0 # rs" using assms(2) by (cases rows) auto
  have "sameTable (s\<lparr>columns := objectKeys r0, numericColumns := [], dateColumns := [],
                      categoricalColumns := []\<rparr>)
                  (t\<lparr>columns := objectKeys r0, numericColumns := [], dateColumns := [],
                      categoricalColumns := []\<rparr>)"
    using assms(1) by (simp add: sameTable_def)
  from sameTable_foldl_classify[OF this] show ?thesis
    using Some rows assms(1) by (simp add: Comprehensive_identifyColumnTypes_def)
qed

lemma identify_data:
  "Comprehensive_identifyColumnTypes E s = Inr s1 \<Longrightarrow> data s1 = data s"
  by (auto simp: Comprehensive_identifyColumnTypes_def data_foldl_classify
      split: option.splits list.splits)

lemma identify_empty:
  "data s = Some [] \<Longrightarrow> Comprehensive_identifyColumnTypes E s = Inr s"
  by (simp add: Comprehensive_identifyColumnTypes_def)

lemma andThen_Inr:
  "andThen x f = Inr u \<Longrightarrow> \<exists>v. x = Inr v \<and> f v = Inr u"
  by (cases x) (simp_all add: andThen_def)

lemma assess_table: "sameTable s (assessDataQuality E s)"
  by (simp add: sameTable_def assessDataQuality_def Let_def)

lemma summary_table: "generateExecutiveSummary E s = Inr u \<Longrightarrow> sameTable s u"
  by (auto simp: sameTable_def generateExecutiveSummary_def Let_def split: option.splits)

lemma performance_table: "sameTable s (performPerformanceAnalysis s)"
  by (simp add: sameTable_def performPerformanceAnalysis_def Let_def)

lemma demographic_table: "performDemographicAnalysis E s = Inr u \<Longrightarrow> sameTable s u"
  by (auto simp: sameTable_def performDemographicAnalysis_def split: sum.splits)

lemma temporal_table: "performTemporalAnalysis E s = Inr u \<Longrightarrow> sameTable s u"
  by (auto simp: sameTable_def performTemporalAnalysis_def split: sum.splits list.splits)

lemma statistical_table: "sameTable s (performStatisticalAnalysis s)"
  by (simp add: sameTable_def performStatisticalAnalysis_def Let_def)

lemma correlation_table: "sameTable s (performCorrelationAnalysis s)"
  by (simp add: sameTable_def performCorrelationAnalysis_def)

lemma insights_table: "generateAdvancedInsights E s = Inr u \<Longrightarrow> sameTable s u"
  by (auto simp: sameTable_def generateAdvancedInsights_def Let_def split: option.splits)

lemma recommendations_table: "generateRecommendations E s = Inr u \<Longrightarrow> sameTable s u"
  by (auto simp: sameTable_def generateRecommendations_def Let_def split: option.splits sum.splits)

lemma steps_sameTable:
  assumes "analysisSteps E s = Inr u"
  shows "sameTable s u"
proof -
  from assms obtain s3 s5 s6 s8 where
    a: "generateExecutiveSummary E (assessDataQuality E s) = Inr s3"
    and b: "performDemographicAnalysis E (performPerformanceAnalysis s3) = Inr s5"
    and c: "performTemporalAnalysis E s5 = Inr s6"
    and d: "generateAdvancedInsights E (performCorrelationAnalysis (performStatisticalAnalysis s6)) = Inr s8"
    and e: "generateRecommendations E s8 = Inr u"
    unfolding analysisSteps_def by (blast dest: andThen_Inr)
  have 1: "sameTable s s3"
    using sameTable_trans[OF assess_table summary_table[OF a]] .
  have 2: "sameTable s3 s5"
    using sameTable_trans[OF performance_table demographic_table[OF b]] .
  have 3: "sameTable s5 s6" by (rule temporal_table[OF c])
  have 4: "sameTable s6 s8"
    using sameTable_trans[OF statistical_table
        sameTable_trans[OF correlation_table insights_table[OF d]]] .
  have 5: "sameTable s8 u" by (rule recommendations_table[OF e])
  show ?thesis
    using sameTable_trans[OF 1 sameTable_trans[OF 2 sameTable_trans[OF 3 sameTable_trans[OF 4 5]]]] .
qed

lemma run_same:
  assumes "data t = data s" and "data s \<noteq> Some []"
  shows "performComprehensiveAnalysis E t = performComprehensiveAnalysis E s"
proof -
  have r: "rel_sum (=) sameTable (Comprehensive_identifyColumnTypes E s)
           (Comprehensive_identifyColumnTypes E t)"
    using identify_related[of s t E] assms by simp
  show ?thesis
  proof (cases "Comprehensive_identifyColumnTypes E s")
    case (Inl e)
    then have "Comprehensive_identifyColumnTypes E t = Inl e"
      using r by (cases "Comprehensive_identifyColumnTypes E t") simp_all
    then show ?thesis using Inl by (simp add: analysis_as_steps)
  next
    case (Inr s1)
    then obtain t1 where t1: "Comprehensive_identifyColumnTypes E t = Inr t1" "sameTable s1 t1"
      using r by (cases "Comprehensive_identifyColumnTypes E t") simp_all
    have "analysisSteps E s1 = analysisSteps E t1" by (rule steps_same[OF t1(2)])
    then show ?thesis using Inr t1(1) by (simp add: analysis_as_steps andThen_def)
  qed
qed

lemma run_twice:
  assumes "performComprehensiveAnalysis E s = Inr s'"
  shows "data s' = data s \<and> performComprehensiveAnalysis E s' = Inr s'"
proof -
  from assms obtain s1 where i: "Comprehensive_identifyColumnTypes E s = Inr s1"
    and st: "analysisSteps E s1 = Inr s'"
    unfolding analysis_as_steps by (blast dest: andThen_Inr)
  have t1: "sameTable s1 s'" by (rule steps_sameTable[OF st])
  have d: "data s' = data s" using t1 identify_data[OF i] by (simp add: sameTable_def)
  show ?thesis
  proof (cases "data s = Some []")
    case True
    then have "s1 = s" using i by (simp add: identify_empty)
    have i': "Comprehensive_identifyColumnTypes E s' = Inr s'"
      using True d by (simp add: identify_empty)
    have "analysisSteps E s' = Inr s'"
      using st steps_same[OF t1, of E] by simp
    then have "performComprehensiveAnalysis E s' = Inr s'"
      unfolding analysis_as_steps i' by (simp add: andThen_def)
    then show ?thesis using d by simp
  next
    case False
    have "performComprehensiveAnalysis E s' = performComprehensiveAnalysis E s"
      by (rule run_same[OF d False])
    then show ?thesis using d assms by simp
  qed
qed

text \<open>
  Claim C9: when \<open>performComprehensiveAnalysis\<close> returns, the table \<open>data\<close> is the one it
  started from, and a second run from the state it left returns that very state again, so
  the same result aggregate.  Moreover every analyzer state that holds the same table, if
  the table is not empty, is taken to this state, whatever its column lists and results
  were before.
\<close>

theorem analysis_repeatable:
  assumes "performComprehensiveAnalysis E s = Inr s'"
  shows "data s' = data s
         \<and> performComprehensiveAnalysis E s' = Inr s'
         \<and> (\<forall>t. data t = data s \<and> data s \<noteq> Some []
                \<longrightarrow> performComprehensiveAnalysis E t = Inr s')"
  using run_twice[OF assms] run_same[where s = s and E = E] assms by simp

lemma pair_fields:
  "data pairClassified = Some pairTable" "columns pairClassified = [''n'']"
  "numericColumns pairClassified = [''n'']"
  "dateColumns pairClassified = []" "categoricalColumns pairClassified = []"
  "rowsOf pairClassified = pairTable"
  by (simp_all add: pairClassified_def pairInitial_def new_ComprehensiveDataAnalyzer_def rowsOf_def)

lemma pair_classified:
  "Comprehensive_identifyColumnTypes E pairInitial = Inr pairClassified"
  by (simp add: Comprehensive_identifyColumnTypes_def pairInitial_def pairTable_def
      pairClassified_def new_ComprehensiveDataAnalyzer_def objectKeys_def isArrayIndex_def
      Comprehensive_classify_def sampleOf_def parse_eval js_eval lit_7_10 isNaN_def)

lemma pair_values: "columnValues pairTable ''n'' = [Fin 1, Fin 3]"
  by (simp add: columnValues_def pairTable_def parse_eval isNaN_def)

lemma pair_powers:
  "Math_pow (Fin (- 1)) 2 = Fin 1" "Math_pow (Fin 1) 2 = Fin 1"
  "Math_pow (Fin (- 1)) 3 = Fin (- 1)" "Math_pow (Fin 1) 3 = Fin 1"
  "Math_sqrt (Fin 1) = Fin 1"
  by (simp_all add: Math_pow_def Math_sqrt_def js_eval)

lemma pair_stats:
  "calculateDistributionStats [Fin 1, Fin 3]
   = Some \<lparr>d_mean = Fin 2, d_median = Fin 2, d_std = Fin 1, d_skewness = Fin 0,
            d_min = Fin 1, d_max = Fin 3, q1 = Fin 1, q3 = Fin 3\<rparr>"
  by (simp add: calculateDistributionStats_def Let_def meanOf_def medianOf_def varianceOf_def
      skewnessOf_def sum_list_js_def Math_min_def Math_max_def min2_def max2_def js_sort_def
      js_eval pair_powers)

lemma pair_outliers: "detectOutliers [Fin 1, Fin 3] = []"
  by (simp add: detectOutliers_def pair_stats lowerBound_def upperBound_def lit_15_10 js_eval)

lemma pair_names: "formatColumnName ''n'' = ''N''"
  by code_simp

lemma pair_lower:
  "toLowerCase ''n'' = ''n''" "toLowerCase ''spent'' = ''spent''" "toLowerCase ''clicks'' = ''clicks''"
  "toLowerCase ''impressions'' = ''impressions''" "toLowerCase ''cost'' = ''cost''"
  "toLowerCase ''revenue'' = ''revenue''"
  by code_simp+

lemma pair_hasColumns:
  "\<not> hasColumns pairClassified [''impressions'', ''clicks'', ''spent'']"
  "\<not> hasColumns pairClassified [''spent'', ''clicks'']"
  "\<not> hasColumns pairClassified [''cost'', ''revenue'']"
  by (simp_all add: hasColumns_def pair_fields pair_lower)

lemma parse_100: "parseFloat (CStr ''100.0'') = Fin 100"
  by (simp add: parse_eval js_eval)

lemma pair_quality:
  "assessDataQuality reportEngine pairClassified
   = pairClassified\<lparr>analysisResults := (analysisResults pairClassified)
       \<lparr>dataQuality := Some \<lparr>completeness = [(''n'', ''100.0'')], uniqueness = [(''n'', 2)],
          overall = Fin 100\<rparr>\<rparr>\<rparr>"
proof -
  have v: "objectValues [(''n'', ''100.0'')] = [''100.0'']"
    by (simp add: objectValues_def objectKeys_def isArrayIndex_def)
  have q: "js_mul (js_div (num (Suc (Suc 0))) (num (Suc (Suc 0)))) (Fin 100) = Fin 100"
    by (simp add: js_eval)
  have f: "toFixed reportEngine (Fin 100) (Suc 0) = ''100.0''"
    by (simp add: reportEngine_def exampleEngine_def)
  show ?thesis
    by (simp add: assessDataQuality_def Let_def pair_fields pairTable_def nonEmpty_def getCell_def
        objectSet_def f v parse_100 setKey_def js_eval)
qed


lemma pair_sorted:
  "js_sort (\<lambda>a b. js_sub (parseFloat (getCell b ''n'')) (parseFloat (getCell a ''n''))) pairTable
   = [[(''n'', CNum (Fin 3))], [(''n'', CNum (Fin 1))]]"
  by (simp add: js_sort_def pairTable_def parse_eval js_eval)

lemma pair_sum: "sumColumn pairTable ''n'' = Fin 4"
  by (simp add: sumColumn_def pairTable_def parse_eval js_eval)

lemma pair_initial_results:
  "analysisResults pairClassified
   = \<lparr>dataQuality = None, executiveSummary = None, performance = None, demographics = None,
      temporal = None, statistical = None, res_correlations = None, advancedInsights = None,
      recommendations = None\<rparr>"
  by (simp add: pairClassified_def pairInitial_def new_ComprehensiveDataAnalyzer_def)

lemma pair_length: "length pairTable = 2"
  by (simp add: pairTable_def)

lemma pair_steps:
  "analysisSteps reportEngine pairClassified = Inr (pairClassified\<lparr>analysisResults := pairResults\<rparr>)"
  unfolding analysisSteps_def pair_quality
  by (simp add: andThen_def pairResults_def pair_initial_results
      generateExecutiveSummary_def hasColumns_def rowsOf_def pair_fields pair_lower pair_names
      pair_sum pair_sorted pair_values pair_stats pair_outliers
      performPerformanceAnalysis_def performDemographicAnalysis_def
      performTemporalAnalysis_def performStatisticalAnalysis_def performCorrelationAnalysis_def
      significantCorrelations_def generateAdvancedInsights_def generateRecommendations_def
      findBestPerformingSegments_def objectEntries_def objectKeys_def isArrayIndex_def
      objectSet_def parse_100 reportEngine_def exampleEngine_def js_eval Let_def pair_length)

lemma pair_run:
  "performComprehensiveAnalysis reportEngine pairInitial = Inr pairAnalysed"
  by (simp add: analysis_as_steps pair_classified andThen_def pair_steps pairAnalysed_def)

theorem analysis_repeatable_witness:
  "performComprehensiveAnalysis reportEngine pairInitial = Inr pairAnalysed
   \<and> data pairAnalysed = Some pairTable
   \<and> performComprehensiveAnalysis reportEngine pairAnalysed = Inr pairAnalysed
   \<and> performComprehensiveAnalysis reportEngine pairClassified = Inr pairAnalysed"
proof -
  have d: "data pairInitial = Some pairTable" "data pairClassified = data pairInitial"
    "data pairInitial \<noteq> Some []"
    by (simp_all add: pairClassified_def pairInitial_def pairTable_def)
  show ?thesis
    using analysis_repeatable[OF pair_run] pair_run d by simp
qed

section \<open>Column sums\<close>

text \<open>
  Claim C10, as stated, fails: a cell \<open>Infinity\<close> parses to an infinity, which is not NaN
  and is added as it is, and the sum of the two infinities is NaN.
\<close>

theorem sumColumn_NaN_counterexample: "sumColumn infTable ''x'' = NaN"
  by (simp add: sumColumn_def infTable_def parse_eval js_eval js_add_def)

lemma foldl_sum_not_NaN:
  "list_all (\<lambda>r. \<not> is_inf (parseFloat (getCell r c))) rows \<Longrightarrow> acc \<noteq> NaN \<Longrightarrow>
   foldl (\<lambda>sum r. let v = parseFloat (getCell r c)
                   in js_add sum (if isNaN v then Fin 0 else v)) acc rows \<noteq> NaN"
proof (induction rows arbitrary: acc)
  case Nil
  then show ?case by simp
next
  case (Cons r rows)
  have "js_add acc (if isNaN (parseFloat (getCell r c)) then Fin 0 else parseFloat (getCell r c)) \<noteq> NaN"
    using Cons.prems by (intro js_add_not_NaN) (auto simp add: isNaN_def)
  then show ?case using Cons by (simp add: Let_def)
qed

lemma foldl_sum_skip:
  "list_all (\<lambda>r. is_double (parseFloat (getCell r c))) rows \<Longrightarrow> is_double acc \<Longrightarrow> acc \<noteq> NZero \<Longrightarrow>
   foldl (\<lambda>sum r. let v = parseFloat (getCell r c)
                   in js_add sum (if isNaN v then Fin 0 else v)) acc rows
   = foldl js_add acc (columnValues rows c)"
proof (induction rows arbitrary: acc)
  case Nil
  then show ?case by (simp add: columnValues_def)
next
  case (Cons r rows)
  let ?v = "parseFloat (getCell r c)"
  have cv: "columnValues (r # rows) c = (if isNaN ?v then [] else [?v]) @ columnValues rows c"
    by (simp add: columnValues_def)
  show ?case
  proof (cases "isNaN ?v")
    case True
    have "js_add acc (Fin 0) = acc" using Cons.prems by (intro js_add_zero_right)
    then show ?thesis using True Cons cv by (simp add: Let_def)
  next
    case False
    have d: "is_double (js_add acc ?v)" using Cons.prems by (intro js_add_is_double) simp_all
    have z: "js_add acc ?v \<noteq> NZero" using Cons.prems by (intro js_add_not_NZero) simp_all
    show ?thesis using False Cons.prems(1) cv Cons.IH[OF _ d z] by (simp add: Let_def)
  qed
qed

lemma sumColumn_not_NaN:
  "list_all (\<lambda>r. \<not> is_inf (parseFloat (getCell r c))) rows \<Longrightarrow> sumColumn rows c \<noteq> NaN"
  unfolding sumColumn_def using foldl_sum_not_NaN[of c rows "Fin 0"] by simp

lemma rate_not_NaN:
  assumes "ti \<noteq> NaN" "tc \<noteq> NaN" "\<not> (is_inf ti \<and> is_inf tc)"
  shows "(if js_gt ti (Fin 0) then js_mul (js_div tc ti) (Fin 100) else Fin 0) \<noteq> NaN"
proof (cases "js_gt ti (Fin 0)")
  case False
  then show ?thesis by simp
next
  case True
  then have z: "\<not> is_zero ti" by (cases ti) (simp_all add: js_gt_def)
  have d: "js_div tc ti \<noteq> NaN"
    using assms z by (auto simp add: js_div_def rnd_not_NaN inf_s_def zero_s_def)
  have "js_mul (js_div tc ti) (Fin 100) \<noteq> NaN"
    using d by (cases "js_div tc ti") (simp_all add: js_mul_def rnd_not_NaN inf_s_def zero_s_def)
  then show ?thesis using True by simp
qed

lemma summary_metrics_defined:
  assumes "dataQuality (analysisResults s) \<noteq> None"
    and "\<forall>c. list_all (\<lambda>r. \<not> is_inf (parseFloat (getCell r c))) (rowsOf s)"
    and "\<not> (is_inf (sumColumn (rowsOf s) ''impressions'') \<and> is_inf (sumColumn (rowsOf s) ''clicks''))"
  shows "\<exists>s' es. generateExecutiveSummary E s = Inr s'
           \<and> executiveSummary (analysisResults s') = Some es
           \<and> list_all (definedMetric E) (keyMetrics es)"
proof -
  have n: "sumColumn (rowsOf s) c \<noteq> NaN" for c
    using assms(2) by (intro sumColumn_not_NaN) simp
  have r: "(if js_gt (sumColumn (rowsOf s) ''impressions'') (Fin 0)
            then js_mul (js_div (sumColumn (rowsOf s) ''clicks'') (sumColumn (rowsOf s) ''impressions''))
                        (Fin 100)
            else Fin 0) \<noteq> NaN"
    using n assms(3) by (intro rate_not_NaN) simp_all
  obtain dq where dq: "dataQuality (analysisResults s) = Some dq" using assms(1) by auto
  show ?thesis
  proof (cases "hasColumns s [''impressions'', ''clicks'', ''spent'']")
    case True
    show ?thesis
      using True dq n r
      by (simp add: generateExecutiveSummary_def Let_def definedMetric.intros
          definedMetric.currency[simplified])
  next
    case False
    show ?thesis
      using False dq n
      by (simp add: generateExecutiveSummary_def Let_def list_all_iff definedMetric.intros)
  qed
qed


lemma largest_sums:
  "rnd largest = Fin largest" "rnd (2 * largest) = PInf"
proof -
  show "rnd largest = Fin largest"
    by (rule rnd_exact[where m = 1 and e = 1023]) (simp_all add: pow2_def largest_def)
  have "rnd_val (2 ^ 1024) = 2 ^ 1024"
    by (rule rnd_val_exact[where m = 1 and e = 1024]) (simp_all add: pow2_def)
  then have "rnd (2 ^ 1024) = PInf" by (simp only: rnd_PInf)
  moreover have "2 * largest = 2 ^ 1024" by (simp add: largest_def)
  ultimately show "rnd (2 * largest) = PInf" by (simp only:)
qed

lemma overflow_sums:
  "sumColumn overflowTable ''impressions'' = PInf"
  "sumColumn overflowTable ''clicks'' = PInf"
  "sumColumn overflowTable ''spent'' = Fin 2"
  by (simp_all add: sumColumn_def overflowTable_def parseFloat_def getCell_def isNaN_def Let_def
      largest_sums js_add_Fin rnd_numeral rnd_1)

lemma overflow_cells:
  "list_all (\<lambda>r. \<not> is_inf (parseFloat (getCell r k))) overflowTable"
  by (simp add: overflowTable_def parseFloat_def getCell_def)

lemma overflow_state:
  "rowsOf (assessDataQuality E overflowClassified) = overflowTable"
  "dataQuality (analysisResults (assessDataQuality E overflowClassified)) \<noteq> None"
  "columns (assessDataQuality E overflowClassified) = [''impressions'', ''clicks'', ''spent'']"
  by (simp_all add: assessDataQuality_def Let_def rowsOf_def overflowClassified_def
      new_ComprehensiveDataAnalyzer_def)

lemma overflow_lower:
  "toLowerCase ''impressions'' = ''impressions''" "toLowerCase ''clicks'' = ''clicks''"
  "toLowerCase ''spent'' = ''spent''"
  by code_simp+

text \<open>
  Cells that all parse to finite Numbers do not suffice: when the sums of \<open>impressions\<close>
  and of \<open>clicks\<close> both overflow, the click-through rate is \<open>Infinity / Infinity\<close>, and the
  metric \<open>Overall CTR\<close> renders NaN.
\<close>

lemma overflowing_sums_rate:
  "map_sum id (\<lambda>s. map_option (map metric_value \<circ> keyMetrics) (executiveSummary (analysisResults s)))
     (generateExecutiveSummary E (assessDataQuality E overflowClassified))
   = Inr (Some [toLocaleString E PInf, toLocaleString E PInf, ''$'' @ toLocaleString E (Fin 2),
                toFixed E NaN 3 @ ''%''])"
proof -
  obtain dq where dq: "dataQuality (analysisResults (assessDataQuality E overflowClassified)) = Some dq"
    using overflow_state(2) by auto
  have h: "hasColumns (assessDataQuality E overflowClassified) [''impressions'', ''clicks'', ''spent'']"
    by (simp add: hasColumns_def overflow_state overflow_lower)
  show ?thesis
    by (simp add: generateExecutiveSummary_def dq h Let_def overflow_state overflow_sums
        js_gt_def js_div_def js_mul_def)
qed

text \<open>
  Claim C10 (amended): for every column name and every table in which no cell of the
  column parses to an infinity, \<open>sumColumn\<close> is never NaN, and a cell whose \<open>parseFloat\<close>
  is NaN contributes 0: the sum equals the sum of the parseable values of the column.
  Consequently, when no cell of the table parses to an infinity and the sums of
  \<open>impressions\<close> and of \<open>clicks\<close> have not both overflowed to an infinity,
  \<open>generateExecutiveSummary\<close> returns and every key metric it stores renders a Number that
  is not NaN, also when the columns contain unparseable cells.
\<close>

theorem sumColumn_defined:
  "(list_all (\<lambda>r. \<not> is_inf (parseFloat (getCell r c))) rows \<longrightarrow> sumColumn rows c \<noteq> NaN)
   \<and> (list_all (\<lambda>r. is_double (parseFloat (getCell r c))) rows \<longrightarrow>
        sumColumn rows c = sum_list_js (columnValues rows c))
   \<and> (dataQuality (analysisResults s) \<noteq> None
        \<and> (\<forall>k. list_all (\<lambda>r. \<not> is_inf (parseFloat (getCell r k))) (rowsOf s))
        \<and> \<not> (is_inf (sumColumn (rowsOf s) ''impressions'')
               \<and> is_inf (sumColumn (rowsOf s) ''clicks'')) \<longrightarrow>
        (\<exists>s' es. generateExecutiveSummary E s = Inr s'
           \<and> executiveSummary (analysisResults s') = Some es
           \<and> list_all (definedMetric E) (keyMetrics es)))"
proof -
  have z: "is_double (Fin 0)" by (simp add: is_double_def rnd_0)
  have a: "list_all (\<lambda>r. \<not> is_inf (parseFloat (getCell r c))) rows \<longrightarrow> sumColumn rows c \<noteq> NaN"
    using sumColumn_not_NaN by blast
  have b: "list_all (\<lambda>r. is_double (parseFloat (getCell r c))) rows \<longrightarrow>
        sumColumn rows c = sum_list_js (columnValues rows c)"
    unfolding sumColumn_def sum_list_js_def
    using foldl_sum_skip[of c rows "Fin 0", OF _ z] by simp
  show ?thesis using a b summary_metrics_defined[of s E] by blast
qed

lemma gapSeries_cells_finite:
  "list_all (\<lambda>r. \<not> is_inf (parseFloat (getCell r k))) gapSeriesTable"
  "list_all (\<lambda>r. is_double (parseFloat (getCell r ''close''))) gapSeriesTable"
  by (simp_all add: gapSeriesTable_def parse_eval js_eval is_double_def)

lemma gapSeries_sums:
  "sumColumn gapSeriesTable ''close'' = Fin 6"
  "sumColumn gapSeriesTable ''impressions'' = Fin 0"
  "sum_list_js (columnValues gapSeriesTable ''close'') = Fin 6"
  by (simp_all add: sumColumn_def sum_list_js_def columnValues_def gapSeriesTable_def parse_eval
      js_eval)

lemma gapSeries_state:
  "rowsOf (assessDataQuality E gapSeriesClassified) = gapSeriesTable"
  "dataQuality (analysisResults (assessDataQuality E gapSeriesClassified)) \<noteq> None"
  "numericColumns (assessDataQuality E gapSeriesClassified) = [''close'']"
  "columns (assessDataQuality E gapSeriesClassified) = [''day'', ''close'']"
  by (simp_all add: assessDataQuality_def Let_def rowsOf_def gapSeriesClassified_def
      new_ComprehensiveDataAnalyzer_def)

lemma gapSeries_name: "formatColumnName ''close'' = ''Close''"
  by code_simp

lemma gapSeries_lower:
  "toLowerCase ''day'' = ''day''" "toLowerCase ''close'' = ''close''"
  "toLowerCase ''impressions'' = ''impressions''"
  by code_simp+

lemma gapSeries_metrics:
  "map_sum id (\<lambda>s. map_option keyMetrics (executiveSummary (analysisResults s)))
     (generateExecutiveSummary E (assessDataQuality E gapSeriesClassified))
   = Inr (Some [\<lparr>label = ''Close'', metric_value = toLocaleString E (Fin 6),
                  metric_type = ''count''\<rparr>])"
proof -
  obtain dq where dq: "dataQuality (analysisResults (assessDataQuality E gapSeriesClassified)) = Some dq"
    using gapSeries_state(2) by auto
  have h: "\<not> hasColumns (assessDataQuality E gapSeriesClassified) [''impressions'', ''clicks'', ''spent'']"
    by (simp add: hasColumns_def gapSeries_state gapSeries_lower)
  show ?thesis
    by (simp add: generateExecutiveSummary_def dq h Let_def gapSeries_state gapSeries_sums
        gapSeries_name)
qed

theorem sumColumn_defined_witness:
  "list_all (\<lambda>r. \<not> is_inf (parseFloat (getCell r ''close''))) gapSeriesTable
   \<and> list_all (\<lambda>r. is_double (parseFloat (getCell r ''close''))) gapSeriesTable
   \<and> map (\<lambda>r. parseFloat (getCell r ''close'')) gapSeriesTable = [Fin 1, Fin 2, Fin 3, NaN]
   \<and> sumColumn gapSeriesTable ''close'' \<noteq> NaN
   \<and> sumColumn gapSeriesTable ''close'' = sum_list_js (columnValues gapSeriesTable ''close'')
   \<and> sum_list_js (columnValues gapSeriesTable ''close'') = Fin 6
   \<and> dataQuality (analysisResults (assessDataQuality exampleEngine gapSeriesClassified)) \<noteq> None
   \<and> (\<forall>k. list_all (\<lambda>r. \<not> is_inf (parseFloat (getCell r k)))
              (rowsOf (assessDataQuality exampleEngine gapSeriesClassified)))
   \<and> sumColumn (rowsOf (assessDataQuality exampleEngine gapSeriesClassified)) ''impressions'' = Fin 0
   \<and> (\<exists>s' es. generateExecutiveSummary exampleEngine
                  (assessDataQuality exampleEngine gapSeriesClassified) = Inr s'
         \<and> executiveSummary (analysisResults s') = Some es
         \<and> list_all (definedMetric exampleEngine) (keyMetrics es)
         \<and> keyMetrics es = [\<lparr>label = ''Close'', metric_value = toLocaleString exampleEngine (Fin 6),
                               metric_type = ''count''\<rparr>])"
proof -
  let ?s = "assessDataQuality exampleEngine gapSeriesClassified"
  have c: "map (\<lambda>r. parseFloat (getCell r ''close'')) gapSeriesTable = [Fin 1, Fin 2, Fin 3, NaN]"
    by (simp add: gapSeriesTable_def parse_eval js_eval)
  have h2: "\<forall>k. list_all (\<lambda>r. \<not> is_inf (parseFloat (getCell r k))) (rowsOf ?s)"
    by (simp add: gapSeries_state gapSeries_cells_finite)
  have h3: "\<not> (is_inf (sumColumn (rowsOf ?s) ''impressions'') \<and> is_inf (sumColumn (rowsOf ?s) ''clicks''))"
    by (simp add: gapSeries_state gapSeries_sums)
  note T = sumColumn_defined[of "''close''" gapSeriesTable ?s exampleEngine]
  have m: "\<exists>s' es. generateExecutiveSummary exampleEngine ?s = Inr s'
         \<and> executiveSummary (analysisResults s') = Some es
         \<and> list_all (definedMetric exampleEngine) (keyMetrics es)
         \<and> keyMetrics es = [\<lparr>label = ''Close'', metric_value = toLocaleString exampleEngine (Fin 6),
                               metric_type = ''count''\<rparr>]"
    using T gapSeries_state(2)[of exampleEngine] h2 h3 gapSeries_metrics[of exampleEngine]
    by (auto split: sum.splits)
  show ?thesis
    using T gapSeries_cells_finite gapSeries_sums gapSeries_state(1,2)[of exampleEngine] h2 c m
    by simp
qed

end
